theory Spec2Isabelle
  imports Complex_Main
begin

section \<open>Floating-point values\<close>

text \<open>
  The processor computes in C++ \<^verbatim>\<open>float\<close> (IEEE-754 binary32) and, in the transaction
  helpers, \<^verbatim>\<open>double\<close> (binary64). A value is a finite rational, an infinity or NaN.
  Every arithmetic operation computes the exact rational result and rounds it to the
  format (round to nearest, ties to even, gradual underflow, overflow to infinity).
  The two zeros of IEEE-754 are identified: a zero divisor counts as \<open>+0\<close>.
\<close>

datatype fp = Fin rat | PInf | NInf | NaN

record fformat =
  precision :: int
  emin :: int
  emax :: int

definition binary32 :: fformat where
  "binary32 = \<lparr>precision = 24, emin = - 126, emax = 127\<rparr>"

definition binary64 :: fformat where
  "binary64 = \<lparr>precision = 53, emin = - 1022, emax = 1023\<rparr>"

definition pow2 :: "int \<Rightarrow> rat" where
  "pow2 e = (if 0 \<le> e then 2 ^ nat e else 1 / 2 ^ nat (- e))"

text \<open>Number of binary digits of a positive integer.\<close>

function nbits :: "int \<Rightarrow> int" where
  "nbits n = (if n \<le> 0 then 0 else 1 + nbits (n div 2))"
  by pat_completeness auto
termination
  by (relation "measure nat") auto

declare nbits.simps [simp del]

text \<open>The binary exponent of a positive rational \<open>x\<close>: \<open>2 ^ ilog2 x \<le> x < 2 ^ (ilog2 x + 1)\<close>.\<close>

definition ilog2 :: "rat \<Rightarrow> int" where
  "ilog2 x = (case quotient_of x of (a, b) \<Rightarrow>
     (if pow2 (nbits a - nbits b) \<le> x then nbits a - nbits b else nbits a - nbits b - 1))"

definition round_half_even :: "rat \<Rightarrow> int" where
  "round_half_even q =
     (if q - of_int \<lfloor>q\<rfloor> < 1 / 2 then \<lfloor>q\<rfloor>
      else if 1 / 2 < q - of_int \<lfloor>q\<rfloor> then \<lfloor>q\<rfloor> + 1
      else if even \<lfloor>q\<rfloor> then \<lfloor>q\<rfloor> else \<lfloor>q\<rfloor> + 1)"

definition max_finite :: "fformat \<Rightarrow> rat" where
  "max_finite f = (2 - pow2 (1 - precision f)) * pow2 (emax f)"

text \<open>The spacing of the format's values around a positive rational \<open>a\<close>.\<close>

definition ulp_of :: "fformat \<Rightarrow> rat \<Rightarrow> rat" where
  "ulp_of f a = pow2 (max (ilog2 a) (emin f) - precision f + 1)"

definition round_pos :: "fformat \<Rightarrow> rat \<Rightarrow> rat" where
  "round_pos f a = of_int (round_half_even (a / ulp_of f a)) * ulp_of f a"

definition round_fmt :: "fformat \<Rightarrow> rat \<Rightarrow> fp" where
  "round_fmt f x =
     (if x = 0 then Fin 0
      else if max_finite f < round_pos f \<bar>x\<bar> then (if x < 0 then NInf else PInf)
      else Fin (if x < 0 then - round_pos f \<bar>x\<bar> else round_pos f \<bar>x\<bar>))"

fun fadd :: "fformat \<Rightarrow> fp \<Rightarrow> fp \<Rightarrow> fp" where
  "fadd f (Fin x) (Fin y) = round_fmt f (x + y)"
| "fadd f NaN y = NaN"
| "fadd f x NaN = NaN"
| "fadd f PInf NInf = NaN"
| "fadd f NInf PInf = NaN"
| "fadd f PInf y = PInf"
| "fadd f x PInf = PInf"
| "fadd f NInf y = NInf"
| "fadd f x NInf = NInf"

text \<open>The product of an infinity (negative when the flag is set) with a value.\<close>

fun fmul_inf :: "bool \<Rightarrow> fp \<Rightarrow> fp" where
  "fmul_inf neg (Fin y) = (if y = 0 then NaN else if (y < 0) = neg then PInf else NInf)"
| "fmul_inf neg PInf = (if neg then NInf else PInf)"
| "fmul_inf neg NInf = (if neg then PInf else NInf)"
| "fmul_inf neg NaN = NaN"

fun fmul :: "fformat \<Rightarrow> fp \<Rightarrow> fp \<Rightarrow> fp" where
  "fmul f (Fin x) (Fin y) = round_fmt f (x * y)"
| "fmul f NaN y = NaN"
| "fmul f x NaN = NaN"
| "fmul f PInf y = fmul_inf False y"
| "fmul f NInf y = fmul_inf True y"
| "fmul f x PInf = fmul_inf False x"
| "fmul f x NInf = fmul_inf True x"

fun fdiv :: "fformat \<Rightarrow> fp \<Rightarrow> fp \<Rightarrow> fp" where
  "fdiv f (Fin x) (Fin y) =
     (if y = 0 then (if x = 0 then NaN else if 0 < x then PInf else NInf)
      else round_fmt f (x / y))"
| "fdiv f NaN y = NaN"
| "fdiv f x NaN = NaN"
| "fdiv f (Fin x) PInf = Fin 0"
| "fdiv f (Fin x) NInf = Fin 0"
| "fdiv f PInf (Fin y) = (if y < 0 then NInf else PInf)"
| "fdiv f NInf (Fin y) = (if y < 0 then PInf else NInf)"
| "fdiv f PInf y = NaN"
| "fdiv f NInf y = NaN"

text \<open>The comparison \<^verbatim>\<open>a < b\<close>; every comparison with NaN is false.\<close>

fun flt :: "fp \<Rightarrow> fp \<Rightarrow> bool" where
  "flt (Fin x) (Fin y) = (x < y)"
| "flt NaN y = False"
| "flt x NaN = False"
| "flt x NInf = False"
| "flt PInf y = False"
| "flt NInf y = True"
| "flt x PInf = True"

fun fabs :: "fp \<Rightarrow> fp" where
  "fabs (Fin x) = Fin \<bar>x\<bar>"
| "fabs PInf = PInf"
| "fabs NInf = PInf"
| "fabs NaN = NaN"

text \<open>Conversion of a value to a format (\<^verbatim>\<open>static_cast<float>\<close>, an assignment to a
  narrower variable) and of a machine integer to a format.\<close>

fun fcast :: "fformat \<Rightarrow> fp \<Rightarrow> fp" where
  "fcast f (Fin x) = round_fmt f x"
| "fcast f v = v"

definition fp_of_int :: "fformat \<Rightarrow> int \<Rightarrow> fp" where
  "fp_of_int f i = round_fmt f (of_int i)"



section \<open>Messages\<close>

text \<open>
  The protocol-buffer messages the processor reads and writes, with the fields the code
  uses. A repeated field is a list; its accessor \<^verbatim>\<open>f(i)\<close> is list indexing, which the
  library does not bounds-check in release builds.
\<close>

type_synonym ClassId = string
type_synonym ModelName = string
type_synonym ScoreName = string
type_synonym FloatArray = "fp list"

record Token =
  token_class_id :: ClassId
  token_keyword :: string

record Field =
  field_token_id :: "int list"
  field_token_count :: "int list"

record Item =
  item_id :: int
  item_field :: "Field list"

record Batch =
  batch_token :: "string list"
  batch_class_id :: "ClassId list"
  batch_item :: "Item list"

record Mask =
  mask_value :: "bool list"

record DataLoaderCacheEntry =
  cache_batch_uuid :: string
  cache_model_name :: ModelName
  cache_topic_name :: "string list"
  cache_item_id :: "int list"
  cache_theta :: "FloatArray list"
  cache_filename :: "string option"

record ProcessorInput =
  part_batch :: Batch
  part_batch_uuid :: string
  part_stream_name :: "string list"
  part_stream_mask :: "Mask list"
  part_cached_theta :: "DataLoaderCacheEntry list"

text \<open>
  Modelled from the spec: \<^verbatim>\<open>repeated_field_index_of\<close> (artm/core/protobuf_helpers.h) is
  the index of a value in a repeated field, or -1 when the field does not hold it.
\<close>

fun repeated_field_index_of :: "'a list \<Rightarrow> 'a \<Rightarrow> int" where
  "repeated_field_index_of [] v = - 1"
| "repeated_field_index_of (x # xs) v =
     (if x = v then 0
      else (let i = repeated_field_index_of xs v in if i = - 1 then - 1 else i + 1))"

record ModelConfig =
  config_name :: ModelName
  config_topics_count :: int
  config_topic_name :: "string list"
  config_enabled :: bool
  config_inner_iterations_count :: int
  config_use_sparse_bow :: bool
  config_reuse_theta :: bool
  config_use_random_theta :: bool
  config_stream_name :: string
  config_class_id :: "ClassId list"
  config_class_weight :: "fp list"
  config_regularizer_name :: "string list"
  config_regularizer_tau :: "fp list"
  config_score_name :: "ScoreName list"

datatype OperationType = CreateIfNotExist | IncrementValue

record ModelIncrement =
  inc_model_name :: ModelName
  inc_topics_count :: int
  inc_topic_name :: "string list"
  inc_batch_uuid :: "string list"
  inc_token :: "string list"
  inc_class_id :: "ClassId list"
  inc_token_increment :: "FloatArray list"
  inc_operation_type :: "OperationType list"
  inc_cache :: "DataLoaderCacheEntry list"
  inc_score_name :: "ScoreName list"
  inc_score :: "string list"

text \<open>The process-wide configuration, with the options the processor reads.\<close>

record MasterComponentConfig =
  master_cache_theta :: bool
  master_disk_cache_path :: "string option"
  master_merger_queue_max_size :: int

section \<open>Collaborators\<close>

text \<open>
  Modelled from the spec: the topic model (artm/core/topic_model.h) is a read-only
  snapshot mapping a token to its vector of per-topic weights, with the accessors
  \<^verbatim>\<open>has_token\<close>, \<^verbatim>\<open>topic_size\<close>, \<^verbatim>\<open>topic_name\<close> and an iterator over the weights
  of a token.
\<close>

record TopicModel =
  tm_topic_name :: "string list"
  tm_topic_size :: int
  tm_weights :: "Token \<Rightarrow> FloatArray option"

definition has_token :: "TopicModel \<Rightarrow> Token \<Rightarrow> bool" where
  "has_token topic_model token = (tm_weights topic_model token \<noteq> None)"

definition GetTopicWeightIterator :: "TopicModel \<Rightarrow> Token \<Rightarrow> FloatArray" where
  "GetTopicWeightIterator topic_model token = the (tm_weights topic_model token)"

text \<open>The constructor \<^verbatim>\<open>Token(class_id, keyword)\<close>.\<close>

definition Token_new :: "ClassId \<Rightarrow> string \<Rightarrow> Token" where
  "Token_new c k = \<lparr>token_class_id = c, token_keyword = k\<rparr>"

text \<open>
  The regularizer interface (artm/regularizer_interface.h):
  \<^verbatim>\<open>RegularizeTheta(item, &theta_next, topic_name, inner_iter, tau)\<close> returns a success
  flag and may rewrite the vector it is given.
\<close>

type_synonym Regularizer =
  "Item \<Rightarrow> fp list \<Rightarrow> string list \<Rightarrow> int \<Rightarrow> fp \<Rightarrow> bool \<times> fp list"

text \<open>
  The score calculator interface (artm/score_calculator_interface.h), over an abstract
  type of score accumulators.
\<close>

record 's ScoreCalculator =
  is_cumulative :: bool
  CreateScore :: 's
  calc_stream_name :: string
  AppendScore :: "Item \<Rightarrow> Token list \<Rightarrow> TopicModel \<Rightarrow> fp list \<Rightarrow> 's \<Rightarrow> 's"
  SerializeAsString :: "'s \<Rightarrow> string"

text \<open>The instance schema (artm/core/instance_schema.h): a read-only registry.\<close>

record 's InstanceSchema =
  GetModelNames :: "ModelName list"
  schema_model_config :: "ModelName \<Rightarrow> ModelConfig"
  schema_regularizer :: "string \<Rightarrow> Regularizer option"
  schema_score_calculator :: "ScoreName \<Rightarrow> 's ScoreCalculator option"
  schema_config :: MasterComponentConfig

section \<open>Dense and sparse matrices\<close>

text \<open>
  \<^verbatim>\<open>DenseMatrix<float>\<close>: a buffer of \<open>no_rows * no_columns\<close> floats, stored by rows or
  by columns; the buffer is null (empty) unless both dimensions are positive. A fresh
  buffer is uninitialised in C++; every caller overwrites it (by \<^verbatim>\<open>InitializeZeros\<close>, by
  a matrix product or element by element) before it reads it, and the model starts it at
  zero. The assertions of \<^verbatim>\<open>operator()\<close> are compiled out of release builds: an access
  (\<open>get_at\<close>, \<open>set_at\<close>) is the buffer access at the computed offset.
\<close>

record DenseMatrix =
  no_rows :: int
  no_columns :: int
  store_by_rows :: bool
  data :: "fp list"

definition DenseMatrix_new :: "int \<Rightarrow> int \<Rightarrow> bool \<Rightarrow> DenseMatrix" where
  "DenseMatrix_new rows columns by_rows =
     \<lparr>no_rows = rows, no_columns = columns, store_by_rows = by_rows,
      data = (if 0 < rows \<and> 0 < columns then replicate (nat (rows * columns)) (Fin 0) else [])\<rparr>"

definition InitializeZeros :: "DenseMatrix \<Rightarrow> DenseMatrix" where
  "InitializeZeros m = m\<lparr>data := replicate (length (data m)) (Fin 0)\<rparr>"

definition offset :: "DenseMatrix \<Rightarrow> int \<Rightarrow> int \<Rightarrow> nat" where
  "offset m index_row index_col =
     nat (if store_by_rows m then index_row * no_columns m + index_col
          else index_col * no_rows m + index_row)"

definition get_at :: "DenseMatrix \<Rightarrow> int \<Rightarrow> int \<Rightarrow> fp" where
  "get_at m index_row index_col = data m ! offset m index_row index_col"

definition set_at :: "DenseMatrix \<Rightarrow> int \<Rightarrow> int \<Rightarrow> fp \<Rightarrow> DenseMatrix" where
  "set_at m index_row index_col v = m\<lparr>data := (data m)[offset m index_row index_col := v]\<rparr>"

text \<open>
  \<^verbatim>\<open>CsrMatrix<float>\<close>, built from the three vectors and the number of columns.
\<close>

record CsrMatrix =
  csr_m :: int
  csr_n :: int
  csr_nnz :: int
  csr_val :: "fp list"
  csr_row_ptr :: "int list"
  csr_col_ind :: "int list"

definition CsrMatrix_new :: "int \<Rightarrow> fp list \<Rightarrow> int list \<Rightarrow> int list \<Rightarrow> CsrMatrix" where
  "CsrMatrix_new n val row_ptr col_ind =
     \<lparr>csr_m = int (length row_ptr) - 1, csr_n = n, csr_nnz = int (length val),
      csr_val = val, csr_row_ptr = row_ptr, csr_col_ind = col_ind\<rparr>"

text \<open>
  The BLAS binding (artm/utility/blas.h) is a table of kernels the processor is handed.
  A pointer argument is passed as the buffer from the pointed-to element on, and a kernel
  that writes through a pointer returns the new contents from that element on:
  \<^item> \<open>sdot n x y\<close> with both strides 1;
  \<^item> \<open>saxpy n a x y\<close> with both strides 1, returning the new \<open>y\<close>;
  \<^item> \<open>sgemm transa transb m n k alpha a lda b ldb beta c ldc\<close> in row-major order,
    returning the new \<open>c\<close>;
  \<^item> \<open>scsr2csc m n nnz val row_ptr col_ind\<close>, returning the values, the row indices and
    the column pointers of the transpose.
\<close>

record Blas =
  sdot :: "int \<Rightarrow> fp list \<Rightarrow> fp list \<Rightarrow> fp"
  saxpy :: "int \<Rightarrow> fp \<Rightarrow> fp list \<Rightarrow> fp list \<Rightarrow> fp list"
  sgemm :: "bool \<Rightarrow> bool \<Rightarrow> int \<Rightarrow> int \<Rightarrow> int \<Rightarrow> fp \<Rightarrow> fp list \<Rightarrow> int \<Rightarrow>
            fp list \<Rightarrow> int \<Rightarrow> fp \<Rightarrow> fp list \<Rightarrow> int \<Rightarrow> fp list"
  scsr2csc :: "int \<Rightarrow> int \<Rightarrow> int \<Rightarrow> fp list \<Rightarrow> int list \<Rightarrow> int list \<Rightarrow>
               fp list \<times> int list \<times> int list"

text \<open>Writing \<open>n\<close> elements of \<open>new\<close> into a buffer from offset \<open>off\<close> on.\<close>

definition store_at :: "fp list \<Rightarrow> nat \<Rightarrow> nat \<Rightarrow> fp list \<Rightarrow> fp list" where
  "store_at buf off n new = take off buf @ take n new @ drop (off + n) buf"

definition Transpose :: "Blas \<Rightarrow> CsrMatrix \<Rightarrow> CsrMatrix" where
  "Transpose blas a =
     (case scsr2csc blas (csr_m a) (csr_n a) (csr_nnz a) (csr_val a) (csr_row_ptr a) (csr_col_ind a)
      of (val, col_ind, row_ptr_new) \<Rightarrow>
        a\<lparr>csr_m := csr_n a, csr_n := csr_m a, csr_val := val, csr_col_ind := col_ind,
          csr_row_ptr := row_ptr_new\<rparr>)"

text \<open>
  \<^verbatim>\<open>ApplyByElement<operation>\<close>: operation 0 multiplies, operation 1 divides with a zero
  operand giving zero; any other operation only logs an error. The result buffer may be
  one of the operands.
\<close>

definition ApplyByElement :: "int \<Rightarrow> DenseMatrix \<Rightarrow> DenseMatrix \<Rightarrow> DenseMatrix \<Rightarrow> DenseMatrix" where
  "ApplyByElement operation result_matrix first_matrix second_matrix =
     (let size = nat (no_rows first_matrix * no_columns first_matrix);
          first_data = data first_matrix;
          second_data = data second_matrix
      in if operation = 0 then
           result_matrix\<lparr>data :=
             store_at (data result_matrix) 0 size
               (map (\<lambda>i. fmul binary32 (first_data ! i) (second_data ! i)) [0..<size])\<rparr>
         else if operation = 1 then
           result_matrix\<lparr>data :=
             store_at (data result_matrix) 0 size
               (map (\<lambda>i. if first_data ! i = Fin 0 \<or> second_data ! i = Fin 0 then Fin 0
                          else fdiv binary32 (first_data ! i) (second_data ! i)) [0..<size])\<rparr>
         else result_matrix)"

section \<open>Batch preparation\<close>

text \<open>
  \<^verbatim>\<open>InitializeModelIncrement\<close>: the skeleton of the increment, one row per batch token.
\<close>

definition InitializeModelIncrement ::
  "ProcessorInput \<Rightarrow> ModelConfig \<Rightarrow> TopicModel \<Rightarrow> ModelIncrement" where
  "InitializeModelIncrement part model_config topic_model =
     (let batch = part_batch part;
          topic_size = config_topics_count model_config;
          tokens = map (\<lambda>token_index. Token_new (batch_class_id batch ! token_index)
                                                 (batch_token batch ! token_index))
                       [0..<length (batch_token batch)]
      in \<lparr>inc_model_name = config_name model_config,
          inc_topics_count = topic_size,
          inc_topic_name = tm_topic_name topic_model,
          inc_batch_uuid = [part_batch_uuid part],
          inc_token = map token_keyword tokens,
          inc_class_id = map token_class_id tokens,
          inc_token_increment =
            map (\<lambda>token. if has_token topic_model token then replicate (nat topic_size) (Fin 0)
                          else []) tokens,
          inc_operation_type =
            map (\<lambda>token. if has_token topic_model token then IncrementValue
                          else CreateIfNotExist) tokens,
          inc_cache = [],
          inc_score_name = [],
          inc_score = []\<rparr>)"

text \<open>
  \<^verbatim>\<open>ThreadSafeRandom::singleton().GenerateFloat()\<close> is the process-wide generator: the
  model is handed the sequence of floats it returns and threads the number of floats
  drawn so far.
\<close>

type_synonym RandomSource = "nat \<Rightarrow> fp"

text \<open>The column of an item in \<^verbatim>\<open>InitializeTheta\<close>, and the generator position after it.\<close>

definition InitializeTheta_item ::
  "Batch \<Rightarrow> ModelConfig \<Rightarrow> DataLoaderCacheEntry option \<Rightarrow> RandomSource \<Rightarrow>
   DenseMatrix \<times> nat \<Rightarrow> nat \<Rightarrow> DenseMatrix \<times> nat" where
  "InitializeTheta_item batch model_config cache random = (\<lambda>(Theta, drawn) item_index.
     (let topic_size = config_topics_count model_config;
          index_of_item =
            (case cache of
               Some c \<Rightarrow>
                 if config_reuse_theta model_config
                 then repeated_field_index_of (cache_item_id c) (item_id (batch_item batch ! item_index))
                 else - 1
             | None \<Rightarrow> - 1)
      in if index_of_item \<noteq> - 1 \<and> config_reuse_theta model_config then
           (let old_thetas = cache_theta (the cache) ! nat index_of_item
            in (foldl (\<lambda>T topic_index. set_at T (int topic_index) (int item_index)
                                          (old_thetas ! topic_index))
                      Theta [0..<nat topic_size],
                drawn))
         else
           (let default_theta = fdiv binary32 (Fin 1) (fp_of_int binary32 topic_size)
            in (foldl (\<lambda>T iTopic. set_at T (int iTopic) (int item_index)
                                     (if config_use_random_theta model_config
                                      then random (drawn + iTopic) else default_theta))
                      Theta [0..<nat topic_size],
                if config_use_random_theta model_config then drawn + nat topic_size else drawn))))"

definition InitializeTheta ::
  "Batch \<Rightarrow> ModelConfig \<Rightarrow> DataLoaderCacheEntry option \<Rightarrow> RandomSource \<Rightarrow> nat \<Rightarrow>
   DenseMatrix \<times> nat" where
  "InitializeTheta batch model_config cache random drawn =
     (let topic_size = config_topics_count model_config;
          Theta = InitializeZeros
                    (DenseMatrix_new topic_size (int (length (batch_item batch)))
                       (\<not> config_use_sparse_bow model_config))
      in foldl (InitializeTheta_item batch model_config cache random) (Theta, drawn)
               [0..<length (batch_item batch)])"

text \<open>The double-precision literal \<^verbatim>\<open>1e-16\<close> and the single-precision \<^verbatim>\<open>1e-16f\<close>.\<close>

definition lit_1e16 :: fp where
  "lit_1e16 = round_fmt binary64 (1 / 10 ^ 16)"

definition lit_1e16f :: fp where
  "lit_1e16f = round_fmt binary32 (1 / 10 ^ 16)"

definition InitializePhi_token :: "Batch \<Rightarrow> TopicModel \<Rightarrow> DenseMatrix \<Rightarrow> nat \<Rightarrow> DenseMatrix" where
  "InitializePhi_token batch topic_model phi_matrix token_index =
     (let token = Token_new (batch_class_id batch ! token_index) (batch_token batch ! token_index)
      in if has_token topic_model token then
           (let topic_iter = GetTopicWeightIterator topic_model token
            in foldl (\<lambda>phi topic_index.
                        set_at phi (int token_index) (int topic_index)
                          (let v = topic_iter ! topic_index
                           in if flt v lit_1e16 then Fin 0 else v))
                     phi_matrix [0..<nat (tm_topic_size topic_model)])
         else phi_matrix)"

definition InitializePhi :: "Batch \<Rightarrow> ModelConfig \<Rightarrow> TopicModel \<Rightarrow> DenseMatrix option" where
  "InitializePhi batch model_config topic_model =
     (let topic_size = tm_topic_size topic_model;
          token_size = length (batch_token batch);
          phi_matrix = foldl (InitializePhi_token batch topic_model)
                         (InitializeZeros (DenseMatrix_new (int token_size) topic_size True))
                         [0..<token_size];
          phi_is_empty =
            (\<not> list_ex (\<lambda>token_index.
                 has_token topic_model
                   (Token_new (batch_class_id batch ! token_index) (batch_token batch ! token_index)))
               [0..<token_size])
      in if phi_is_empty then None else Some phi_matrix)"

section \<open>Theta regularization and normalization\<close>

text \<open>The loop over the configured regularizers; \<open>i\<close> is the index of the name.\<close>

definition apply_regularizer ::
  "'s InstanceSchema \<Rightarrow> ModelConfig \<Rightarrow> Item \<Rightarrow> int \<Rightarrow> fp list \<Rightarrow> nat \<Rightarrow> fp list" where
  "apply_regularizer schema model_config item inner_iter theta_next i =
     (case schema_regularizer schema (config_regularizer_name model_config ! i) of
        Some regularize \<Rightarrow>
          snd (regularize item theta_next (config_topic_name model_config) inner_iter
                 (config_regularizer_tau model_config ! i))
      | None \<Rightarrow> theta_next)"

definition clip_negative :: "fp list \<Rightarrow> fp list" where
  "clip_negative theta_next = map (\<lambda>x. if flt x (Fin 0) then Fin 0 else x) theta_next"

definition theta_sum :: "int \<Rightarrow> fp list \<Rightarrow> fp" where
  "theta_sum topic_size theta_next =
     foldl (\<lambda>sum_value topic_index. fadd binary32 sum_value (theta_next ! topic_index)) (Fin 0)
           [0..<nat topic_size]"

definition normalized_value :: "fp \<Rightarrow> fp \<Rightarrow> fp" where
  "normalized_value sum_value x =
     (let val = (if flt (Fin 0) sum_value then fdiv binary32 x sum_value else Fin 0)
      in if flt val lit_1e16f then Fin 0 else val)"

text \<open>The vector \<open>theta_next\<close> of an item: its Theta column, regularized, then clipped.\<close>

definition theta_next_of ::
  "int \<Rightarrow> Batch \<Rightarrow> ModelConfig \<Rightarrow> 's InstanceSchema \<Rightarrow> DenseMatrix \<Rightarrow> nat \<Rightarrow> fp list" where
  "theta_next_of inner_iter batch model_config schema Theta d =
     (let topic_size = config_topics_count model_config;
          item = batch_item batch ! d;
          theta_next = map (\<lambda>topic_index. get_at Theta (int topic_index) (int d))
                           [0..<nat topic_size];
          theta_next = foldl (apply_regularizer schema model_config item inner_iter) theta_next
                             [0..<length (config_regularizer_name model_config)]
      in clip_negative theta_next)"

definition RegularizeAndNormalizeTheta_item ::
  "int \<Rightarrow> Batch \<Rightarrow> ModelConfig \<Rightarrow> 's InstanceSchema \<Rightarrow> DenseMatrix \<Rightarrow> nat \<Rightarrow> DenseMatrix" where
  "RegularizeAndNormalizeTheta_item inner_iter batch model_config schema Theta item_index =
     (let topic_size = config_topics_count model_config;
          theta_next = theta_next_of inner_iter batch model_config schema Theta item_index;
          sum_value = theta_sum topic_size theta_next
      in foldl (\<lambda>T topic_index. set_at T (int topic_index) (int item_index)
                                   (normalized_value sum_value (theta_next ! topic_index)))
               Theta [0..<nat topic_size])"

definition RegularizeAndNormalizeTheta ::
  "int \<Rightarrow> Batch \<Rightarrow> ModelConfig \<Rightarrow> 's InstanceSchema \<Rightarrow> DenseMatrix \<Rightarrow> DenseMatrix" where
  "RegularizeAndNormalizeTheta inner_iter batch model_config schema Theta =
     foldl (RegularizeAndNormalizeTheta_item inner_iter batch model_config schema) Theta
           [0..<length (batch_item batch)]"

section \<open>The document-word matrix\<close>

text \<open>
  The \<^verbatim>\<open>std::map\<close> from class id to weight of \<^verbatim>\<open>InitializeSparseNdw\<close>: \<^verbatim>\<open>insert\<close> keeps
  the first weight of a class id that is listed twice.
\<close>

definition class_id_to_weight :: "ModelConfig \<Rightarrow> ClassId \<Rightarrow> fp option" where
  "class_id_to_weight model_config =
     foldl (\<lambda>m i. if m (config_class_id model_config ! i) = None
                   then m(config_class_id model_config ! i \<mapsto> config_class_weight model_config ! i)
                   else m)
           Map.empty [0..<length (config_class_id model_config)]"

definition class_weight_of :: "Batch \<Rightarrow> ModelConfig \<Rightarrow> int \<Rightarrow> fp" where
  "class_weight_of batch model_config token_id =
     (if length (config_class_id model_config) \<noteq> 0 then
        (case class_id_to_weight model_config (batch_class_id batch ! nat token_id) of
           None \<Rightarrow> Fin 0
         | Some w \<Rightarrow> w)
      else Fin 1)"

text \<open>The entries one field appends to \<open>n_dw_val\<close> and \<open>n_dw_col_ind\<close>.\<close>

definition sparse_field_entries :: "Batch \<Rightarrow> ModelConfig \<Rightarrow> Field \<Rightarrow> (fp \<times> int) list" where
  "sparse_field_entries batch model_config field =
     map (\<lambda>token_index.
            (let token_id = field_token_id field ! token_index;
                 class_weight = class_weight_of batch model_config token_id;
                 token_count = fp_of_int binary32 (field_token_count field ! token_index)
             in (fmul binary32 class_weight token_count, token_id)))
         [0..<length (field_token_id field)]"

definition sparse_item_entries :: "Batch \<Rightarrow> ModelConfig \<Rightarrow> Item \<Rightarrow> (fp \<times> int) list" where
  "sparse_item_entries batch model_config current_item =
     concat (map (sparse_field_entries batch model_config) (item_field current_item))"

text \<open>The state of the loop over the items: the three vectors being built.\<close>

definition InitializeSparseNdw_item ::
  "Batch \<Rightarrow> ModelConfig \<Rightarrow> fp list \<times> int list \<times> int list \<Rightarrow> nat \<Rightarrow>
   fp list \<times> int list \<times> int list" where
  "InitializeSparseNdw_item batch model_config = (\<lambda>(n_dw_val, n_dw_row_ptr, n_dw_col_ind) item_index.
     (let entries = sparse_item_entries batch model_config (batch_item batch ! item_index)
      in (n_dw_val @ map fst entries,
          n_dw_row_ptr @ [int (length n_dw_val)],
          n_dw_col_ind @ map snd entries)))"

definition InitializeSparseNdw :: "Batch \<Rightarrow> ModelConfig \<Rightarrow> CsrMatrix" where
  "InitializeSparseNdw batch model_config =
     (case foldl (InitializeSparseNdw_item batch model_config) ([], [], [])
                 [0..<length (batch_item batch)]
      of (n_dw_val, n_dw_row_ptr, n_dw_col_ind) \<Rightarrow>
        CsrMatrix_new (int (length (batch_token batch))) n_dw_val
          (n_dw_row_ptr @ [int (length n_dw_val)]) n_dw_col_ind)"

definition InitializeDenseNdw_field :: "nat \<Rightarrow> DenseMatrix \<Rightarrow> Field \<Rightarrow> DenseMatrix" where
  "InitializeDenseNdw_field item_index n_dw field =
     foldl (\<lambda>m token_index.
              (let token_id = field_token_id field ! token_index;
                   token_count = field_token_count field ! token_index
               in set_at m token_id (int item_index)
                    (fadd binary32 (get_at m token_id (int item_index))
                       (fp_of_int binary32 token_count))))
           n_dw [0..<length (field_token_id field)]"

definition InitializeDenseNdw :: "Batch \<Rightarrow> DenseMatrix" where
  "InitializeDenseNdw batch =
     (let n_dw = InitializeZeros
                   (DenseMatrix_new (int (length (batch_token batch)))
                      (int (length (batch_item batch))) True)
      in foldl (\<lambda>m item_index.
                  foldl (InitializeDenseNdw_field item_index) m
                        (item_field (batch_item batch ! item_index)))
               n_dw [0..<nat (no_columns n_dw)])"

section \<open>The EM inner loops\<close>

text \<open>The address \<^verbatim>\<open>&m(row, col)\<close>: the buffer from that element on.\<close>

definition ptr :: "DenseMatrix \<Rightarrow> int \<Rightarrow> int \<Rightarrow> fp list" where
  "ptr m index_row index_col = drop (offset m index_row index_col) (data m)"

text \<open>Writing through \<^verbatim>\<open>&m(row, col)\<close>: the buffer from that element on is replaced.\<close>

definition write_ptr :: "DenseMatrix \<Rightarrow> int \<Rightarrow> int \<Rightarrow> fp list \<Rightarrow> DenseMatrix" where
  "write_ptr m index_row index_col new =
     m\<lparr>data := take (offset m index_row index_col) (data m) @ new\<rparr>"

text \<open>The index range \<^verbatim>\<open>row_ptr[r] <= i < row_ptr[r + 1]\<close> of a row of a CSR matrix.\<close>

definition csr_row :: "CsrMatrix \<Rightarrow> nat \<Rightarrow> nat list" where
  "csr_row a r = map nat [csr_row_ptr a ! r .. csr_row_ptr a ! (r + 1) - 1]"

text \<open>One step of the innermost loop of the sparse Theta update: entry \<open>i\<close> of document \<open>d\<close>.\<close>

definition sparse_ntd_entry ::
  "Blas \<Rightarrow> CsrMatrix \<Rightarrow> DenseMatrix \<Rightarrow> DenseMatrix \<Rightarrow> nat \<Rightarrow> DenseMatrix \<Rightarrow> nat \<Rightarrow> DenseMatrix" where
  "sparse_ntd_entry blas sparse_ndw phi_matrix theta_matrix d n_td i =
     (let topics_count = no_columns phi_matrix;
          w = csr_col_ind sparse_ndw ! i;
          p_dw_val = sdot blas topics_count (ptr phi_matrix w 0) (ptr theta_matrix 0 (int d))
      in if p_dw_val = Fin 0 then n_td
         else write_ptr n_td 0 (int d)
                (saxpy blas topics_count (fdiv binary32 (csr_val sparse_ndw ! i) p_dw_val)
                   (ptr phi_matrix w 0) (ptr n_td 0 (int d))))"

definition sparse_ntd :: "Blas \<Rightarrow> CsrMatrix \<Rightarrow> DenseMatrix \<Rightarrow> DenseMatrix \<Rightarrow> DenseMatrix" where
  "sparse_ntd blas sparse_ndw phi_matrix theta_matrix =
     (let n_td = InitializeZeros
                   (DenseMatrix_new (no_rows theta_matrix) (no_columns theta_matrix) False);
          docs_count = no_columns theta_matrix
      in foldl (\<lambda>n_td d. foldl (sparse_ntd_entry blas sparse_ndw phi_matrix theta_matrix d) n_td
                                 (csr_row sparse_ndw d))
               n_td [0..<nat docs_count])"

text \<open>One inner iteration of \<^verbatim>\<open>CalculateNwtSparse\<close>.\<close>

definition sparse_inner_iteration ::
  "ModelConfig \<Rightarrow> Batch \<Rightarrow> 's InstanceSchema \<Rightarrow> CsrMatrix \<Rightarrow> DenseMatrix \<Rightarrow> Blas \<Rightarrow>
   DenseMatrix \<Rightarrow> nat \<Rightarrow> DenseMatrix" where
  "sparse_inner_iteration model_config batch schema sparse_ndw phi_matrix blas theta_matrix inner_iter =
     (let n_td = sparse_ntd blas sparse_ndw phi_matrix theta_matrix;
          theta_matrix = ApplyByElement 0 theta_matrix theta_matrix n_td
      in RegularizeAndNormalizeTheta (int inner_iter) batch model_config schema theta_matrix)"

text \<open>One step of the innermost loop of the sparse \<open>n_wt\<close> accumulation: entry \<open>i\<close> of token \<open>w\<close>.\<close>

definition sparse_nwt_entry ::
  "Blas \<Rightarrow> Mask option \<Rightarrow> CsrMatrix \<Rightarrow> DenseMatrix \<Rightarrow> DenseMatrix \<Rightarrow> nat \<Rightarrow> DenseMatrix \<Rightarrow> nat \<Rightarrow>
   DenseMatrix" where
  "sparse_nwt_entry blas stream_mask sparse_nwd phi_matrix theta_matrix w n_wt i =
     (let topics_count = no_columns phi_matrix;
          d = csr_col_ind sparse_nwd ! i
      in if (case stream_mask of Some m \<Rightarrow> mask_value m ! nat d = False | None \<Rightarrow> False) then n_wt
         else
           (let p_wd_val = sdot blas topics_count (ptr phi_matrix (int w) 0) (ptr theta_matrix 0 d)
            in if p_wd_val = Fin 0 then n_wt
               else write_ptr n_wt (int w) 0
                      (saxpy blas topics_count (fdiv binary32 (csr_val sparse_nwd ! i) p_wd_val)
                         (ptr theta_matrix 0 d) (ptr n_wt (int w) 0))))"

text \<open>\<^verbatim>\<open>CalculateNwtSparse\<close> returns \<open>n_wt\<close> and leaves the refined Theta in \<open>theta_matrix\<close>.\<close>

definition CalculateNwtSparse ::
  "ModelConfig \<Rightarrow> Batch \<Rightarrow> Mask option \<Rightarrow> 's InstanceSchema \<Rightarrow> CsrMatrix \<Rightarrow> DenseMatrix \<Rightarrow>
   DenseMatrix \<Rightarrow> Blas \<Rightarrow> DenseMatrix \<times> DenseMatrix" where
  "CalculateNwtSparse model_config batch stream_mask schema sparse_ndw phi_matrix theta_matrix blas =
     (let n_wt = InitializeZeros
                   (DenseMatrix_new (no_rows phi_matrix) (no_columns phi_matrix) True);
          theta_matrix =
            foldl (sparse_inner_iteration model_config batch schema sparse_ndw phi_matrix blas)
                  theta_matrix [0..<nat (config_inner_iterations_count model_config)];
          tokens_count = no_rows phi_matrix;
          sparse_nwd = Transpose blas sparse_ndw;
          n_wt = foldl (\<lambda>n_wt w. foldl (sparse_nwt_entry blas stream_mask sparse_nwd phi_matrix theta_matrix w)
                                         n_wt (csr_row sparse_nwd w))
                       n_wt [0..<nat tokens_count]
      in (ApplyByElement 0 n_wt n_wt phi_matrix, theta_matrix))"

text \<open>The product \<open>Z = phi * theta\<close> followed by \<open>Z = n_dw ./ Z\<close>.\<close>

definition dense_Z :: "Blas \<Rightarrow> DenseMatrix \<Rightarrow> DenseMatrix \<Rightarrow> DenseMatrix \<Rightarrow> DenseMatrix \<Rightarrow> DenseMatrix" where
  "dense_Z blas dense_ndw phi_matrix theta_matrix Z =
     (let Z = Z\<lparr>data :=
                sgemm blas False False (no_rows phi_matrix) (no_columns theta_matrix)
                  (no_columns phi_matrix) (Fin 1) (data phi_matrix) (no_columns phi_matrix)
                  (data theta_matrix) (no_columns theta_matrix) (Fin 0) (data Z)
                  (no_columns theta_matrix)\<rparr>
      in ApplyByElement 1 Z dense_ndw Z)"

text \<open>One inner iteration of \<^verbatim>\<open>CalculateNwtDense\<close>; the state is \<open>Z\<close> and Theta.\<close>

definition dense_inner_iteration ::
  "ModelConfig \<Rightarrow> Batch \<Rightarrow> 's InstanceSchema \<Rightarrow> DenseMatrix \<Rightarrow> DenseMatrix \<Rightarrow> Blas \<Rightarrow>
   DenseMatrix \<times> DenseMatrix \<Rightarrow> nat \<Rightarrow> DenseMatrix \<times> DenseMatrix" where
  "dense_inner_iteration model_config batch schema dense_ndw phi_matrix blas = (\<lambda>(Z, theta_matrix) inner_iter.
     (let Z = dense_Z blas dense_ndw phi_matrix theta_matrix Z;
          prod_trans_phi_Z = DenseMatrix_new (no_columns phi_matrix) (no_columns Z) True;
          prod_trans_phi_Z = prod_trans_phi_Z\<lparr>data :=
                sgemm blas True False (no_columns phi_matrix) (no_columns Z) (no_rows phi_matrix)
                  (Fin 1) (data phi_matrix) (no_columns phi_matrix) (data Z) (no_columns Z)
                  (Fin 0) (data prod_trans_phi_Z) (no_columns Z)\<rparr>;
          theta_matrix = ApplyByElement 0 theta_matrix theta_matrix prod_trans_phi_Z
      in (Z, RegularizeAndNormalizeTheta (int inner_iter) batch model_config schema theta_matrix)))"

text \<open>The compaction of \<open>Z\<close> and Theta to the columns the mask selects.\<close>

definition mask_columns ::
  "Mask \<Rightarrow> DenseMatrix \<Rightarrow> DenseMatrix \<Rightarrow> DenseMatrix \<times> DenseMatrix" where
  "mask_columns stream_mask Z theta_matrix =
     (let true_value_count = int (length (filter (\<lambda>v. v = True) (mask_value stream_mask)));
          masked_Z = DenseMatrix_new (no_rows Z) true_value_count True;
          masked_Theta = DenseMatrix_new (no_rows theta_matrix) true_value_count True
      in case foldl (\<lambda>(masked_Z, masked_Theta, real_index) i.
                 if mask_value stream_mask ! i = True then
                   (foldl (\<lambda>mz j. set_at mz (int j) real_index (get_at Z (int j) (int i)))
                          masked_Z [0..<nat (no_rows Z)],
                    foldl (\<lambda>mt j. set_at mt (int j) real_index (get_at theta_matrix (int j) (int i)))
                          masked_Theta [0..<nat (no_rows theta_matrix)],
                    real_index + 1)
                 else (masked_Z, masked_Theta, real_index))
               (masked_Z, masked_Theta, 0) [0..<length (mask_value stream_mask)]
         of (masked_Z, masked_Theta, real_index) \<Rightarrow> (masked_Z, masked_Theta))"

text \<open>The product \<open>Z * theta\<^sup>T\<close>.\<close>

definition prod_Z_Theta :: "Blas \<Rightarrow> DenseMatrix \<Rightarrow> DenseMatrix \<Rightarrow> DenseMatrix" where
  "prod_Z_Theta blas Z theta_matrix =
     (let p = DenseMatrix_new (no_rows Z) (no_rows theta_matrix) True
      in p\<lparr>data :=
            sgemm blas False True (no_rows Z) (no_rows theta_matrix) (no_columns Z) (Fin 1)
              (data Z) (no_columns Z) (data theta_matrix) (no_columns theta_matrix) (Fin 0)
              (data p) (no_rows theta_matrix)\<rparr>)"

definition CalculateNwtDense ::
  "ModelConfig \<Rightarrow> Batch \<Rightarrow> Mask option \<Rightarrow> 's InstanceSchema \<Rightarrow> DenseMatrix \<Rightarrow> DenseMatrix \<Rightarrow>
   DenseMatrix \<Rightarrow> Blas \<Rightarrow> DenseMatrix \<times> DenseMatrix" where
  "CalculateNwtDense model_config batch stream_mask schema dense_ndw phi_matrix theta_matrix blas =
     (let n_wt = InitializeZeros
                   (DenseMatrix_new (no_rows phi_matrix) (no_columns phi_matrix) True);
          Z = DenseMatrix_new (no_rows phi_matrix) (no_columns theta_matrix) True
      in case foldl (dense_inner_iteration model_config batch schema dense_ndw phi_matrix blas)
                    (Z, theta_matrix) [0..<nat (config_inner_iterations_count model_config)]
         of (Z, theta_matrix) \<Rightarrow>
           (let Z = dense_Z blas dense_ndw phi_matrix theta_matrix Z
            in case stream_mask of
                 Some m \<Rightarrow>
                   (case mask_columns m Z theta_matrix of (masked_Z, masked_Theta) \<Rightarrow>
                      (ApplyByElement 0 n_wt (prod_Z_Theta blas masked_Z masked_Theta) phi_matrix,
                       theta_matrix))
               | None \<Rightarrow>
                   (ApplyByElement 0 n_wt (prod_Z_Theta blas Z theta_matrix) phi_matrix,
                    theta_matrix)))"

section \<open>The processor\<close>

definition FindCacheEntry :: "ProcessorInput \<Rightarrow> ModelConfig \<Rightarrow> DataLoaderCacheEntry option" where
  "FindCacheEntry part model_config =
     find (\<lambda>c. cache_batch_uuid c = part_batch_uuid part \<and>
                cache_model_name c = config_name model_config)
          (part_cached_theta part)"

text \<open>The exceptions the processor throws.\<close>

datatype error =
  ArgumentOutOfRangeException string string
  | InternalError string
  | NullTopicModel

text \<open>
  What a processor holds: the merger's accessor to the latest topic model of a name, the
  schema holder's snapshot, the BLAS binding chosen at start, the process-wide random
  generator, the two collaborators of the disk cache (the generator of fresh
  identifiers, already as strings, and \<^verbatim>\<open>BatchHelpers::SaveMessage\<close>, which says whether it
  succeeded instead of throwing), and the order in which a \<^verbatim>\<open>std::map\<close> keyed by score
  name is traversed.
\<close>

record 's Processor =
  GetLatestTopicModel :: "ModelName \<Rightarrow> TopicModel option"
  schema_get :: "'s InstanceSchema"
  blas_binding :: Blas
  random_source :: RandomSource
  random_uuid :: "nat \<Rightarrow> string"
  SaveMessage :: "string \<Rightarrow> string \<Rightarrow> DataLoaderCacheEntry \<Rightarrow> bool"
  score_order :: "(ScoreName \<times> 's) list \<Rightarrow> (ScoreName \<times> 's) list"

text \<open>The theta of every item, as the cache entries carry it.\<close>

definition theta_columns :: "Batch \<Rightarrow> int \<Rightarrow> DenseMatrix \<Rightarrow> FloatArray list" where
  "theta_columns batch topic_size theta_matrix =
     map (\<lambda>item_index. map (\<lambda>topic_index. get_at theta_matrix (int topic_index) (int item_index))
                            [0..<nat topic_size])
         [0..<length (batch_item batch)]"

record GetThetaMatrixArgs =
  args_model_name :: ModelName

text \<open>
  \<^verbatim>\<open>Processor::FindThetaMatrix\<close>. The result is the cache entry that the code hands to
  \<^verbatim>\<open>BatchHelpers::PopulateThetaMatrixFromCacheEntry\<close> to fill the caller's matrix; it is
  \<open>None\<close> when Phi is empty and the function returns without touching the caller's matrix.
  The argument \<open>drawn\<close> is the number of random floats drawn before the call.
\<close>

definition FindThetaMatrix ::
  "'s Processor \<Rightarrow> nat \<Rightarrow> Batch \<Rightarrow> GetThetaMatrixArgs \<Rightarrow> error + DataLoaderCacheEntry option" where
  "FindThetaMatrix p drawn batch args =
     (let model_name = args_model_name args
      in case GetLatestTopicModel p model_name of
           None \<Rightarrow> Inl (ArgumentOutOfRangeException ''Unable to find topic model'' model_name)
         | Some topic_model \<Rightarrow>
             (let schema = schema_get p;
                  model_config = schema_model_config schema model_name
              in if length (config_class_id model_config) \<noteq> length (config_class_weight model_config)
                 then Inl (InternalError ''model.class_id_size() != model.class_weight_size()'')
                 else
                   (let topic_size = tm_topic_size topic_model
                    in if topic_size \<noteq> config_topics_count model_config
                       then Inl (InternalError
                         ''Topics count mismatch between model config and physical model representation'')
                       else
                         (let theta_matrix =
                                fst (InitializeTheta batch model_config None (random_source p) drawn)
                          in case InitializePhi batch model_config topic_model of
                               None \<Rightarrow> Inr None
                             | Some phi_matrix \<Rightarrow>
                                 (let theta_matrix =
                                        (if config_use_sparse_bow model_config
                                         then snd (CalculateNwtSparse model_config batch None schema
                                                     (InitializeSparseNdw batch model_config)
                                                     phi_matrix theta_matrix (blas_binding p))
                                         else snd (CalculateNwtDense model_config batch None schema
                                                     (InitializeDenseNdw batch)
                                                     phi_matrix theta_matrix (blas_binding p)))
                                  in Inr (Some
                                       \<lparr>cache_batch_uuid = [],
                                        cache_model_name = model_name,
                                        cache_topic_name = tm_topic_name topic_model,
                                        cache_item_id = map item_id (batch_item batch),
                                        cache_theta = theta_columns batch topic_size theta_matrix,
                                        cache_filename = None\<rparr>))))))"

section \<open>Stream iterator\<close>

text \<open>
  \<^verbatim>\<open>Processor::StreamIterator\<close>: a cursor over the items of a processor input. The
  constructor starts it at index -1 with no stream flags.
\<close>

record StreamIterator =
  items_count :: int
  item_index :: int
  stream_flags :: "Mask option"
  processor_input :: ProcessorInput

definition StreamIterator_init :: "ProcessorInput \<Rightarrow> StreamIterator" where
  "StreamIterator_init part =
     \<lparr>items_count = int (length (batch_item (part_batch part))),
      item_index = - 1,
      stream_flags = None,
      processor_input = part\<rparr>"

text \<open>
  \<^verbatim>\<open>Current\<close> returns a null pointer past the end and otherwise the address of the item
  at the cursor (a read outside the batch's items at index -1 or when \<open>items_count\<close>
  exceeds the batch).
\<close>

definition Current :: "StreamIterator \<Rightarrow> Item option" where
  "Current it =
     (if items_count it \<le> item_index it then None
      else Some (batch_item (part_batch (processor_input it)) ! nat (item_index it)))"

text \<open>The loop of \<^verbatim>\<open>Next\<close>: the argument is the cursor before the increment.\<close>

function Next_loop :: "int \<Rightarrow> Mask option \<Rightarrow> int \<Rightarrow> int" where
  "Next_loop count flags idx =
     (if count \<le> idx + 1 then idx + 1
      else if (case flags of None \<Rightarrow> True | Some m \<Rightarrow> mask_value m ! nat (idx + 1)) then idx + 1
      else Next_loop count flags (idx + 1))"
  by pat_completeness auto
termination
  by (relation "measure (\<lambda>(count, flags, idx). nat (count - idx))") auto

declare Next_loop.simps [simp del]

definition Next :: "StreamIterator \<Rightarrow> Item option \<times> StreamIterator" where
  "Next it =
     (let it' = it\<lparr>item_index := Next_loop (items_count it) (stream_flags it) (item_index it)\<rparr>
      in (Current it', it'))"

definition InStream :: "StreamIterator \<Rightarrow> string \<Rightarrow> bool" where
  "InStream it stream_name =
     (if items_count it \<le> item_index it then False
      else (let index_of_stream =
                  repeated_field_index_of (part_stream_name (processor_input it)) stream_name
            in if index_of_stream = - 1 then True
               else mask_value (part_stream_mask (processor_input it) ! nat index_of_stream)
                      ! nat (item_index it)))"

definition InStream_index :: "StreamIterator \<Rightarrow> int \<Rightarrow> bool" where
  "InStream_index it stream_index =
     (if stream_index = - 1 then True
      else if items_count it \<le> item_index it then False
      else mask_value (part_stream_mask (processor_input it) ! nat stream_index)
             ! nat (item_index it))"

lemma Next_loop_advances: "idx < Next_loop count flags idx"
proof (induction count flags idx rule: Next_loop.induct)
  case (1 count flags idx)
  show ?case
  proof (cases "count \<le> idx + 1")
    case True
    then show ?thesis by (subst Next_loop.simps) simp
  next
    case False
    show ?thesis
    proof (cases "case flags of None \<Rightarrow> True | Some m \<Rightarrow> mask_value m ! nat (idx + 1)")
      case True
      with False show ?thesis by (subst Next_loop.simps) simp
    next
      case False
      with \<open>\<not> count \<le> idx + 1\<close> "1.IH" have "idx + 1 < Next_loop count flags (idx + 1)"
        by simp
      with False \<open>\<not> count \<le> idx + 1\<close> show ?thesis
        by (subst Next_loop.simps) simp
    qed
  qed
qed

section \<open>The worker\<close>

text \<open>
  What the worker thread changes while it processes batches: the merger queue (the
  increments it has pushed, oldest first), the number of random floats and of fresh
  identifiers drawn, and the two document-word matrices that the models of one batch
  share.
\<close>

record WorkerState =
  merger_queue :: "ModelIncrement list"
  drawn :: nat
  uuids_drawn :: nat
  sparse_ndw_ptr :: "CsrMatrix option"
  dense_ndw_ptr :: "DenseMatrix option"

text \<open>
  The loop that copies \<open>n_wt\<close> into the increment's rows. It throws on a non-empty row
  whose length is not \<open>topic_size\<close>; the increment then holds the rows copied so far.
\<close>

definition copy_nwt_row ::
  "int \<Rightarrow> DenseMatrix \<Rightarrow> error option \<times> ModelIncrement \<Rightarrow> nat \<Rightarrow> error option \<times> ModelIncrement" where
  "copy_nwt_row topic_size n_wt = (\<lambda>(failure, model_increment) token_index.
     (let hat_n_wt_cur = inc_token_increment model_increment ! token_index
      in if failure \<noteq> None then (failure, model_increment)
         else if length hat_n_wt_cur = 0 then (None, model_increment)
         else if int (length hat_n_wt_cur) \<noteq> topic_size
         then (Some (InternalError ''hat_n_wt_cur->value_size() != topic_size''), model_increment)
         else if inc_operation_type model_increment ! token_index = IncrementValue
         then (None,
               model_increment\<lparr>inc_token_increment :=
                 (inc_token_increment model_increment)
                   [token_index :=
                      foldl (\<lambda>row topic_index.
                               row[topic_index := get_at n_wt (int token_index) (int topic_index)])
                            hat_n_wt_cur [0..<nat topic_size]]\<rparr>)
         else (None, model_increment)))"

definition copy_nwt :: "int \<Rightarrow> DenseMatrix \<Rightarrow> ModelIncrement \<Rightarrow> error option \<times> ModelIncrement" where
  "copy_nwt topic_size n_wt model_increment =
     foldl (copy_nwt_row topic_size n_wt) (None, model_increment) [0..<nat (no_rows n_wt)]"

text \<open>Joining a directory and a file name (\<^verbatim>\<open>boost::filesystem::path::operator/\<close>).\<close>

definition path_join :: "string \<Rightarrow> string \<Rightarrow> string" where
  "path_join dir file = (if dir = [] \<or> last dir = CHR ''/'' then dir @ file else dir @ ''/'' @ file)"

text \<open>The export of the theta cache; the result is the entry added to the increment.\<close>

definition new_cache_entry ::
  "'s Processor \<Rightarrow> ProcessorInput \<Rightarrow> ModelName \<Rightarrow> ModelIncrement \<Rightarrow> int \<Rightarrow> DenseMatrix \<Rightarrow> nat \<Rightarrow>
   DataLoaderCacheEntry" where
  "new_cache_entry p part model_name model_increment topic_size theta_matrix uuid_index =
     (let batch = part_batch part;
          entry = \<lparr>cache_batch_uuid = part_batch_uuid part,
                   cache_model_name = model_name,
                   cache_topic_name = inc_topic_name model_increment,
                   cache_item_id = map item_id (batch_item batch),
                   cache_theta = theta_columns batch topic_size theta_matrix,
                   cache_filename = None\<rparr>
      in case master_disk_cache_path (schema_config (schema_get p)) of
           None \<Rightarrow> entry
         | Some disk_cache_path \<Rightarrow>
             (let file = random_uuid p uuid_index @ ''.cache''
              in if SaveMessage p file disk_cache_path entry
                 then entry\<lparr>cache_filename := Some (path_join disk_cache_path file),
                            cache_theta := [], cache_item_id := []\<rparr>
                 else entry))"

text \<open>
  The score container is a \<^verbatim>\<open>std::map\<close> from score name to accumulator: \<^verbatim>\<open>insert\<close> keeps
  the first accumulator of a name. The model keeps the entries in insertion order; the
  iteration order of the \<^verbatim>\<open>std::map\<close> (by name) is the order of \<open>score_order\<close>, a
  collaborator that sorts the names.
\<close>

definition score_container_init :: "'s InstanceSchema \<Rightarrow> ModelConfig \<Rightarrow> (ScoreName \<times> 's) list" where
  "score_container_init schema model_config =
     foldl (\<lambda>container score_index.
              (let score_name = config_score_name model_config ! score_index
               in case schema_score_calculator schema score_name of
                    None \<Rightarrow> container
                  | Some score_calc \<Rightarrow>
                      if \<not> is_cumulative score_calc then container
                      else if map_of container score_name \<noteq> None then container
                      else container @ [(score_name, CreateScore score_calc)]))
           [] [0..<length (config_score_name model_config)]"

text \<open>The scores of the item under the cursor.\<close>

definition score_item ::
  "'s InstanceSchema \<Rightarrow> TopicModel \<Rightarrow> Token list \<Rightarrow> int \<Rightarrow> DenseMatrix \<Rightarrow> StreamIterator \<Rightarrow> Item \<Rightarrow>
   (ScoreName \<times> 's) list \<Rightarrow> (ScoreName \<times> 's) list" where
  "score_item schema topic_model token_dict topic_size theta_matrix iter item container =
     map (\<lambda>(score_name, score).
            (let score_calc = the (schema_score_calculator schema score_name)
             in if \<not> InStream iter (calc_stream_name score_calc) then (score_name, score)
                else
                  (let item_index = item_index iter;
                       theta_vec = map (\<lambda>topic_index. get_at theta_matrix (int topic_index) item_index)
                                       [0..<nat topic_size]
                   in (score_name, AppendScore score_calc item token_dict topic_model theta_vec score))))
         container"

function score_loop ::
  "'s InstanceSchema \<Rightarrow> TopicModel \<Rightarrow> Token list \<Rightarrow> int \<Rightarrow> DenseMatrix \<Rightarrow> StreamIterator \<Rightarrow>
   (ScoreName \<times> 's) list \<Rightarrow> (ScoreName \<times> 's) list" where
  "score_loop schema topic_model token_dict topic_size theta_matrix iter container =
     (case Next iter of
        (None, iter') \<Rightarrow> container
      | (Some item, iter') \<Rightarrow>
          score_loop schema topic_model token_dict topic_size theta_matrix iter'
            (score_item schema topic_model token_dict topic_size theta_matrix iter' item container))"
  by pat_completeness auto
termination
proof (relation "measure (\<lambda>(schema, topic_model, token_dict, topic_size, theta_matrix, iter, container).
    nat (items_count iter - item_index iter))", goal_cases)
  case 1
  show ?case by simp
next
  case (2 schema topic_model token_dict topic_size theta_matrix iter container x1 x2 item)
  from 2 have x2: "x2 = iter\<lparr>item_index := Next_loop (items_count iter) (stream_flags iter) (item_index iter)\<rparr>"
    and cur: "Current x2 = Some item"
    by (auto simp: Next_def Let_def)
  from cur have "item_index x2 < items_count x2"
    by (auto simp: Current_def split: if_splits)
  moreover have "item_index iter < item_index x2"
    using Next_loop_advances [of "item_index iter" "items_count iter" "stream_flags iter"]
    by (simp add: x2)
  moreover have "items_count x2 = items_count iter" by (simp add: x2)
  ultimately show ?case by simp
qed

declare score_loop.simps [simp del]

text \<open>
  The body of the loop over the model names (the lambda of \<^verbatim>\<open>std::for_each\<close>). The
  increment is pushed onto the merger queue when the scope that created it is left: by
  the normal end, by the early return on an empty Phi, and by the exception of the copy
  loop (the destructor of \<^verbatim>\<open>call_on_destruction\<close> runs during unwinding). An exception
  thrown before the increment exists pushes nothing. The result is the exception, if one
  was thrown; \<open>NullTopicModel\<close> stands for the failed assertion (or the null dereference)
  when the merger has no topic model of an enabled model.
\<close>

definition push :: "ModelIncrement \<Rightarrow> WorkerState \<Rightarrow> WorkerState" where
  "push model_increment st = st\<lparr>merger_queue := merger_queue st @ [model_increment]\<rparr>"

text \<open>The part of the body after the EM loop: the copy of \<open>n_wt\<close>, the theta cache, the scores.\<close>

definition attach_cache ::
  "'s Processor \<Rightarrow> ProcessorInput \<Rightarrow> ModelName \<Rightarrow> int \<Rightarrow> DenseMatrix \<Rightarrow> WorkerState \<Rightarrow>
   ModelIncrement \<Rightarrow> ModelIncrement" where
  "attach_cache p part model_name topic_size theta_matrix st model_increment =
     (if master_cache_theta (schema_config (schema_get p))
      then model_increment\<lparr>inc_cache := inc_cache model_increment @
             [new_cache_entry p part model_name model_increment topic_size theta_matrix
                (uuids_drawn st)]\<rparr>
      else model_increment)"

definition count_uuid :: "'s Processor \<Rightarrow> WorkerState \<Rightarrow> WorkerState" where
  "count_uuid p st =
     (if master_cache_theta (schema_config (schema_get p)) \<and>
         master_disk_cache_path (schema_config (schema_get p)) \<noteq> None
      then st\<lparr>uuids_drawn := uuids_drawn st + 1\<rparr> else st)"

definition attach_scores ::
  "'s Processor \<Rightarrow> ProcessorInput \<Rightarrow> ModelConfig \<Rightarrow> TopicModel \<Rightarrow> int \<Rightarrow> DenseMatrix \<Rightarrow>
   ModelIncrement \<Rightarrow> ModelIncrement" where
  "attach_scores p part model_config topic_model topic_size theta_matrix model_increment =
     (let batch = part_batch part;
          schema = schema_get p;
          token_dict = map (\<lambda>token_index. Token_new (batch_class_id batch ! token_index)
                                                       (batch_token batch ! token_index))
                           [0..<length (batch_token batch)];
          score_container =
            score_order p
              (score_loop schema topic_model token_dict topic_size theta_matrix
                 (StreamIterator_init part) (score_container_init schema model_config))
      in model_increment
           \<lparr>inc_score_name := inc_score_name model_increment @ map fst score_container,
            inc_score := inc_score model_increment @
              map (\<lambda>(score_name, score).
                     SerializeAsString (the (schema_score_calculator schema score_name)) score)
                  score_container\<rparr>)"

definition finish_model ::
  "'s Processor \<Rightarrow> ProcessorInput \<Rightarrow> WorkerState \<Rightarrow> ModelName \<Rightarrow> ModelConfig \<Rightarrow> TopicModel \<Rightarrow>
   ModelIncrement \<Rightarrow> DenseMatrix \<times> DenseMatrix \<Rightarrow> error option \<times> WorkerState" where
  "finish_model p part st model_name model_config topic_model model_increment = (\<lambda>(n_wt, theta_matrix).
     (let topic_size = tm_topic_size topic_model
      in case copy_nwt topic_size n_wt model_increment of
           (Some e, model_increment) \<Rightarrow> (Some e, push model_increment st)
         | (None, model_increment) \<Rightarrow>
             (None,
              push (attach_scores p part model_config topic_model topic_size theta_matrix
                      (attach_cache p part model_name topic_size theta_matrix st model_increment))
                   (count_uuid p st))))"

text \<open>The document-word matrices as the body prepares them for a model.\<close>

definition prepare_ndw :: "Batch \<Rightarrow> ModelConfig \<Rightarrow> WorkerState \<Rightarrow> WorkerState" where
  "prepare_ndw batch model_config st =
     (let st = (if config_use_sparse_bow model_config
                then st\<lparr>sparse_ndw_ptr := Some (InitializeSparseNdw batch model_config)\<rparr>
                else st)
      in if \<not> config_use_sparse_bow model_config \<and> dense_ndw_ptr st = None
         then st\<lparr>dense_ndw_ptr := Some (InitializeDenseNdw batch)\<rparr>
         else st)"

definition model_stream_mask :: "ProcessorInput \<Rightarrow> ModelConfig \<Rightarrow> Mask option" where
  "model_stream_mask part model_config =
     (let model_stream_index =
            repeated_field_index_of (part_stream_name part) (config_stream_name model_config)
      in if model_stream_index \<noteq> - 1
         then Some (part_stream_mask part ! nat model_stream_index) else None)"

definition CalculateNwt ::
  "'s Processor \<Rightarrow> ProcessorInput \<Rightarrow> WorkerState \<Rightarrow> ModelConfig \<Rightarrow> DenseMatrix \<Rightarrow> DenseMatrix \<Rightarrow>
   DenseMatrix \<times> DenseMatrix" where
  "CalculateNwt p part st model_config phi_matrix theta_matrix =
     (if config_use_sparse_bow model_config
      then CalculateNwtSparse model_config (part_batch part) (model_stream_mask part model_config)
             (schema_get p) (the (sparse_ndw_ptr st)) phi_matrix theta_matrix (blas_binding p)
      else CalculateNwtDense model_config (part_batch part) (model_stream_mask part model_config)
             (schema_get p) (the (dense_ndw_ptr st)) phi_matrix theta_matrix (blas_binding p))"

text \<open>The body from the preparation of the matrices on, for an enabled and valid model.\<close>

definition run_model ::
  "'s Processor \<Rightarrow> ProcessorInput \<Rightarrow> WorkerState \<Rightarrow> ModelName \<Rightarrow> ModelConfig \<Rightarrow> TopicModel \<Rightarrow>
   error option \<times> WorkerState" where
  "run_model p part st model_name model_config topic_model =
     (let batch = part_batch part;
          st = prepare_ndw batch model_config st;
          cache = FindCacheEntry part model_config
      in case InitializeTheta batch model_config cache (random_source p) (drawn st) of
           (theta_matrix, drawn') \<Rightarrow>
             (let st = st\<lparr>drawn := drawn'\<rparr>;
                  model_increment = InitializeModelIncrement part model_config topic_model
              in case InitializePhi batch model_config topic_model of
                   None \<Rightarrow> (None, push model_increment st)
                 | Some phi_matrix \<Rightarrow>
                     finish_model p part st model_name model_config topic_model model_increment
                       (CalculateNwt p part st model_config phi_matrix theta_matrix)))"

definition process_model ::
  "'s Processor \<Rightarrow> ProcessorInput \<Rightarrow> WorkerState \<Rightarrow> ModelName \<Rightarrow> error option \<times> WorkerState" where
  "process_model p part st model_name =
     (let model_config = schema_model_config (schema_get p) model_name
      in if \<not> config_enabled model_config then (None, st)
         else if length (config_class_id model_config) \<noteq> length (config_class_weight model_config)
         then (Some (InternalError ''model.class_id_size() != model.class_weight_size()''), st)
         else case GetLatestTopicModel p model_name of
                None \<Rightarrow> (Some NullTopicModel, st)
              | Some topic_model \<Rightarrow>
                  if tm_topic_size topic_model \<noteq> config_topics_count model_config
                  then (Some (InternalError
                    ''Topics count mismatch between model config and physical model representation''), st)
                  else run_model p part st model_name model_config topic_model)"

text \<open>
  \<^verbatim>\<open>std::for_each\<close> over the model names: an exception ends it.
\<close>

fun for_each_model ::
  "'s Processor \<Rightarrow> ProcessorInput \<Rightarrow> ModelName list \<Rightarrow> WorkerState \<Rightarrow> error option \<times> WorkerState" where
  "for_each_model p part [] st = (None, st)"
| "for_each_model p part (model_name # model_names) st =
     (case process_model p part st model_name of
        (Some e, st') \<Rightarrow> (Some e, st')
      | (None, st') \<Rightarrow> for_each_model p part model_names st')"

text \<open>
  One turn of the loop of \<^verbatim>\<open>Processor::ThreadFunction\<close> for a processor input popped from
  the processor queue. The wait for room in the merger queue that ends the turn only
  sleeps; it comes after the increments of the turn have been pushed.
\<close>

definition process_part :: "'s Processor \<Rightarrow> ProcessorInput \<Rightarrow> WorkerState \<Rightarrow> error option \<times> WorkerState" where
  "process_part p part st =
     (let batch = part_batch part
      in if length (batch_class_id batch) \<noteq> length (batch_token batch)
         then (Some (InternalError ''batch.class_id_size() != batch.token_size()''), st)
         else for_each_model p part (GetModelNames (schema_get p))
                (st\<lparr>sparse_ndw_ptr := None, dense_ndw_ptr := None\<rparr>))"

text \<open>
  The worker over the processor inputs it pops, in order; a fatal exception is rethrown
  and ends the thread.
\<close>

fun ThreadFunction :: "'s Processor \<Rightarrow> ProcessorInput list \<Rightarrow> WorkerState \<Rightarrow> error option \<times> WorkerState" where
  "ThreadFunction p [] st = (None, st)"
| "ThreadFunction p (part # parts) st =
     (case process_part p part st of
        (Some e, st') \<Rightarrow> (Some e, st')
      | (None, st') \<Rightarrow> ThreadFunction p parts st')"

section \<open>The transaction inner loop\<close>

text \<open>
  \<^verbatim>\<open>ProcessorTransactionHelpers\<close> work on a later revision of the messages: an item
  carries its token ids and token weights directly, cut into transactions by
  \<open>transaction_start_index\<close>.
\<close>

record TransactionItem =
  titem_token_id :: "int list"
  titem_token_weight :: "fp list"
  titem_transaction_start_index :: "int list"
  titem_transaction_typename_id :: "int list"

record TransactionBatch =
  tbatch_token :: "string list"
  tbatch_class_id :: "ClassId list"
  tbatch_item :: "TransactionItem list"
  tbatch_transaction_typename :: "string list"

record ProcessBatchesArgs =
  args_opt_for_avx :: bool
  args_num_document_passes :: int
  args_transaction_typename :: "string list"
  args_transaction_weight :: "fp list"

text \<open>The interface of \<^verbatim>\<open>PhiMatrix\<close> (artm/core/phi_matrix.h).\<close>

record PhiMatrix =
  phi_topic_size :: int
  phi_token_index :: "Token \<Rightarrow> int"
  phi_get :: "int \<Rightarrow> int \<Rightarrow> fp"

text \<open>
  \<^verbatim>\<open>RegularizeThetaAgentCollection::Apply(d, inner_iter, num_topics, theta, r_td)\<close> is
  handed pointers to the theta column of the document and to the scratch column
  \<open>r_td\<close>; it returns the new contents of the theta column.
\<close>

type_synonym ThetaAgents = "int \<Rightarrow> int \<Rightarrow> int \<Rightarrow> fp list \<Rightarrow> fp list \<Rightarrow> fp list"

definition kTransactionsEps :: fp where
  "kTransactionsEps = round_fmt binary64 (1 / 10 ^ 100)"

text \<open>
  Modelled from the spec: \<^verbatim>\<open>isZero(x, eps)\<close> (artm/core/common.h) holds when the absolute
  value of \<open>x\<close> is below \<open>eps\<close>.
\<close>

definition isZero :: "fp \<Rightarrow> fp \<Rightarrow> bool" where
  "isZero x eps = flt (fabs x) eps"

definition ComputePtdx ::
  "TransactionItem \<Rightarrow> fp \<Rightarrow> int \<Rightarrow> int \<Rightarrow> int \<Rightarrow> int list \<Rightarrow> PhiMatrix \<Rightarrow> fp" where
  "ComputePtdx item init_value start_index end_index topic_id local_token_id_to_global_id p_wt =
     foldl (\<lambda>pre_p_dx_val token_id.
              (let local_id = titem_token_id item ! nat token_id
               in fmul binary64 pre_p_dx_val
                    (phi_get p_wt (local_token_id_to_global_id ! nat local_id) topic_id)))
           init_value [start_index .. end_index - 1]"

definition local_to_global :: "TransactionBatch \<Rightarrow> PhiMatrix \<Rightarrow> int list" where
  "local_to_global batch p_wt =
     map (\<lambda>local_id.
            (let global_id = phi_token_index p_wt
                   (Token_new (tbatch_class_id batch ! local_id) (tbatch_token batch ! local_id))
             in if global_id = - 1 then - 1 else global_id))
         [0..<length (tbatch_token batch)]"

text \<open>The \<^verbatim>\<open>std::unordered_map\<close> from transaction typename to weight; \<^verbatim>\<open>emplace\<close> keeps the
  first weight of a name.\<close>

definition tt_name_to_weight :: "ProcessBatchesArgs \<Rightarrow> string \<Rightarrow> fp option" where
  "tt_name_to_weight args =
     foldl (\<lambda>m i. if m (args_transaction_typename args ! i) = None
                   then m(args_transaction_typename args ! i \<mapsto> args_transaction_weight args ! i)
                   else m)
           Map.empty [0..<length (args_transaction_typename args)]"

definition tt_weight_of :: "ProcessBatchesArgs \<Rightarrow> TransactionBatch \<Rightarrow> TransactionItem \<Rightarrow> nat \<Rightarrow> fp" where
  "tt_weight_of args batch item t_index =
     (let tt_name = tbatch_transaction_typename batch ! nat (titem_transaction_typename_id item ! t_index)
      in if 0 < length (args_transaction_typename args) then
           (case tt_name_to_weight args tt_name of None \<Rightarrow> Fin 0 | Some w \<Rightarrow> w)
         else Fin 1)"

text \<open>The vector \<open>helper_vector\<close> of a transaction and the sum \<open>p_dx_val\<close> of its entries.\<close>

definition helper_vector_of ::
  "TransactionBatch \<Rightarrow> PhiMatrix \<Rightarrow> TransactionItem \<Rightarrow> fp list \<Rightarrow> nat \<Rightarrow> fp list" where
  "helper_vector_of batch p_wt item theta_col t_index =
     (let start_index = titem_transaction_start_index item ! t_index;
          end_index = titem_transaction_start_index item ! (t_index + 1)
      in map (\<lambda>k. ComputePtdx item (theta_col ! k) start_index end_index (int k)
                     (local_to_global batch p_wt) p_wt)
             [0..<nat (phi_topic_size p_wt)])"

definition p_dx_val_of :: "fp list \<Rightarrow> fp" where
  "p_dx_val_of helper_vector = foldl (fadd binary64) (Fin 0) helper_vector"

text \<open>One transaction of one pass over a document: its contribution to \<open>n_td\<close>.\<close>

definition transaction_step ::
  "ProcessBatchesArgs \<Rightarrow> TransactionBatch \<Rightarrow> PhiMatrix \<Rightarrow> TransactionItem \<Rightarrow> fp list \<Rightarrow>
   fp list \<Rightarrow> nat \<Rightarrow> fp list" where
  "transaction_step args batch p_wt item theta_col n_td t_index =
     (let start_index = titem_transaction_start_index item ! t_index;
          n_kdx = titem_token_weight item ! nat start_index;
          tt_weight = tt_weight_of args batch item t_index;
          helper_vector = helper_vector_of batch p_wt item theta_col t_index;
          p_dx_val = p_dx_val_of helper_vector
      in if isZero p_dx_val kTransactionsEps then n_td
         else map (\<lambda>k. fcast binary32
                          (fadd binary64 (n_td ! k)
                             (fdiv binary64
                                (fmul binary64 (fmul binary64 tt_weight n_kdx) (helper_vector ! k))
                                p_dx_val)))
                  [0..<nat (phi_topic_size p_wt)] @ drop (nat (phi_topic_size p_wt)) n_td)"

text \<open>The number of transactions of an item: \<^verbatim>\<open>transaction_start_index_size() - 1\<close>.\<close>

definition transactions_of :: "TransactionItem \<Rightarrow> nat list" where
  "transactions_of item = [0..<nat (int (length (titem_transaction_start_index item)) - 1)]"

text \<open>One pass (inner iteration) over document \<open>d\<close>: the new theta column.\<close>

definition document_pass ::
  "ProcessBatchesArgs \<Rightarrow> TransactionBatch \<Rightarrow> PhiMatrix \<Rightarrow> ThetaAgents \<Rightarrow> nat \<Rightarrow> fp list \<Rightarrow> int \<Rightarrow>
   fp list" where
  "document_pass args batch p_wt theta_agents d theta_col inner_iter =
     (let num_topics = phi_topic_size p_wt;
          item = tbatch_item batch ! d;
          n_td = foldl (transaction_step args batch p_wt item theta_col)
                   (replicate (nat num_topics) (Fin 0)) (transactions_of item);
          theta_col = take (nat num_topics) n_td @ drop (nat num_topics) theta_col
      in theta_agents (int d) inner_iter num_topics theta_col (replicate (nat num_topics) (Fin 0)))"

text \<open>The loop \<^verbatim>\<open>for (inner_iter = 0; inner_iter <= num_document_passes; ++inner_iter)\<close>.\<close>

function document_passes ::
  "ProcessBatchesArgs \<Rightarrow> TransactionBatch \<Rightarrow> PhiMatrix \<Rightarrow> ThetaAgents \<Rightarrow> nat \<Rightarrow> int \<Rightarrow> fp list \<Rightarrow>
   fp list" where
  "document_passes args batch p_wt theta_agents d inner_iter theta_col =
     (if inner_iter \<le> args_num_document_passes args
      then document_passes args batch p_wt theta_agents d (inner_iter + 1)
             (document_pass args batch p_wt theta_agents d theta_col inner_iter)
      else theta_col)"
  by pat_completeness auto
termination
  by (relation "measure (\<lambda>(args, batch, p_wt, theta_agents, d, inner_iter, theta_col).
        nat (args_num_document_passes args + 1 - inner_iter))") auto

declare document_passes.simps [simp del]

text \<open>The values that the second loop stores for a transaction, and its stores.\<close>

definition nwt_values ::
  "ProcessBatchesArgs \<Rightarrow> TransactionBatch \<Rightarrow> fp \<Rightarrow> PhiMatrix \<Rightarrow> TransactionItem \<Rightarrow> fp list \<Rightarrow> nat \<Rightarrow>
   fp list" where
  "nwt_values args batch batch_weight p_wt item theta_col t_index =
     (let start_index = titem_transaction_start_index item ! t_index;
          n_kdx = titem_token_weight item ! nat start_index;
          tt_weight = tt_weight_of args batch item t_index;
          helper_vector = helper_vector_of batch p_wt item theta_col t_index;
          p_dx_val = p_dx_val_of helper_vector
      in map (\<lambda>k. fcast binary32
                     (fdiv binary64
                        (fmul binary64
                           (fmul binary64 (fmul binary64 tt_weight (helper_vector ! k)) n_kdx)
                           batch_weight)
                        p_dx_val))
             [0..<nat (phi_topic_size p_wt)])"

definition nwt_stores ::
  "ProcessBatchesArgs \<Rightarrow> TransactionBatch \<Rightarrow> fp \<Rightarrow> PhiMatrix \<Rightarrow> TransactionItem \<Rightarrow> fp list \<Rightarrow> nat \<Rightarrow>
   (int \<times> fp list) list" where
  "nwt_stores args batch batch_weight p_wt item theta_col t_index =
     (let start_index = titem_transaction_start_index item ! t_index;
          end_index = titem_transaction_start_index item ! (t_index + 1);
          values = nwt_values args batch batch_weight p_wt item theta_col t_index
      in map (\<lambda>token_id. (local_to_global batch p_wt ! nat (titem_token_id item ! nat token_id), values))
             [start_index .. end_index - 1])"

text \<open>
  \<^verbatim>\<open>TransactionInferThetaAndUpdateNwtSparse\<close>. The theta matrix is the list of its columns,
  one per document; the write adapter is the list of the \<^verbatim>\<open>Store(global_id, values)\<close>
  calls it has received, or \<open>None\<close> for a null adapter. The theta cache entry is created
  from the final theta by \<^verbatim>\<open>ProcessorHelpers::CreateThetaCacheEntry\<close>.
\<close>

definition TransactionInferThetaAndUpdateNwtSparse ::
  "ProcessBatchesArgs \<Rightarrow> TransactionBatch \<Rightarrow> fp \<Rightarrow> PhiMatrix \<Rightarrow> ThetaAgents \<Rightarrow> fp list list \<Rightarrow>
   (int \<times> fp list) list option \<Rightarrow> fp list list \<times> (int \<times> fp list) list option" where
  "TransactionInferThetaAndUpdateNwtSparse args batch batch_weight p_wt theta_agents theta_matrix nwt_writer =
     (let docs_count = length theta_matrix;
          theta_matrix = map (\<lambda>d. document_passes args batch p_wt theta_agents d 0 (theta_matrix ! d))
                             [0..<docs_count]
      in case nwt_writer of
           None \<Rightarrow> (theta_matrix, None)
         | Some stored \<Rightarrow>
             (theta_matrix,
              Some (stored @
                concat (map (\<lambda>d. concat (map (nwt_stores args batch batch_weight p_wt
                                                 (tbatch_item batch ! d) (theta_matrix ! d))
                                              (transactions_of (tbatch_item batch ! d))))
                            [0..<docs_count]))))"

section \<open>Predicates of the claims\<close>

text \<open>The increments a step has pushed: what the merger queue holds beyond its old contents.\<close>

definition pushed_by :: "WorkerState \<Rightarrow> WorkerState \<Rightarrow> ModelIncrement list" where
  "pushed_by st st' = drop (length (merger_queue st)) (merger_queue st')"

text \<open>The token of a batch at an index, as the processor builds it.\<close>

definition batch_token_at :: "Batch \<Rightarrow> nat \<Rightarrow> Token" where
  "batch_token_at batch token_index =
     Token_new (batch_class_id batch ! token_index) (batch_token batch ! token_index)"

text \<open>
  The shape of the rows of an increment against a topic model: one row and one operation
  per batch token; \<open>IncrementValue\<close> with \<open>topics_count\<close> values for a token the model
  has, \<open>CreateIfNotExist\<close> with no values for any other.
\<close>

definition increment_rows_ok :: "TopicModel \<Rightarrow> Batch \<Rightarrow> int \<Rightarrow> ModelIncrement \<Rightarrow> bool" where
  "increment_rows_ok topic_model batch topics_count model_increment =
     (length (inc_token_increment model_increment) = length (batch_token batch) \<and>
      length (inc_operation_type model_increment) = length (batch_token batch) \<and>
      list_all (\<lambda>token_index.
          if has_token topic_model (batch_token_at batch token_index)
          then inc_operation_type model_increment ! token_index = IncrementValue \<and>
               length (inc_token_increment model_increment ! token_index) = nat topics_count
          else inc_operation_type model_increment ! token_index = CreateIfNotExist \<and>
               inc_token_increment model_increment ! token_index = [])
        [0..<length (batch_token batch)])"

text \<open>A row the copy loop rejects: not empty and not of length \<open>topic_size\<close>.\<close>

definition bad_row :: "int \<Rightarrow> ModelIncrement \<Rightarrow> nat \<Rightarrow> bool" where
  "bad_row topic_size model_increment token_index =
     (length (inc_token_increment model_increment ! token_index) \<noteq> 0 \<and>
      int (length (inc_token_increment model_increment ! token_index)) \<noteq> topic_size)"

text \<open>The enabled models of the schema, in the order of the model names.\<close>

definition enabled_models :: "'s Processor \<Rightarrow> ModelName list" where
  "enabled_models p =
     filter (\<lambda>model_name. config_enabled (schema_model_config (schema_get p) model_name))
            (GetModelNames (schema_get p))"

text \<open>
  What the increment pushed for a model is: it names the model's configuration and the
  batch, lists the batch's tokens, has rows of the right shape, and is the untouched
  skeleton when Phi is empty.
\<close>

definition is_increment_of :: "'s Processor \<Rightarrow> ProcessorInput \<Rightarrow> ModelIncrement \<Rightarrow> ModelName \<Rightarrow> bool" where
  "is_increment_of p part model_increment model_name =
     (let model_config = schema_model_config (schema_get p) model_name;
          topic_model = the (GetLatestTopicModel p model_name)
      in inc_model_name model_increment = config_name model_config \<and>
         inc_batch_uuid model_increment = [part_batch_uuid part] \<and>
         inc_token model_increment = batch_token (part_batch part) \<and>
         increment_rows_ok topic_model (part_batch part) (config_topics_count model_config)
           model_increment \<and>
         (InitializePhi (part_batch part) model_config topic_model \<noteq> None \<or>
          model_increment = InitializeModelIncrement part model_config topic_model))"

text \<open>The checks an enabled model must pass before its increment is created, and the check
  on the batch.\<close>

definition model_valid :: "'s Processor \<Rightarrow> ModelName \<Rightarrow> bool" where
  "model_valid p model_name =
     (let model_config = schema_model_config (schema_get p) model_name
      in length (config_class_id model_config) = length (config_class_weight model_config) \<and>
         (case GetLatestTopicModel p model_name of
            None \<Rightarrow> False
          | Some topic_model \<Rightarrow> tm_topic_size topic_model = config_topics_count model_config))"

definition batch_valid :: "ProcessorInput \<Rightarrow> bool" where
  "batch_valid part =
     (length (batch_class_id (part_batch part)) = length (batch_token (part_batch part)))"

text \<open>
  The Theta that the preparation and the EM loop produce for a batch and a model from a
  stream mask and a theta cache entry (\<open>n_drawn\<close> random floats having been drawn before).
\<close>

definition refine_theta ::
  "'s Processor \<Rightarrow> nat \<Rightarrow> Batch \<Rightarrow> ModelConfig \<Rightarrow> Mask option \<Rightarrow> DataLoaderCacheEntry option \<Rightarrow>
   DenseMatrix \<Rightarrow> DenseMatrix" where
  "refine_theta p n_drawn batch model_config stream_mask cache phi_matrix =
     (let theta_matrix = fst (InitializeTheta batch model_config cache (random_source p) n_drawn)
      in if config_use_sparse_bow model_config
         then snd (CalculateNwtSparse model_config batch stream_mask (schema_get p)
                     (InitializeSparseNdw batch model_config) phi_matrix theta_matrix (blas_binding p))
         else snd (CalculateNwtDense model_config batch stream_mask (schema_get p)
                     (InitializeDenseNdw batch) phi_matrix theta_matrix (blas_binding p)))"

text \<open>The token counts of the occurrences of a token in a field and in an item, in the
  order of the fields and of the pairs within a field.\<close>

definition occurrences_field :: "Field \<Rightarrow> int \<Rightarrow> int list" where
  "occurrences_field field token_id =
     map (\<lambda>token_index. field_token_count field ! token_index)
         (filter (\<lambda>token_index. field_token_id field ! token_index = token_id)
                 [0..<length (field_token_id field)])"

definition occurrences :: "Batch \<Rightarrow> nat \<Rightarrow> int \<Rightarrow> int list" where
  "occurrences batch d token_id =
     concat (map (\<lambda>field. occurrences_field field token_id)
                 (item_field (batch_item batch ! d)))"

text \<open>Every token id of every field of every item is an index into the batch tokens.\<close>

definition token_ids_in_range :: "Batch \<Rightarrow> bool" where
  "token_ids_in_range batch =
     list_all (\<lambda>item. list_all (\<lambda>field.
        list_all (\<lambda>token_id. 0 \<le> token_id \<and> token_id < int (length (batch_token batch)))
                 (field_token_id field)) (item_field item)) (batch_item batch)"

text \<open>The single-precision accumulation \<^verbatim>\<open>+=\<close> of a list of counts.\<close>

definition accumulate :: "fp \<Rightarrow> int list \<Rightarrow> fp" where
  "accumulate start counts = foldl (\<lambda>acc c. fadd binary32 acc (fp_of_int binary32 c)) start counts"

text \<open>A row-major matrix of the given dimensions with its buffer allocated.\<close>

definition row_major :: "int \<Rightarrow> int \<Rightarrow> DenseMatrix \<Rightarrow> bool" where
  "row_major r c m \<longleftrightarrow> no_rows m = r \<and> no_columns m = c \<and> store_by_rows m \<and>
     length (data m) = nat (r * c)"




section \<open>Examples\<close>

text \<open>
  Modelled from the spec: a built-in BLAS with the reference semantics of the four kernels
  (dot product, \<open>y := a * x + y\<close>, matrix product, CSR transposition), accumulating in
  index order. It serves the examples only; the theorems hold for every binding.
\<close>

definition builtin_sdot :: "int \<Rightarrow> fp list \<Rightarrow> fp list \<Rightarrow> fp" where
  "builtin_sdot n x y =
     foldl (\<lambda>s i. fadd binary32 s (fmul binary32 (x ! i) (y ! i))) (Fin 0) [0..<nat n]"

definition builtin_saxpy :: "int \<Rightarrow> fp \<Rightarrow> fp list \<Rightarrow> fp list \<Rightarrow> fp list" where
  "builtin_saxpy n a x y =
     map (\<lambda>i. fadd binary32 (fmul binary32 a (x ! i)) (y ! i)) [0..<nat n] @ drop (nat n) y"

definition builtin_sgemm ::
  "bool \<Rightarrow> bool \<Rightarrow> int \<Rightarrow> int \<Rightarrow> int \<Rightarrow> fp \<Rightarrow> fp list \<Rightarrow> int \<Rightarrow> fp list \<Rightarrow> int \<Rightarrow> fp \<Rightarrow>
   fp list \<Rightarrow> int \<Rightarrow> fp list" where
  "builtin_sgemm transa transb m n k alpha a lda b ldb beta c ldc =
     map (\<lambda>idx.
            (let i = idx div nat n; j = idx mod nat n;
                 acc = foldl (\<lambda>s l. fadd binary32 s
                                (fmul binary32
                                   (a ! (if transa then l * nat lda + i else i * nat lda + l))
                                   (b ! (if transb then j * nat ldb + l else l * nat ldb + j))))
                             (Fin 0) [0..<nat k]
             in if beta = Fin 0 then fmul binary32 alpha acc
                else fadd binary32 (fmul binary32 alpha acc) (fmul binary32 beta (c ! idx))))
         [0..<nat (m * n)] @ drop (nat (m * n)) c"

definition builtin_scsr2csc ::
  "int \<Rightarrow> int \<Rightarrow> int \<Rightarrow> fp list \<Rightarrow> int list \<Rightarrow> int list \<Rightarrow> fp list \<times> int list \<times> int list" where
  "builtin_scsr2csc m n nnz val row_ptr col_ind =
     (let entries = concat (map (\<lambda>r. map (\<lambda>i. (col_ind ! nat i, int r, val ! nat i))
                                          [row_ptr ! r .. row_ptr ! (r + 1) - 1])
                                [0..<nat m]);
          by_col = map (\<lambda>c. filter (\<lambda>e. fst e = int c) entries) [0..<nat n]
      in (map (\<lambda>e. snd (snd e)) (concat by_col),
          map (\<lambda>e. fst (snd e)) (concat by_col),
          map (\<lambda>c. int (length (concat (take c by_col)))) [0..<nat n + 1]))"

definition builtin_blas :: Blas where
  "builtin_blas = \<lparr>sdot = builtin_sdot, saxpy = builtin_saxpy, sgemm = builtin_sgemm,
                    scsr2csc = builtin_scsr2csc\<rparr>"

text \<open>
  The scenario of one item with one occurrence of one token, one topic, Phi = [[1]],
  one inner iteration and no regularizers. The schema lists a sparse model, a disabled
  model, a dense model and a model whose topic model does not know the token.
\<close>

definition example_config :: "ModelName \<Rightarrow> bool \<Rightarrow> bool \<Rightarrow> ModelConfig" where
  "example_config name en sparse =
     \<lparr>config_name = name, config_topics_count = 1, config_topic_name = [''topic''],
      config_enabled = en, config_inner_iterations_count = 1,
      config_use_sparse_bow = sparse, config_reuse_theta = False,
      config_use_random_theta = False, config_stream_name = ''train'',
      config_class_id = [], config_class_weight = [],
      config_regularizer_name = [], config_regularizer_tau = [], config_score_name = []\<rparr>"

definition example_schema :: "unit InstanceSchema" where
  "example_schema =
     \<lparr>GetModelNames = [''sparse'', ''off'', ''dense'', ''empty''],
      schema_model_config = (\<lambda>name. example_config name (name \<noteq> ''off'') (name = ''sparse'')),
      schema_regularizer = (\<lambda>name. None),
      schema_score_calculator = (\<lambda>name. None),
      schema_config = \<lparr>master_cache_theta = True, master_disk_cache_path = None,
                        master_merger_queue_max_size = 10\<rparr>\<rparr>"

definition example_topic_model :: "bool \<Rightarrow> TopicModel" where
  "example_topic_model known =
     \<lparr>tm_topic_name = [''topic''], tm_topic_size = 1,
      tm_weights = (\<lambda>token. if known \<and> token = Token_new ''c'' ''a'' then Some [Fin 1] else None)\<rparr>"

definition example_processor :: "unit Processor" where
  "example_processor =
     \<lparr>GetLatestTopicModel = (\<lambda>name. Some (example_topic_model (name \<noteq> ''empty''))),
      schema_get = example_schema,
      blas_binding = builtin_blas,
      random_source = (\<lambda>n. Fin 0),
      random_uuid = (\<lambda>n. ''id''),
      SaveMessage = (\<lambda>file path entry. True),
      score_order = (\<lambda>scores. scores)\<rparr>"

definition example_batch :: Batch where
  "example_batch =
     \<lparr>batch_token = [''a''], batch_class_id = [''c''],
      batch_item = [\<lparr>item_id = 7, item_field = [\<lparr>field_token_id = [0], field_token_count = [1]\<rparr>]\<rparr>]\<rparr>"

definition example_input :: ProcessorInput where
  "example_input =
     \<lparr>part_batch = example_batch, part_batch_uuid = ''u'', part_stream_name = [],
      part_stream_mask = [], part_cached_theta = []\<rparr>"

definition example_state :: WorkerState where
  "example_state = \<lparr>merger_queue = [], drawn = 0, uuids_drawn = 0,
                     sparse_ndw_ptr = None, dense_ndw_ptr = None\<rparr>"

text \<open>The increments the worker pushes in the scenario.\<close>

definition example_increment :: "ModelName \<Rightarrow> bool \<Rightarrow> bool \<Rightarrow> ModelIncrement" where
  "example_increment name sparse known =
     \<lparr>inc_model_name = name, inc_topics_count = 1, inc_topic_name = [''topic''],
      inc_batch_uuid = [''u''], inc_token = [''a''], inc_class_id = [''c''],
      inc_token_increment = [if known then [Fin 1] else []],
      inc_operation_type = [if known then IncrementValue else CreateIfNotExist],
      inc_cache = (if known then
         [\<lparr>cache_batch_uuid = ''u'', cache_model_name = name, cache_topic_name = [''topic''],
           cache_item_id = [7], cache_theta = [[Fin 1]], cache_filename = None\<rparr>] else []),
      inc_score_name = [], inc_score = []\<rparr>"

text \<open>A processor whose only model is enabled and lists a class id without a weight.\<close>

definition broken_processor :: "unit Processor" where
  "broken_processor =
     example_processor\<lparr>schema_get :=
       example_schema\<lparr>GetModelNames := [''broken''],
         schema_model_config := (\<lambda>name. (example_config name True True)\<lparr>config_class_id := [''c'']\<rparr>)\<rparr>\<rparr>"

text \<open>A processor input with one item and one stream that masks the item out, and the
  stream iterator over it after one and after two calls of \<^verbatim>\<open>Next\<close>.\<close>

definition example_part :: ProcessorInput where
  "example_part =
     \<lparr>part_batch = \<lparr>batch_token = [''a''], batch_class_id = [''c''],
                     batch_item = [\<lparr>item_id = 7, item_field = []\<rparr>]\<rparr>,
      part_batch_uuid = ''u'', part_stream_name = [''train''],
      part_stream_mask = [\<lparr>mask_value = [False]\<rparr>], part_cached_theta = []\<rparr>"

definition example_it1 :: StreamIterator where
  "example_it1 = snd (Next (StreamIterator_init example_part))"

definition example_it2 :: StreamIterator where
  "example_it2 = snd (Next example_it1)"

text \<open>A processor whose merger holds a topic model for the sparse model only.\<close>

definition partial_processor :: "unit Processor" where
  "partial_processor =
     example_processor\<lparr>GetLatestTopicModel :=
       (\<lambda>name. if name = ''sparse'' then Some (example_topic_model True) else None)\<rparr>"

text \<open>A Phi matrix of one topic in which every token has weight 0, a batch of one item
  with one transaction over one token, arguments with \<open>num_document_passes = 1\<close> and no
  transaction weights, and a collection of no regularization agents.\<close>

definition zero_phi :: PhiMatrix where
  "zero_phi = \<lparr>phi_topic_size = 1, phi_token_index = (\<lambda>token. 0), phi_get = (\<lambda>token_id topic_id. Fin 0)\<rparr>"

definition example_transaction_batch :: TransactionBatch where
  "example_transaction_batch =
     \<lparr>tbatch_token = [''a''], tbatch_class_id = [''c''],
      tbatch_item = [\<lparr>titem_token_id = [0], titem_token_weight = [Fin 1],
                      titem_transaction_start_index = [0, 1],
                      titem_transaction_typename_id = [0]\<rparr>],
      tbatch_transaction_typename = [''t'']\<rparr>"

definition example_args :: ProcessBatchesArgs where
  "example_args = \<lparr>args_opt_for_avx = True, args_num_document_passes = 1,
                    args_transaction_typename = [], args_transaction_weight = []\<rparr>"

definition no_agents :: ThetaAgents where
  "no_agents = (\<lambda>d inner_iter num_topics theta r_td. theta)"

text \<open>A batch of three tokens of three classes and one item with two fields, and a sparse
  model that lists the first two classes with the weights 2 and 3.\<close>

definition example_class_batch :: Batch where
  "example_class_batch =
     \<lparr>batch_token = [''a'', ''b'', ''x''], batch_class_id = [''c'', ''e'', ''u''],
      batch_item = [\<lparr>item_id = 7,
                      item_field = [\<lparr>field_token_id = [0, 1], field_token_count = [2, 3]\<rparr>,
                                    \<lparr>field_token_id = [1, 2], field_token_count = [1, 4]\<rparr>]\<rparr>]\<rparr>"

definition example_class_config :: ModelConfig where
  "example_class_config =
     (example_config ''classes'' True True)
       \<lparr>config_class_id := [''c'', ''e''], config_class_weight := [Fin 2, Fin 3]\<rparr>"

text \<open>A model of 35 topics without regularizers, and a Theta of one item whose column is
  a 1 followed by 34 entries \<open>2\<^sup>-\<^sup>2\<^sup>5\<close>.\<close>

definition example_wide_config :: ModelConfig where
  "example_wide_config = (example_config ''wide'' True True)\<lparr>config_topics_count := 35\<rparr>"

definition example_wide_column :: "fp list" where
  "example_wide_column = Fin 1 # replicate 34 (Fin (1 / 2 ^ 25))"


text \<open>A batch of one token that occurs three times in its one item, with the counts
  \<open>2\<^sup>2\<^sup>4\<close>, 1 and 1.\<close>

definition example_big_batch :: Batch where
  "example_big_batch =
     \<lparr>batch_token = [''a''], batch_class_id = [''c''],
      batch_item = [\<lparr>item_id = 7,
                      item_field = [\<lparr>field_token_id = [0, 0, 0],
                                     field_token_count = [16777216, 1, 1]\<rparr>]\<rparr>]\<rparr>"

section \<open>Properties of the floating-point operations\<close>

lemma pow2_powi: "pow2 e = 2 powi e"
  by (simp add: pow2_def power_int_def inverse_eq_divide power_one_over)

lemma pow2_pos [simp]: "0 < pow2 e"
  by (simp add: pow2_powi)

lemma pow2_add: "pow2 (a + b) = pow2 a * pow2 b"
  by (simp add: pow2_powi power_int_add)

lemma pow2_mono: "a \<le> b \<Longrightarrow> pow2 a \<le> pow2 b"
  by (simp add: pow2_powi power_int_increasing)

lemma pow2_strict_mono: "a < b \<Longrightarrow> pow2 a < pow2 b"
  by (simp add: pow2_powi power_int_strict_increasing)

lemma pow2_minus: "pow2 (- k) = 1 / pow2 k"
  by (simp add: pow2_powi power_int_minus_divide)

lemma pow2_nat: "pow2 (int n) = 2 ^ n"
  by (simp add: pow2_def)

lemma pow2_0 [simp]: "pow2 0 = 1"
  by (simp add: pow2_def)

lemma pow2_Suc: "pow2 (e + 1) = 2 * pow2 e"
  by (simp add: pow2_powi power_int_add)

lemma nbits_pos: "0 < n \<Longrightarrow> 1 \<le> nbits n"
proof (induction n rule: nbits.induct)
  case (1 n)
  then show ?case
    by (subst nbits.simps) (cases "0 < n div 2"; simp add: nbits.simps)
qed

lemma nbits_bounds:
  "0 < n \<Longrightarrow> 2 ^ nat (nbits n - 1) \<le> n \<and> n < 2 ^ nat (nbits n)"
proof (induction n rule: nbits.induct)
  case (1 n)
  show ?case
  proof (cases "n div 2 = 0")
    case True
    with "1.prems" have "n = 1" by presburger
    then show ?thesis by (simp add: nbits.simps)
  next
    case False
    with "1.prems" have pos: "0 < n div 2" by presburger
    with "1.IH" "1.prems" have ih: "2 ^ nat (nbits (n div 2) - 1) \<le> n div 2"
      "n div 2 < 2 ^ nat (nbits (n div 2))" by simp_all
    have k: "1 \<le> nbits (n div 2)" using pos by (rule nbits_pos)
    have eq: "nbits n = 1 + nbits (n div 2)"
      using "1.prems" by (subst nbits.simps) simp
    have s: "nat (nbits (n div 2)) = Suc (nat (nbits (n div 2) - 1))"
      using k by simp
    have "2 * 2 ^ nat (nbits (n div 2) - 1) \<le> 2 * (n div 2)" using ih(1) by simp
    also have "\<dots> \<le> n" by presburger
    finally have lo: "2 ^ nat (nbits (n div 2)) \<le> n" by (subst s) simp
    have "n div 2 + 1 \<le> 2 ^ nat (nbits (n div 2))" using ih(2) by simp
    then have "2 * (n div 2) + 2 \<le> 2 * 2 ^ nat (nbits (n div 2))" by simp
    moreover have "n < 2 * (n div 2) + 2" by presburger
    ultimately have hi: "n < 2 * 2 ^ nat (nbits (n div 2))" by linarith
    have n1: "nat (nbits n - 1) = nat (nbits (n div 2))" by (simp add: eq)
    have n2: "nat (nbits n) = Suc (nat (nbits (n div 2)))" using k by (simp add: eq)
    show ?thesis using lo hi by (simp add: n1 n2)
  qed
qed

lemma nbits_bounds_pow2:
  assumes "0 < n"
  shows "pow2 (nbits n - 1) \<le> of_int n" and "of_int n < pow2 (nbits n)"
proof -
  have k: "1 \<le> nbits n" using assms by (rule nbits_pos)
  from nbits_bounds [OF assms] have a: "2 ^ nat (nbits n - 1) \<le> n" and b: "n < 2 ^ nat (nbits n)"
    by simp_all
  have "(of_int (2 ^ nat (nbits n - 1)) :: rat) \<le> of_int n" using a by (simp only: of_int_le_iff)
  then show "pow2 (nbits n - 1) \<le> of_int n" using k by (simp add: pow2_def)
  have "(of_int n :: rat) < of_int (2 ^ nat (nbits n))" using b by (simp only: of_int_less_iff)
  then show "of_int n < pow2 (nbits n)" using k by (simp add: pow2_def)
qed

lemma ilog2_bounds:
  assumes "0 < x"
  shows "pow2 (ilog2 x) \<le> x" and "x < pow2 (ilog2 x + 1)"
proof -
  obtain a b where q: "quotient_of x = (a, b)" by (cases "quotient_of x")
  have b: "0 < b" using q by (rule quotient_of_denom_pos)
  have x: "x = of_int a / of_int b" using q by (rule quotient_of_div)
  have a: "0 < a" using assms b by (simp add: x zero_less_divide_iff)
  define k where "k = nbits a - nbits b"
  have il: "ilog2 x = (if pow2 k \<le> x then k else k - 1)"
    by (simp add: ilog2_def q k_def)
  note A = nbits_bounds_pow2 [OF a] and B = nbits_bounds_pow2 [OF b]
  have bpos: "(0::rat) < of_int b" using b by simp
  have "x * of_int b = of_int a" using b by (simp add: x)
  have lo: "pow2 (k - 1) < x"
  proof -
    have "pow2 (k - 1) * of_int b < pow2 (k - 1) * pow2 (nbits b)"
      using B(2) by simp
    also have "\<dots> = pow2 (nbits a - 1)"
      by (simp add: pow2_add [symmetric] k_def)
    also have "\<dots> \<le> of_int a" by (rule A(1))
    finally show ?thesis using bpos by (simp add: x pos_less_divide_eq)
  qed
  have hi: "x < pow2 (k + 1)"
  proof -
    have "of_int a < pow2 (nbits a)" by (rule A(2))
    also have "\<dots> = pow2 (k + 1) * pow2 (nbits b - 1)"
      by (simp add: pow2_add [symmetric] k_def)
    also have "\<dots> \<le> pow2 (k + 1) * of_int b"
      using B(1) by simp
    finally show ?thesis using bpos by (simp add: x pos_divide_less_eq)
  qed
  show "pow2 (ilog2 x) \<le> x" using lo by (simp add: il)
  show "x < pow2 (ilog2 x + 1)" using hi by (simp add: il not_le)
qed

lemma ilog2_unique:
  assumes "0 < x" "pow2 e \<le> x" "x < pow2 (e + 1)"
  shows "ilog2 x = e"
proof (rule ccontr)
  assume ne: "ilog2 x \<noteq> e"
  note I = ilog2_bounds [OF assms(1)]
  show False
  proof (cases "ilog2 x < e")
    case True
    then have "pow2 (ilog2 x + 1) \<le> pow2 e" by (intro pow2_mono) simp
    with I(2) assms(2) show False by simp
  next
    case False
    with ne have "e + 1 \<le> ilog2 x" by simp
    then have "pow2 (e + 1) \<le> pow2 (ilog2 x)" by (rule pow2_mono)
    with I(1) assms(3) show False by simp
  qed
qed

lemma round_half_even_of_int [simp]: "round_half_even (of_int n) = n"
  by (simp add: round_half_even_def)

lemma round_half_even_eqI:
  assumes "of_int n - 1 / 2 < q" "q < of_int n + 1 / 2"
  shows "round_half_even q = n"
proof (cases "of_int n \<le> q")
  case True
  with assms have "\<lfloor>q\<rfloor> = n" by (intro floor_unique) simp_all
  with assms show ?thesis by (simp add: round_half_even_def)
next
  case False
  with assms have "\<lfloor>q\<rfloor> = n - 1" by (intro floor_unique) simp_all
  with assms False show ?thesis by (simp add: round_half_even_def)
qed

lemma round_half_even_tie:
  assumes "q = of_int n + 1 / 2"
  shows "round_half_even q = (if even n then n else n + 1)"
proof -
  have "\<lfloor>q\<rfloor> = n" using assms by (intro floor_unique) simp_all
  with assms show ?thesis by (simp add: round_half_even_def)
qed

lemma round_half_even_nonneg: "0 \<le> q \<Longrightarrow> 0 \<le> round_half_even q"
  by (auto simp: round_half_even_def)

lemma round_pos_nonneg: "0 \<le> a \<Longrightarrow> 0 \<le> round_pos f a"
proof -
  assume "0 \<le> a"
  then have "0 \<le> a / ulp_of f a" by (intro divide_nonneg_pos) (simp_all add: ulp_of_def)
  then have "0 \<le> round_half_even (a / ulp_of f a)" by (rule round_half_even_nonneg)
  then show ?thesis by (simp add: round_pos_def ulp_of_def less_imp_le)
qed

lemma round_fmt_0 [simp]: "round_fmt f 0 = Fin 0"
  by (simp add: round_fmt_def)

lemma round_fmt_nonneg:
  assumes "0 \<le> x"
  shows "round_fmt f x = PInf \<or> (\<exists>y. round_fmt f x = Fin y \<and> 0 \<le> y)"
  using assms round_pos_nonneg [of x f] by (auto simp: round_fmt_def)

text \<open>Evaluation of a rounding from the exponent and the rounded significand.\<close>

lemma round_fmt_eval:
  assumes "0 < x" "pow2 e \<le> x" "x < pow2 (e + 1)"
    and "u = pow2 (max e (emin f) - precision f + 1)"
    and "round_half_even (x / u) = n"
    and "of_int n * u \<le> max_finite f"
  shows "round_fmt f x = Fin (of_int n * u)"
proof -
  have "ilog2 x = e" using assms(1-3) by (rule ilog2_unique)
  then have "round_pos f x = of_int n * u"
    using assms(4,5) by (simp add: round_pos_def ulp_of_def)
  with assms(1,6) show ?thesis by (simp add: round_fmt_def)
qed

lemma round_fmt_minus:
  "round_fmt f (- x) = (case round_fmt f x of Fin y \<Rightarrow> Fin (- y) | PInf \<Rightarrow> NInf | NInf \<Rightarrow> PInf | NaN \<Rightarrow> NaN)"
  by (cases "x = 0"; cases "x < 0") (auto simp: round_fmt_def)

lemma round_fmt_evalI:
  assumes "0 < x" "pow2 e \<le> x" "x < pow2 (e + 1)"
    and "u = pow2 (max e (emin f) - precision f + 1)"
    and "of_int n - 1 / 2 < x / u" "x / u < of_int n + 1 / 2"
    and "of_int n * u \<le> max_finite f"
  shows "round_fmt f x = Fin (of_int n * u)"
  using assms(1-4) round_half_even_eqI [OF assms(5,6)] assms(7) by (rule round_fmt_eval)

lemma round_fmt_tieI:
  assumes "0 < x" "pow2 e \<le> x" "x < pow2 (e + 1)"
    and "u = pow2 (max e (emin f) - precision f + 1)"
    and "x / u = of_int n + 1 / 2" "even n"
    and "of_int n * u \<le> max_finite f"
  shows "round_fmt f x = Fin (of_int n * u)"
proof -
  have "round_half_even (x / u) = n"
    using round_half_even_tie [OF assms(5)] assms(6) by simp
  with assms(1-4) show ?thesis using assms(7) by (rule round_fmt_eval)
qed

lemma round_fmt_exactI:
  assumes "0 < x" "pow2 e \<le> x" "x < pow2 (e + 1)"
    and "x / pow2 (max e (emin f) - precision f + 1) = of_int n"
    and "x \<le> max_finite f"
  shows "round_fmt f x = Fin x"
proof -
  define u where "u = pow2 (max e (emin f) - precision f + 1)"
  have u: "0 < u" by (simp add: u_def)
  have "x / u = of_int n" using assms(4) by (simp add: u_def)
  then have xn: "x = of_int n * u" using u by (simp add: divide_eq_eq)
  have r: "round_half_even (x / u) = n" using assms(4) by (simp add: u_def)
  have m: "of_int n * u \<le> max_finite f" using assms(5) by (simp add: xn)
  have "round_fmt f x = Fin (of_int n * u)"
    using assms(1-3) u_def r m by (rule round_fmt_eval)
  then show ?thesis by (simp add: xn)
qed

text \<open>Integers of at most \<open>precision\<close> bits are values of the format.\<close>

lemma round_fmt_of_int_exact:
  assumes f: "1 \<le> precision f" "emin f \<le> 0" "precision f \<le> emax f"
    and i: "\<bar>i\<bar> \<le> 2 ^ nat (precision f)"
  shows "round_fmt f (of_int i) = Fin (of_int i)"
proof -
  have pos: "round_fmt f (of_int j) = Fin (of_int j)" if j: "0 < j" "j \<le> 2 ^ nat (precision f)" for j
  proof -
    define x :: rat where "x = of_int j"
    define e where "e = ilog2 x"
    have x0: "0 < x" using j by (simp add: x_def)
    note B = ilog2_bounds [OF x0, folded e_def]
    have x1: "pow2 0 \<le> x" using j by (simp add: x_def)
    have xp: "x \<le> pow2 (precision f)"
    proof -
      have "(of_int j :: rat) \<le> of_int (2 ^ nat (precision f))" using j(2) by (simp only: of_int_le_iff)
      then show ?thesis using f(1) by (simp add: x_def pow2_def)
    qed
    have e0: "0 \<le> e"
    proof (rule ccontr)
      assume "\<not> 0 \<le> e"
      then have "pow2 (e + 1) \<le> pow2 0" by (intro pow2_mono) simp
      with B(2) x1 show False by simp
    qed
    have ep: "e \<le> precision f"
    proof (rule ccontr)
      assume "\<not> e \<le> precision f"
      then have "pow2 (precision f + 1) \<le> pow2 e" by (intro pow2_mono) simp
      moreover have "pow2 (precision f) < pow2 (precision f + 1)" by (intro pow2_strict_mono) simp
      ultimately show False using B(1) xp by simp
    qed
    have me: "max e (emin f) = e" using e0 f(2) by simp
    have mf: "pow2 (precision f) \<le> max_finite f"
    proof -
      have "pow2 (1 - precision f) \<le> pow2 0" using f(1) by (intro pow2_mono) simp
      then have "1 \<le> 2 - pow2 (1 - precision f)" by simp
      moreover have "pow2 (precision f) \<le> pow2 (emax f)" using f(3) by (rule pow2_mono)
      ultimately have "1 * pow2 (precision f) \<le> (2 - pow2 (1 - precision f)) * pow2 (emax f)"
        by (intro mult_mono) (simp_all add: less_imp_le)
      then show ?thesis by (simp add: max_finite_def)
    qed
    have "\<exists>n. x / pow2 (e - precision f + 1) = of_int n"
    proof (cases "e < precision f")
      case True
      have "e - precision f + 1 = - (precision f - 1 - e)" by simp
      then have "pow2 (e - precision f + 1) = 1 / pow2 (precision f - 1 - e)"
        by (simp only: pow2_minus)
      moreover have "pow2 (precision f - 1 - e) = of_int (2 ^ nat (precision f - 1 - e))"
        using True by (simp add: pow2_def)
      ultimately have "x / pow2 (e - precision f + 1) = of_int (j * 2 ^ nat (precision f - 1 - e))"
        by (simp add: x_def)
      then show ?thesis ..
    next
      case False
      with ep have ee: "e = precision f" by simp
      have "x = pow2 (precision f)" using B(1) xp by (simp add: ee)
      then have "x / pow2 (e - precision f + 1) = pow2 (precision f) / pow2 1" by (simp add: ee)
      also have "\<dots> = pow2 (precision f - 1)"
        by (simp add: pow2_powi power_int_diff)
      also have "\<dots> = of_int (2 ^ nat (precision f - 1))" using f(1) by (simp add: pow2_def)
      finally show ?thesis ..
    qed
    then obtain n where n: "x / pow2 (max e (emin f) - precision f + 1) = of_int n"
      by (auto simp: me)
    have "round_fmt f x = Fin x"
      using x0 B(1) B(2) n by (rule round_fmt_exactI) (use xp mf in simp)
    then show ?thesis by (simp add: x_def)
  qed
  consider "i = 0" | "0 < i" | "i < 0" by linarith
  then show ?thesis
  proof cases
    case 1
    then show ?thesis by simp
  next
    case 2
    with i show ?thesis by (intro pos) simp_all
  next
    case 3
    with i have "round_fmt f (of_int (- i)) = Fin (of_int (- i))" by (intro pos) simp_all
    then have "round_fmt f (- of_int i) = Fin (- of_int i)" by simp
    then show ?thesis by (simp add: round_fmt_minus split: fp.splits)
  qed
qed

lemma binary32_of_int_exact:
  "\<bar>i\<bar> \<le> 16777216 \<Longrightarrow> round_fmt binary32 (of_int i) = Fin (of_int i)"
  by (rule round_fmt_of_int_exact) (simp_all add: binary32_def)

lemma binary64_of_int_exact:
  "\<bar>i\<bar> \<le> 9007199254740992 \<Longrightarrow> round_fmt binary64 (of_int i) = Fin (of_int i)"
  by (rule round_fmt_of_int_exact) (simp_all add: binary64_def)

lemma lit_1e16f_eq: "lit_1e16f = Fin (15111573 / 2 ^ 77)"
proof -
  have "round_fmt binary32 (1 / 10 ^ 16) = Fin (of_int 15111573 * (1 / 2 ^ 77))"
    by (rule round_fmt_evalI [where e = "- 54"]) (simp_all add: pow2_def binary32_def max_finite_def)
  then show ?thesis by (simp add: lit_1e16f_def)
qed

lemma lit_1e16_eq: "lit_1e16 = Fin (8112963841460668 / 2 ^ 106)"
proof -
  have "round_fmt binary64 (1 / 10 ^ 16) = Fin (of_int 8112963841460668 * (1 / 2 ^ 106))"
    by (rule round_fmt_evalI [where e = "- 54"]) (simp_all add: pow2_def binary64_def max_finite_def)
  then show ?thesis by (simp add: lit_1e16_def)
qed

lemma kTransactionsEps_eq: "kTransactionsEps = Fin (7880401239278896 / 2 ^ 385)"
proof -
  have "round_fmt binary64 (1 / 10 ^ 100) = Fin (of_int 7880401239278896 * (1 / 2 ^ 385))"
    by (rule round_fmt_evalI [where e = "- 333"]) (simp_all add: pow2_def binary64_def max_finite_def)
  then show ?thesis by (simp add: kTransactionsEps_def)
qed

lemma round32_tie_example: "round_fmt binary32 (1 + 1 / 2 ^ 24) = Fin 1"
proof -
  have "round_fmt binary32 (1 + 1 / 2 ^ 24) = Fin (of_int 8388608 * (1 / 2 ^ 23))"
    by (rule round_fmt_tieI [where e = 0]) (simp_all add: pow2_def binary32_def max_finite_def)
  then show ?thesis by simp
qed

section \<open>Properties of the stream iterator\<close>

lemma repeated_field_index_of_ge: "- 1 \<le> repeated_field_index_of xs v"
  by (induction xs) (auto simp: Let_def)

lemma repeated_field_index_of_absent:
  "repeated_field_index_of xs v = - 1 \<longleftrightarrow> v \<notin> set xs"
proof (induction xs)
  case Nil
  show ?case by simp
next
  case (Cons x xs)
  have "repeated_field_index_of xs v + 1 \<noteq> - 1"
    using repeated_field_index_of_ge [of xs v] by linarith
  with Cons show ?case by (auto simp: Let_def)
qed

lemma Next_loop_past_end: "count \<le> idx \<Longrightarrow> count \<le> Next_loop count flags idx"
  by (subst Next_loop.simps) simp

text \<open>
  Claim C10. Once the cursor is past the last item (which is the case exactly when
  \<^verbatim>\<open>Next\<close> has returned null), \<^verbatim>\<open>Current\<close> returns null and
  \<^verbatim>\<open>InStream(name)\<close> is false for every stream name, and a further \<^verbatim>\<open>Next\<close>
  leaves the cursor past the end; while the cursor is on an item, \<^verbatim>\<open>InStream(name)\<close>
  is true for a name that the processor input does not list.
\<close>

theorem StreamIterator_past_end:
  "(fst (Next it) = None \<longleftrightarrow> items_count it \<le> item_index (snd (Next it))) \<and>
   (items_count it \<le> item_index it \<longrightarrow>
      Current it = None \<and> InStream it stream_name = False \<and>
      fst (Next it) = None \<and> items_count (snd (Next it)) \<le> item_index (snd (Next it))) \<and>
   (item_index it < items_count it \<and> stream_name \<notin> set (part_stream_name (processor_input it)) \<longrightarrow>
      Current it \<noteq> None \<and> InStream it stream_name = True)"
proof (intro conjI impI)
  show "fst (Next it) = None \<longleftrightarrow> items_count it \<le> item_index (snd (Next it))"
    by (simp add: Next_def Current_def Let_def)
next
  assume past: "items_count it \<le> item_index it"
  then show "Current it = None" by (simp add: Current_def)
  from past show "InStream it stream_name = False" by (simp add: InStream_def)
  from past have "items_count it \<le> Next_loop (items_count it) (stream_flags it) (item_index it)"
    by (rule Next_loop_past_end)
  then show "fst (Next it) = None"
    and "items_count (snd (Next it)) \<le> item_index (snd (Next it))"
    by (simp_all add: Next_def Current_def Let_def)
next
  assume valid: "item_index it < items_count it \<and>
    stream_name \<notin> set (part_stream_name (processor_input it))"
  then show "Current it \<noteq> None" by (simp add: Current_def)
  from valid have "repeated_field_index_of (part_stream_name (processor_input it)) stream_name = - 1"
    by (simp add: repeated_field_index_of_absent)
  with valid show "InStream it stream_name = True" by (simp add: InStream_def)
qed

theorem StreamIterator_past_end_witness:
  "item_index example_it1 < items_count example_it1 \<and>
   ''test'' \<notin> set (part_stream_name (processor_input example_it1)) \<and>
   Current example_it1 \<noteq> None \<and>
   InStream example_it1 ''test'' = True \<and> InStream example_it1 ''train'' = False \<and>
   fst (Next example_it1) = None \<and>
   items_count example_it2 \<le> item_index example_it2 \<and>
   Current example_it2 = None \<and>
   InStream example_it2 ''test'' = False \<and> InStream example_it2 ''train'' = False \<and>
   fst (Next example_it2) = None"
proof -
  have i1: "item_index example_it1 = 0" "items_count example_it1 = 1"
    "processor_input example_it1 = example_part" "stream_flags example_it1 = None"
    by (simp_all add: example_it1_def Next_def StreamIterator_init_def example_part_def
        Let_def Next_loop.simps)
  have i2: "item_index example_it2 = 1" "items_count example_it2 = 1"
    "processor_input example_it2 = example_part"
    by (simp_all add: example_it2_def Next_def i1 Let_def Next_loop.simps)
  have valid: "item_index example_it1 < items_count example_it1 \<and>
      ''test'' \<notin> set (part_stream_name (processor_input example_it1))"
    by (simp add: i1 example_part_def)
  have past: "items_count example_it2 \<le> item_index example_it2"
    by (simp add: i2)
  have train: "InStream example_it1 ''train'' = False"
    by (simp add: InStream_def i1 example_part_def Let_def)
  have nxt: "fst (Next example_it1) = None"
    by (simp add: Next_def Current_def i1 Let_def Next_loop.simps)
  from StreamIterator_past_end [of example_it1 "''test''"] valid
  have a: "Current example_it1 \<noteq> None \<and> InStream example_it1 ''test'' = True" by blast
  from StreamIterator_past_end [of example_it2 "''test''"] past
  have b: "Current example_it2 = None \<and> InStream example_it2 ''test'' = False \<and>
      fst (Next example_it2) = None"
    by blast
  from StreamIterator_past_end [of example_it2 "''train''"] past
  have c: "InStream example_it2 ''train'' = False" by blast
  from valid past train nxt a b c show ?thesis by blast
qed

section \<open>Increments\<close>

lemma InitializeModelIncrement_rows_ok:
  "increment_rows_ok topic_model (part_batch part) (config_topics_count model_config)
     (InitializeModelIncrement part model_config topic_model)"
  by (simp add: increment_rows_ok_def InitializeModelIncrement_def Let_def list_all_iff
      batch_token_at_def)

lemma foldl_list_update_length:
  "length (foldl (\<lambda>row k. row[k := g k]) row ks) = length row"
  by (induction ks arbitrary: row) simp_all

lemma map_update_same: "(map f xs)[i := f (xs ! i)] = map f xs"
  by (metis list_update_id map_update)

text \<open>The copy loop keeps the operation types and the length of every row.\<close>

lemma copy_nwt_row_shape:
  assumes "copy_nwt_row topic_size n_wt (failure, inc) token_index = (failure', inc')"
  shows "inc_operation_type inc' = inc_operation_type inc"
    and "map length (inc_token_increment inc') = map length (inc_token_increment inc)"
  using assms
  by (auto simp: copy_nwt_row_def Let_def foldl_list_update_length map_update map_update_same
      split: if_splits)

lemma bad_row_cong:
  assumes eq: "map length (inc_token_increment inc') = map length (inc_token_increment inc)"
    and i: "i < length (inc_token_increment inc)"
  shows "bad_row topic_size inc' i = bad_row topic_size inc i"
proof -
  from eq have len: "length (inc_token_increment inc') = length (inc_token_increment inc)"
    by (metis length_map)
  with eq i have "length (inc_token_increment inc' ! i) = length (inc_token_increment inc ! i)"
    by (metis nth_map)
  then show ?thesis by (simp add: bad_row_def)
qed

lemma copy_nwt_row_failure:
  "fst (copy_nwt_row topic_size n_wt (failure, inc) token_index) =
     (if failure \<noteq> None then failure
      else if bad_row topic_size inc token_index
      then Some (InternalError ''hat_n_wt_cur->value_size() != topic_size'')
      else None)"
  by (simp add: copy_nwt_row_def Let_def bad_row_def)

lemma copy_nwt_loop:
  assumes "\<forall>i \<in> set idxs. i < length (inc_token_increment inc)"
  shows "fst (foldl (copy_nwt_row topic_size n_wt) (failure, inc) idxs) =
           (if failure \<noteq> None then failure
            else if list_ex (bad_row topic_size inc) idxs
            then Some (InternalError ''hat_n_wt_cur->value_size() != topic_size'')
            else None) \<and>
         inc_operation_type (snd (foldl (copy_nwt_row topic_size n_wt) (failure, inc) idxs)) =
           inc_operation_type inc \<and>
         map length (inc_token_increment (snd (foldl (copy_nwt_row topic_size n_wt) (failure, inc) idxs))) =
           map length (inc_token_increment inc)"
  using assms
proof (induction idxs arbitrary: failure inc)
  case Nil
  show ?case by simp
next
  case (Cons i idxs)
  obtain failure' inc' where step: "copy_nwt_row topic_size n_wt (failure, inc) i = (failure', inc')"
    by (cases "copy_nwt_row topic_size n_wt (failure, inc) i")
  note shape = copy_nwt_row_shape [OF step]
  have f': "failure' = (if failure \<noteq> None then failure
      else if bad_row topic_size inc i
      then Some (InternalError ''hat_n_wt_cur->value_size() != topic_size'') else None)"
    using copy_nwt_row_failure [of topic_size n_wt failure inc i] by (simp add: step)
  have len: "length (inc_token_increment inc') = length (inc_token_increment inc)"
    using shape(2) by (metis length_map)
  have rng: "\<forall>j \<in> set idxs. j < length (inc_token_increment inc')"
    using Cons.prems by (simp add: len)
  have bad: "list_ex (bad_row topic_size inc') idxs = list_ex (bad_row topic_size inc) idxs"
    using Cons.prems bad_row_cong [OF shape(2)] by (auto simp: list_ex_iff)
  from Cons.IH [OF rng, of failure'] show ?case
    by (simp add: step shape f' bad)
qed

lemma copy_nwt_result:
  assumes "nat (no_rows n_wt) \<le> length (inc_token_increment inc)"
  shows "fst (copy_nwt topic_size n_wt inc) =
           (if list_ex (bad_row topic_size inc) [0..<nat (no_rows n_wt)]
            then Some (InternalError ''hat_n_wt_cur->value_size() != topic_size'')
            else None)"
    and "inc_operation_type (snd (copy_nwt topic_size n_wt inc)) = inc_operation_type inc"
    and "map length (inc_token_increment (snd (copy_nwt topic_size n_wt inc))) =
           map length (inc_token_increment inc)"
  using copy_nwt_loop [of "[0..<nat (no_rows n_wt)]" inc topic_size n_wt None] assms
  by (simp_all add: copy_nwt_def)

lemma rows_ok_nth:
  assumes "increment_rows_ok topic_model batch topics_count inc" "i < length (batch_token batch)"
  shows "if has_token topic_model (batch_token_at batch i)
         then inc_operation_type inc ! i = IncrementValue \<and>
              length (inc_token_increment inc ! i) = nat topics_count
         else inc_operation_type inc ! i = CreateIfNotExist \<and> inc_token_increment inc ! i = []"
proof -
  from assms(1) have "list_all (\<lambda>token_index.
          if has_token topic_model (batch_token_at batch token_index)
          then inc_operation_type inc ! token_index = IncrementValue \<and>
               length (inc_token_increment inc ! token_index) = nat topics_count
          else inc_operation_type inc ! token_index = CreateIfNotExist \<and>
               inc_token_increment inc ! token_index = [])
        [0..<length (batch_token batch)]"
    by (simp add: increment_rows_ok_def)
  moreover have "i \<in> set [0..<length (batch_token batch)]" using assms(2) by simp
  ultimately show ?thesis unfolding list_all_iff by blast
qed

lemma rows_ok_no_bad_row:
  assumes "increment_rows_ok topic_model batch topics_count inc" "i < length (batch_token batch)"
  shows "\<not> bad_row topics_count inc i"
proof (cases "has_token topic_model (batch_token_at batch i)")
  case True
  with rows_ok_nth [OF assms] have "length (inc_token_increment inc ! i) = nat topics_count"
    by simp
  then show ?thesis by (auto simp: bad_row_def)
next
  case False
  with rows_ok_nth [OF assms] have "inc_token_increment inc ! i = []" by simp
  then show ?thesis by (simp add: bad_row_def)
qed

lemma rows_ok_shape:
  assumes ok: "increment_rows_ok topic_model batch topics_count inc"
    and ops: "inc_operation_type inc' = inc_operation_type inc"
    and lens: "map length (inc_token_increment inc') = map length (inc_token_increment inc)"
  shows "increment_rows_ok topic_model batch topics_count inc'"
proof -
  from ok have l1: "length (inc_token_increment inc) = length (batch_token batch)"
    and l2: "length (inc_operation_type inc) = length (batch_token batch)"
    by (simp_all add: increment_rows_ok_def)
  from lens have len: "length (inc_token_increment inc') = length (inc_token_increment inc)"
    by (metis length_map)
  have nth: "length (inc_token_increment inc' ! i) = length (inc_token_increment inc ! i)"
    if "i < length (batch_token batch)" for i
    using lens len that l1 by (metis nth_map)
  have "if has_token topic_model (batch_token_at batch i)
         then inc_operation_type inc' ! i = IncrementValue \<and>
              length (inc_token_increment inc' ! i) = nat topics_count
         else inc_operation_type inc' ! i = CreateIfNotExist \<and> inc_token_increment inc' ! i = []"
    if i: "i < length (batch_token batch)" for i
    using rows_ok_nth [OF ok i] nth [OF i] by (auto simp: ops split: if_splits)
  then have all: "list_all (\<lambda>i. if has_token topic_model (batch_token_at batch i)
         then inc_operation_type inc' ! i = IncrementValue \<and>
              length (inc_token_increment inc' ! i) = nat topics_count
         else inc_operation_type inc' ! i = CreateIfNotExist \<and> inc_token_increment inc' ! i = [])
       [0..<length (batch_token batch)]"
    by (simp add: list_all_iff)
  have l1': "length (inc_token_increment inc') = length (batch_token batch)"
    by (simp add: len l1)
  have l2': "length (inc_operation_type inc') = length (batch_token batch)"
    by (simp add: ops l2)
  from l1' l2' all show ?thesis unfolding increment_rows_ok_def by blast
qed

lemma foldl_invariant:
  assumes "P s" "\<And>s x. P s \<Longrightarrow> P (f s x)"
  shows "P (foldl f s xs)"
  using assms(1) by (induction xs arbitrary: s) (simp_all add: assms(2))

lemma set_at_dims [simp]:
  "no_rows (set_at m r c v) = no_rows m"
  "no_columns (set_at m r c v) = no_columns m"
  "store_by_rows (set_at m r c v) = store_by_rows m"
  by (simp_all add: set_at_def)

lemma write_ptr_dims [simp]:
  "no_rows (write_ptr m r c new) = no_rows m"
  "no_columns (write_ptr m r c new) = no_columns m"
  "store_by_rows (write_ptr m r c new) = store_by_rows m"
  by (simp_all add: write_ptr_def)

lemma InitializeZeros_dims [simp]:
  "no_rows (InitializeZeros m) = no_rows m"
  "no_columns (InitializeZeros m) = no_columns m"
  "store_by_rows (InitializeZeros m) = store_by_rows m"
  by (simp_all add: InitializeZeros_def)

lemma DenseMatrix_new_dims [simp]:
  "no_rows (DenseMatrix_new r c b) = r"
  "no_columns (DenseMatrix_new r c b) = c"
  "store_by_rows (DenseMatrix_new r c b) = b"
  by (simp_all add: DenseMatrix_new_def)

lemma ApplyByElement_dims [simp]:
  "no_rows (ApplyByElement operation result a b) = no_rows result"
  "no_columns (ApplyByElement operation result a b) = no_columns result"
  "store_by_rows (ApplyByElement operation result a b) = store_by_rows result"
  by (simp_all add: ApplyByElement_def Let_def)

lemma sparse_nwt_entry_rows [simp]:
  "no_rows (sparse_nwt_entry blas stream_mask sparse_nwd phi_matrix theta_matrix w n_wt i) = no_rows n_wt"
  by (simp add: sparse_nwt_entry_def Let_def)

lemma CalculateNwtSparse_rows:
  "no_rows (fst (CalculateNwtSparse model_config batch stream_mask schema sparse_ndw phi_matrix
     theta_matrix blas)) = no_rows phi_matrix"
proof -
  have inner: "no_rows (foldl (sparse_nwt_entry blas stream_mask nwd phi_matrix th w) n_wt is) = no_rows n_wt"
    for nwd th w n_wt "is"
    by (rule foldl_invariant [where P = "\<lambda>m. no_rows m = no_rows n_wt"]) simp_all
  have outer: "no_rows (foldl (\<lambda>n_wt w. foldl (sparse_nwt_entry blas stream_mask nwd phi_matrix th w)
                                         n_wt (csr_row nwd w)) n_wt ws) = no_rows n_wt"
    for nwd th n_wt ws
    by (rule foldl_invariant [where P = "\<lambda>m. no_rows m = no_rows n_wt"]) (simp_all add: inner)
  show ?thesis
    by (simp add: CalculateNwtSparse_def Let_def outer)
qed

lemma CalculateNwtDense_rows:
  "no_rows (fst (CalculateNwtDense model_config batch stream_mask schema dense_ndw phi_matrix
     theta_matrix blas)) = no_rows phi_matrix"
  by (simp add: CalculateNwtDense_def Let_def split: prod.splits option.splits)

lemma CalculateNwt_rows:
  "no_rows (fst (CalculateNwt p part st model_config phi_matrix theta_matrix)) = no_rows phi_matrix"
  by (simp add: CalculateNwt_def CalculateNwtSparse_rows CalculateNwtDense_rows)

lemma InitializePhi_rows:
  assumes "InitializePhi batch model_config topic_model = Some phi_matrix"
  shows "no_rows phi_matrix = int (length (batch_token batch))"
proof -
  have tok: "no_rows (InitializePhi_token batch topic_model m i) = no_rows m" for m i
  proof (cases "has_token topic_model (Token_new (batch_class_id batch ! i) (batch_token batch ! i))")
    case True
    have "no_rows (foldl (\<lambda>phi topic_index. set_at phi (int i) (int topic_index) (g topic_index)) m ks)
        = no_rows m" for g ks
      by (rule foldl_invariant [where P = "\<lambda>x. no_rows x = no_rows m"]) simp_all
    with True show ?thesis by (simp add: InitializePhi_token_def Let_def)
  next
    case False
    then show ?thesis by (simp add: InitializePhi_token_def Let_def)
  qed
  have "no_rows (foldl (InitializePhi_token batch topic_model) m is) = no_rows m" for m "is"
    by (rule foldl_invariant [where P = "\<lambda>x. no_rows x = no_rows m"]) (simp_all add: tok)
  with assms show ?thesis
    by (auto simp: InitializePhi_def Let_def split: if_splits)
qed

lemma InitializeModelIncrement_fields:
  "inc_model_name (InitializeModelIncrement part model_config topic_model) = config_name model_config"
  "inc_batch_uuid (InitializeModelIncrement part model_config topic_model) = [part_batch_uuid part]"
  "inc_token (InitializeModelIncrement part model_config topic_model) = batch_token (part_batch part)"
  by (simp_all add: InitializeModelIncrement_def Let_def Token_new_def o_def map_nth)

lemma attach_cache_fields [simp]:
  "inc_model_name (attach_cache p part model_name topic_size theta_matrix st inc) = inc_model_name inc"
  "inc_batch_uuid (attach_cache p part model_name topic_size theta_matrix st inc) = inc_batch_uuid inc"
  "inc_token (attach_cache p part model_name topic_size theta_matrix st inc) = inc_token inc"
  "inc_operation_type (attach_cache p part model_name topic_size theta_matrix st inc) = inc_operation_type inc"
  "inc_token_increment (attach_cache p part model_name topic_size theta_matrix st inc) = inc_token_increment inc"
  by (simp_all add: attach_cache_def)

lemma attach_scores_fields [simp]:
  "inc_model_name (attach_scores p part model_config topic_model topic_size theta_matrix inc) = inc_model_name inc"
  "inc_batch_uuid (attach_scores p part model_config topic_model topic_size theta_matrix inc) = inc_batch_uuid inc"
  "inc_token (attach_scores p part model_config topic_model topic_size theta_matrix inc) = inc_token inc"
  "inc_operation_type (attach_scores p part model_config topic_model topic_size theta_matrix inc) = inc_operation_type inc"
  "inc_token_increment (attach_scores p part model_config topic_model topic_size theta_matrix inc) = inc_token_increment inc"
  by (simp_all add: attach_scores_def Let_def)

lemma copy_nwt_row_fields:
  assumes "copy_nwt_row topic_size n_wt (failure, inc) token_index = (failure', inc')"
  shows "inc_model_name inc' = inc_model_name inc \<and> inc_batch_uuid inc' = inc_batch_uuid inc \<and>
         inc_token inc' = inc_token inc"
  using assms by (auto simp: copy_nwt_row_def Let_def split: if_splits)

lemma copy_nwt_fields:
  "inc_model_name (snd (copy_nwt topic_size n_wt inc)) = inc_model_name inc \<and>
   inc_batch_uuid (snd (copy_nwt topic_size n_wt inc)) = inc_batch_uuid inc \<and>
   inc_token (snd (copy_nwt topic_size n_wt inc)) = inc_token inc"
  unfolding copy_nwt_def
proof (rule foldl_invariant [where P = "\<lambda>s. inc_model_name (snd s) = inc_model_name inc \<and>
    inc_batch_uuid (snd s) = inc_batch_uuid inc \<and> inc_token (snd s) = inc_token inc"], goal_cases)
  case 1
  show ?case by simp
next
  case (2 s x)
  obtain f i where s: "s = (f, i)" by (cases s)
  obtain f' i' where step: "copy_nwt_row topic_size n_wt (f, i) x = (f', i')"
    by (cases "copy_nwt_row topic_size n_wt (f, i) x")
  from copy_nwt_row_fields [OF step] 2 show ?case by (simp add: s step)
qed

text \<open>What the body does for an enabled model that passed the checks: no exception, and
  one increment pushed.\<close>

lemma run_model_pushes:
  assumes valid: "tm_topic_size topic_model = config_topics_count model_config"
  shows "\<exists>inc st'. run_model p part st model_name model_config topic_model = (None, st') \<and>
           merger_queue st' = merger_queue st @ [inc] \<and>
           inc_model_name inc = config_name model_config \<and>
           inc_batch_uuid inc = [part_batch_uuid part] \<and>
           inc_token inc = batch_token (part_batch part) \<and>
           increment_rows_ok topic_model (part_batch part) (config_topics_count model_config) inc \<and>
           (InitializePhi (part_batch part) model_config topic_model \<noteq> None \<or>
            inc = InitializeModelIncrement part model_config topic_model)"
proof -
  define batch where "batch = part_batch part"
  define st1 where "st1 = prepare_ndw batch model_config st"
  obtain theta_matrix drawn' where th:
    "InitializeTheta batch model_config (FindCacheEntry part model_config) (random_source p) (drawn st1)
       = (theta_matrix, drawn')"
    by (cases "InitializeTheta batch model_config (FindCacheEntry part model_config)
                 (random_source p) (drawn st1)")
  define st2 where "st2 = st1\<lparr>drawn := drawn'\<rparr>"
  define inc0 where "inc0 = InitializeModelIncrement part model_config topic_model"
  have q1: "merger_queue st1 = merger_queue st"
    by (simp add: st1_def prepare_ndw_def Let_def)
  have q2: "merger_queue st2 = merger_queue st" by (simp add: st2_def q1)
  have ok0: "increment_rows_ok topic_model batch (config_topics_count model_config) inc0"
    unfolding inc0_def batch_def by (rule InitializeModelIncrement_rows_ok)
  show ?thesis
  proof (cases "InitializePhi batch model_config topic_model")
    case None
    have "run_model p part st model_name model_config topic_model = (None, push inc0 st2)"
      by (simp add: run_model_def Let_def batch_def [symmetric] st1_def [symmetric] th
          st2_def [symmetric] inc0_def [symmetric] None)
    moreover have "merger_queue (push inc0 st2) = merger_queue st @ [inc0]"
      by (simp add: push_def q2)
    ultimately show ?thesis
      using ok0 by (auto simp: inc0_def InitializeModelIncrement_fields batch_def)
  next
    case (Some phi_matrix)
    obtain n_wt theta' where nw:
      "CalculateNwt p part st2 model_config phi_matrix theta_matrix = (n_wt, theta')"
      by (cases "CalculateNwt p part st2 model_config phi_matrix theta_matrix")
    have rows: "no_rows n_wt = int (length (batch_token batch))"
      using CalculateNwt_rows [of p part st2 model_config phi_matrix theta_matrix]
        InitializePhi_rows [OF Some] by (simp add: nw)
    have len0: "length (inc_token_increment inc0) = length (batch_token batch)"
      using ok0 by (simp add: increment_rows_ok_def)
    have rng: "nat (no_rows n_wt) \<le> length (inc_token_increment inc0)"
      by (simp add: rows len0)
    note C = copy_nwt_result [OF rng, of "tm_topic_size topic_model"]
    have nobad: "\<not> list_ex (bad_row (tm_topic_size topic_model) inc0) [0..<nat (no_rows n_wt)]"
      using rows_ok_no_bad_row [OF ok0] by (auto simp: list_ex_iff rows valid)
    obtain inc1 where cp: "copy_nwt (tm_topic_size topic_model) n_wt inc0 = (None, inc1)"
      using C(1) nobad by (cases "copy_nwt (tm_topic_size topic_model) n_wt inc0") auto
    have ok1: "increment_rows_ok topic_model batch (config_topics_count model_config) inc1"
      using rows_ok_shape [OF ok0] C(2,3) by (simp add: cp)
    define inc2 where "inc2 = attach_scores p part model_config topic_model (tm_topic_size topic_model) theta'
        (attach_cache p part model_name (tm_topic_size topic_model) theta' st2 inc1)"
    have ok2: "increment_rows_ok topic_model batch (config_topics_count model_config) inc2"
      by (rule rows_ok_shape [OF ok1]) (simp_all add: inc2_def)
    have f1: "inc_model_name inc1 = inc_model_name inc0 \<and> inc_batch_uuid inc1 = inc_batch_uuid inc0 \<and>
        inc_token inc1 = inc_token inc0"
      using copy_nwt_fields [of "tm_topic_size topic_model" n_wt inc0] by (simp add: cp)
    have run: "run_model p part st model_name model_config topic_model = (None, push inc2 (count_uuid p st2))"
      by (simp add: run_model_def Let_def batch_def [symmetric] st1_def [symmetric] th
          st2_def [symmetric] inc0_def [symmetric] Some nw finish_model_def cp inc2_def)
    have "merger_queue (push inc2 (count_uuid p st2)) = merger_queue st @ [inc2]"
      by (simp add: push_def count_uuid_def q2)
    with run ok2 f1 Some show ?thesis
      by (auto simp: inc2_def inc0_def InitializeModelIncrement_fields batch_def)
  qed
qed

lemma process_model_disabled:
  assumes "\<not> config_enabled (schema_model_config (schema_get p) model_name)"
  shows "process_model p part st model_name = (None, st)"
  using assms by (simp add: process_model_def Let_def)

lemma process_model_invalid:
  assumes en: "config_enabled (schema_model_config (schema_get p) model_name)"
    and inv: "\<not> model_valid p model_name"
  shows "\<exists>e. process_model p part st model_name = (Some e, st)"
proof (cases "length (config_class_id (schema_model_config (schema_get p) model_name)) =
           length (config_class_weight (schema_model_config (schema_get p) model_name))")
  case False
  with en show ?thesis by (simp add: process_model_def Let_def)
next
  case eq: True
  show ?thesis
  proof (cases "GetLatestTopicModel p model_name")
    case None
    with en eq show ?thesis by (simp add: process_model_def Let_def)
  next
    case (Some topic_model)
    with inv eq have "tm_topic_size topic_model \<noteq>
        config_topics_count (schema_model_config (schema_get p) model_name)"
      by (simp add: model_valid_def Let_def)
    with en eq Some show ?thesis by (simp add: process_model_def Let_def)
  qed
qed

lemma process_model_valid:
  assumes en: "config_enabled (schema_model_config (schema_get p) model_name)"
    and v: "model_valid p model_name"
  shows "\<exists>inc st'. process_model p part st model_name = (None, st') \<and>
         merger_queue st' = merger_queue st @ [inc] \<and> is_increment_of p part inc model_name"
proof -
  from v obtain topic_model where tm: "GetLatestTopicModel p model_name = Some topic_model"
    and sz: "length (config_class_id (schema_model_config (schema_get p) model_name)) =
             length (config_class_weight (schema_model_config (schema_get p) model_name))"
    and ts: "tm_topic_size topic_model =
             config_topics_count (schema_model_config (schema_get p) model_name)"
    by (auto simp: model_valid_def Let_def split: option.splits)
  have pm: "process_model p part st model_name =
      run_model p part st model_name (schema_model_config (schema_get p) model_name) topic_model"
    using en by (simp add: process_model_def Let_def tm sz ts)
  from run_model_pushes [OF ts, of p part st model_name] obtain inc st' where
    r: "run_model p part st model_name (schema_model_config (schema_get p) model_name) topic_model
          = (None, st')"
    and q: "merger_queue st' = merger_queue st @ [inc]"
    and i: "inc_model_name inc = config_name (schema_model_config (schema_get p) model_name)"
      "inc_batch_uuid inc = [part_batch_uuid part]"
      "inc_token inc = batch_token (part_batch part)"
      "increment_rows_ok topic_model (part_batch part)
         (config_topics_count (schema_model_config (schema_get p) model_name)) inc"
      "InitializePhi (part_batch part) (schema_model_config (schema_get p) model_name) topic_model \<noteq> None \<or>
       inc = InitializeModelIncrement part (schema_model_config (schema_get p) model_name) topic_model"
    by blast
  have "is_increment_of p part inc model_name"
    using i by (simp add: is_increment_of_def Let_def tm)
  with pm r q show ?thesis
    by (intro exI [of _ inc] exI [of _ st']) simp
qed

lemma pushed_by_self [simp]: "pushed_by st st = []"
  by (simp add: pushed_by_def)

lemma pushed_by_append:
  "merger_queue st' = merger_queue st @ xs \<Longrightarrow> pushed_by st st' = xs"
  by (simp add: pushed_by_def)

text \<open>
  The loop over the model names pushes one increment for each enabled model, in order,
  up to the first enabled model that fails a check, where it stops with the exception.
\<close>

lemma for_each_model_pushes:
  "merger_queue (snd (for_each_model p part names st)) =
     merger_queue st @ pushed_by st (snd (for_each_model p part names st)) \<and>
   list_all2 (is_increment_of p part) (pushed_by st (snd (for_each_model p part names st)))
     (takeWhile (model_valid p)
        (filter (\<lambda>n. config_enabled (schema_model_config (schema_get p) n)) names)) \<and>
   (fst (for_each_model p part names st) = None \<longleftrightarrow>
      list_all (model_valid p)
        (filter (\<lambda>n. config_enabled (schema_model_config (schema_get p) n)) names))"
proof (induction names arbitrary: st)
  case Nil
  show ?case by simp
next
  case (Cons name names)
  let ?en = "\<lambda>n. config_enabled (schema_model_config (schema_get p) n)"
  show ?case
  proof (cases "?en name")
    case False
    have r: "for_each_model p part (name # names) st = for_each_model p part names st"
      by (simp add: process_model_disabled [OF False])
    have f: "filter ?en (name # names) = filter ?en names"
      using False by simp
    show ?thesis unfolding r f by (rule Cons.IH)
  next
    case en: True
    have f: "filter ?en (name # names) = name # filter ?en names"
      using en by simp
    show ?thesis
    proof (cases "model_valid p name")
      case False
      from process_model_invalid [OF en False, of part st] obtain e where
        pm: "process_model p part st name = (Some e, st)" ..
      have r: "for_each_model p part (name # names) st = (Some e, st)"
        by (simp add: pm)
      have t: "takeWhile (model_valid p) (name # filter ?en names) = []"
        using False by simp
      have l: "list_all (model_valid p) (name # filter ?en names) = False"
        using False by simp
      show ?thesis unfolding r f t l by simp
    next
      case True
      from process_model_valid [OF en True, of part st] obtain inc st' where
        pm: "process_model p part st name = (None, st')"
        and q: "merger_queue st' = merger_queue st @ [inc]"
        and i: "is_increment_of p part inc name"
        by (elim exE conjE)
      let ?R = "for_each_model p part names st'"
      note IH = Cons.IH [of st']
      have r: "for_each_model p part (name # names) st = ?R"
        by (simp add: pm)
      have t: "takeWhile (model_valid p) (name # filter ?en names) =
          name # takeWhile (model_valid p) (filter ?en names)"
        using True by simp
      have l: "list_all (model_valid p) (name # filter ?en names) =
          list_all (model_valid p) (filter ?en names)"
        using True by simp
      have a: "merger_queue (snd ?R) = merger_queue st @ (inc # pushed_by st' (snd ?R))"
        using IH q by simp
      then have pb: "pushed_by st (snd ?R) = inc # pushed_by st' (snd ?R)"
        by (rule pushed_by_append)
      have b: "list_all2 (is_increment_of p part) (inc # pushed_by st' (snd ?R))
          (name # takeWhile (model_valid p) (filter ?en names))"
        using i IH by simp
      show ?thesis unfolding r f t l pb using a b IH by (intro conjI) (simp_all only:)
    qed
  qed
qed

text \<open>
  Claim C3, amended. The increments that the worker pushes for a batch correspond one to
  one, in order, to the enabled models of the schema up to the first one that fails a
  check (none when the batch itself fails its check). The turn ends without an exception
  exactly when the batch and every enabled model pass the checks, and then exactly one
  increment has been pushed for every enabled model. The increment of a model whose Phi
  is empty is the skeleton of \<^verbatim>\<open>InitializeModelIncrement\<close>: the tokens, the operation
  types and the zero-filled rows.
\<close>

theorem one_increment_per_enabled_model:
  "list_all2 (is_increment_of p part) (pushed_by st (snd (process_part p part st)))
     (if batch_valid part then takeWhile (model_valid p) (enabled_models p) else []) \<and>
   (fst (process_part p part st) = None \<longleftrightarrow>
      batch_valid part \<and> list_all (model_valid p) (enabled_models p)) \<and>
   (fst (process_part p part st) = None \<longrightarrow>
      list_all2 (is_increment_of p part) (pushed_by st (snd (process_part p part st)))
        (enabled_models p))"
proof (cases "batch_valid part")
  case False
  then have "process_part p part st =
      (Some (InternalError ''batch.class_id_size() != batch.token_size()''), st)"
    by (simp add: process_part_def Let_def batch_valid_def)
  with False show ?thesis by simp
next
  case True
  define st0 where "st0 = st\<lparr>sparse_ndw_ptr := None, dense_ndw_ptr := None\<rparr>"
  have q0: "merger_queue st0 = merger_queue st" by (simp add: st0_def)
  have pp: "process_part p part st = for_each_model p part (GetModelNames (schema_get p)) st0"
    using True by (simp add: process_part_def Let_def batch_valid_def st0_def)
  have pb: "pushed_by st st' = pushed_by st0 st'" for st'
    by (simp add: pushed_by_def q0)
  note F = for_each_model_pushes [of p part "GetModelNames (schema_get p)" st0,
      folded pp enabled_models_def pb]
  from F have 1: "list_all2 (is_increment_of p part) (pushed_by st (snd (process_part p part st)))
     (takeWhile (model_valid p) (enabled_models p))"
    and 2: "fst (process_part p part st) = None \<longleftrightarrow> list_all (model_valid p) (enabled_models p)"
    by simp_all
  have 3: "fst (process_part p part st) = None \<longrightarrow>
      list_all2 (is_increment_of p part) (pushed_by st (snd (process_part p part st)))
        (enabled_models p)"
  proof
    assume "fst (process_part p part st) = None"
    with 2 have "list_all (model_valid p) (enabled_models p)" by simp
    then have "takeWhile (model_valid p) (enabled_models p) = enabled_models p"
      by (simp add: list_all_iff)
    with 1 show "list_all2 (is_increment_of p part) (pushed_by st (snd (process_part p part st)))
        (enabled_models p)"
      by simp
  qed
  from True 1 2 3 show ?thesis by simp
qed

lemma example_config_fields [simp]:
  "config_name (example_config n e s) = n"
  "config_topics_count (example_config n e s) = 1"
  "config_topic_name (example_config n e s) = [''topic'']"
  "config_enabled (example_config n e s) = e"
  "config_inner_iterations_count (example_config n e s) = 1"
  "config_use_sparse_bow (example_config n e s) = s"
  "config_reuse_theta (example_config n e s) = False"
  "config_use_random_theta (example_config n e s) = False"
  "config_stream_name (example_config n e s) = ''train''"
  "config_class_id (example_config n e s) = []"
  "config_class_weight (example_config n e s) = []"
  "config_regularizer_name (example_config n e s) = []"
  "config_regularizer_tau (example_config n e s) = []"
  "config_score_name (example_config n e s) = []"
  by (simp_all add: example_config_def)

lemma round32_1 [simp]: "round_fmt binary32 1 = Fin 1"
  using binary32_of_int_exact [of 1] by simp

lemma ex_sparse_ndw: "InitializeSparseNdw example_batch (example_config n e s) =
  \<lparr>csr_m = 1, csr_n = 1, csr_nnz = 1, csr_val = [Fin 1], csr_row_ptr = [0, 1], csr_col_ind = [0]\<rparr>"
  by (simp add: InitializeSparseNdw_def InitializeSparseNdw_item_def sparse_item_entries_def
      sparse_field_entries_def class_weight_of_def example_batch_def
      CsrMatrix_new_def fp_of_int_def Let_def)

lemma ex_dense_ndw: "InitializeDenseNdw example_batch =
  \<lparr>no_rows = 1, no_columns = 1, store_by_rows = True, data = [Fin 1]\<rparr>"
  by (simp add: InitializeDenseNdw_def InitializeDenseNdw_field_def example_batch_def
      DenseMatrix_new_def InitializeZeros_def set_at_def get_at_def offset_def fp_of_int_def Let_def)

lemma ex_theta: "InitializeTheta example_batch (example_config n e s) None r d =
  (\<lparr>no_rows = 1, no_columns = 1, store_by_rows = \<not> s, data = [Fin 1]\<rparr>, d)"
  by (simp add: InitializeTheta_def InitializeTheta_item_def example_batch_def
      DenseMatrix_new_def InitializeZeros_def set_at_def offset_def fp_of_int_def Let_def)

lemma ex_phi: "InitializePhi example_batch (example_config n e s) (example_topic_model True) =
  Some \<lparr>no_rows = 1, no_columns = 1, store_by_rows = True, data = [Fin 1]\<rparr>"
  by (simp add: InitializePhi_def InitializePhi_token_def example_batch_def example_topic_model_def
      has_token_def GetTopicWeightIterator_def
      DenseMatrix_new_def InitializeZeros_def set_at_def offset_def Let_def lit_1e16_eq)

lemma ex_reg: "RegularizeAndNormalizeTheta it example_batch (example_config n e s) example_schema
   \<lparr>no_rows = 1, no_columns = 1, store_by_rows = b, data = [Fin 1]\<rparr> =
   \<lparr>no_rows = 1, no_columns = 1, store_by_rows = b, data = [Fin 1]\<rparr>"
  by (simp add: RegularizeAndNormalizeTheta_def RegularizeAndNormalizeTheta_item_def
      theta_next_of_def example_batch_def clip_negative_def theta_sum_def normalized_value_def
      get_at_def set_at_def offset_def lit_1e16f_eq Let_def)

lemma ex_sparse: "CalculateNwtSparse (example_config n e True) example_batch None example_schema
   \<lparr>csr_m = 1, csr_n = 1, csr_nnz = 1, csr_val = [Fin 1], csr_row_ptr = [0, 1], csr_col_ind = [0]\<rparr>
   \<lparr>no_rows = 1, no_columns = 1, store_by_rows = True, data = [Fin 1]\<rparr>
   \<lparr>no_rows = 1, no_columns = 1, store_by_rows = False, data = [Fin 1]\<rparr> builtin_blas =
   (\<lparr>no_rows = 1, no_columns = 1, store_by_rows = True, data = [Fin 1]\<rparr>,
    \<lparr>no_rows = 1, no_columns = 1, store_by_rows = False, data = [Fin 1]\<rparr>)"
  by (simp add: CalculateNwtSparse_def sparse_inner_iteration_def sparse_ntd_def sparse_ntd_entry_def
      sparse_nwt_entry_def csr_row_def ptr_def write_ptr_def offset_def ApplyByElement_def store_at_def
      Transpose_def builtin_blas_def builtin_sdot_def builtin_saxpy_def builtin_scsr2csc_def
      DenseMatrix_new_def InitializeZeros_def ex_reg Let_def)

lemma ex_dense: "CalculateNwtDense (example_config n e False) example_batch None example_schema
   \<lparr>no_rows = 1, no_columns = 1, store_by_rows = True, data = [Fin 1]\<rparr>
   \<lparr>no_rows = 1, no_columns = 1, store_by_rows = True, data = [Fin 1]\<rparr>
   \<lparr>no_rows = 1, no_columns = 1, store_by_rows = True, data = [Fin 1]\<rparr> builtin_blas =
   (\<lparr>no_rows = 1, no_columns = 1, store_by_rows = True, data = [Fin 1]\<rparr>,
    \<lparr>no_rows = 1, no_columns = 1, store_by_rows = True, data = [Fin 1]\<rparr>)"
  by (simp add: CalculateNwtDense_def dense_inner_iteration_def dense_Z_def prod_Z_Theta_def
      ApplyByElement_def store_at_def builtin_blas_def builtin_sgemm_def
      DenseMatrix_new_def InitializeZeros_def ex_reg Let_def)

lemma ex_schema_fields [simp]:
  "GetModelNames example_schema = [''sparse'', ''off'', ''dense'', ''empty'']"
  "schema_model_config example_schema name = example_config name (name \<noteq> ''off'') (name = ''sparse'')"
  "schema_regularizer example_schema = (\<lambda>name. None)"
  "schema_score_calculator example_schema = (\<lambda>name. None)"
  "master_cache_theta (schema_config example_schema) = True"
  "master_disk_cache_path (schema_config example_schema) = None"
  by (simp_all add: example_schema_def)

lemma ex_processor_fields [simp]:
  "GetLatestTopicModel example_processor name = Some (example_topic_model (name \<noteq> ''empty''))"
  "schema_get example_processor = example_schema"
  "blas_binding example_processor = builtin_blas"
  "score_order example_processor = (\<lambda>scores. scores)"
  by (simp_all add: example_processor_def)

lemma ex_tm_fields [simp]:
  "tm_topic_size (example_topic_model k) = 1"
  "tm_topic_name (example_topic_model k) = [''topic'']"
  by (simp_all add: example_topic_model_def)

lemma ex_input_fields [simp]:
  "part_batch example_input = example_batch"
  "part_batch_uuid example_input = ''u''"
  "part_stream_name example_input = []"
  "part_cached_theta example_input = []"
  by (simp_all add: example_input_def)

lemma ex_batch_fields [simp]:
  "batch_token example_batch = [''a'']"
  "batch_class_id example_batch = [''c'']"
  "map item_id (batch_item example_batch) = [7]"
  "length (batch_item example_batch) = 1"
  by (simp_all add: example_batch_def)

lemma ex_phi_empty: "InitializePhi example_batch (example_config n e s) (example_topic_model False) = None"
  by (simp add: InitializePhi_def example_batch_def example_topic_model_def has_token_def Let_def)

lemma ex_skeleton:
  "InitializeModelIncrement example_input (example_config n e s) (example_topic_model k) =
   \<lparr>inc_model_name = n, inc_topics_count = 1, inc_topic_name = [''topic''],
      inc_batch_uuid = [''u''], inc_token = [''a''], inc_class_id = [''c''],
      inc_token_increment = [if k then [Fin 0] else []],
      inc_operation_type = [if k then IncrementValue else CreateIfNotExist],
      inc_cache = [], inc_score_name = [], inc_score = []\<rparr>"
  by (simp add: InitializeModelIncrement_def example_batch_def example_topic_model_def has_token_def
      Token_new_def Let_def)

lemma ex_sparse_model:
  "process_model example_processor example_input st ''sparse'' =
   (None, push (example_increment ''sparse'' True True)
            (st\<lparr>sparse_ndw_ptr := Some (InitializeSparseNdw example_batch (example_config ''sparse'' True True))\<rparr>))"
  apply (simp add: process_model_def run_model_def Let_def prepare_ndw_def FindCacheEntry_def ex_theta
      ex_phi ex_skeleton CalculateNwt_def model_stream_mask_def)
  apply (simp add: ex_sparse_ndw ex_sparse finish_model_def copy_nwt_def copy_nwt_row_def get_at_def
      offset_def Let_def attach_cache_def new_cache_entry_def attach_scores_def theta_columns_def
      score_container_init_def score_item_def count_uuid_def StreamIterator_init_def
      score_loop.simps Next_def Next_loop.simps Current_def example_increment_def push_def)
  done

lemma pushed_increment_rows_ok:
  "list_all (increment_rows_ok (the (GetLatestTopicModel p model_name)) (part_batch part)
              (config_topics_count (schema_model_config (schema_get p) model_name)))
     (pushed_by st (snd (process_model p part st model_name)))"
proof (cases "config_enabled (schema_model_config (schema_get p) model_name)")
  case False
  then show ?thesis by (simp add: process_model_disabled)
next
  case en: True
  show ?thesis
  proof (cases "model_valid p model_name")
    case False
    from process_model_invalid [OF en False, of part st] obtain e where
      "process_model p part st model_name = (Some e, st)" ..
    then show ?thesis by simp
  next
    case True
    from process_model_valid [OF en True, of part st] obtain inc st' where
      pm: "process_model p part st model_name = (None, st')"
      and q: "merger_queue st' = merger_queue st @ [inc]"
      and i: "is_increment_of p part inc model_name"
      by (elim exE conjE)
    from q have "pushed_by st st' = [inc]" by (rule pushed_by_append)
    with i show ?thesis by (simp add: pm is_increment_of_def Let_def)
  qed
qed

text \<open>
  Claim C7. In the skeleton of an increment and in every increment that the worker pushes
  for a model, the row of a token has operation \<open>IncrementValue\<close> and \<open>topics_count\<close>
  values when the topic model has the token, and operation \<open>CreateIfNotExist\<close> and no
  value when it has not. The copy loop after the EM loop throws an internal error exactly
  when a row is neither empty nor of length \<open>topic_size\<close>.
\<close>

theorem increment_rows:
  "increment_rows_ok topic_model (part_batch part) (config_topics_count model_config)
     (InitializeModelIncrement part model_config topic_model) \<and>
   list_all (increment_rows_ok (the (GetLatestTopicModel p model_name)) (part_batch part)
              (config_topics_count (schema_model_config (schema_get p) model_name)))
     (pushed_by st (snd (process_model p part st model_name))) \<and>
   (nat (no_rows n_wt) \<le> length (inc_token_increment model_increment) \<longrightarrow>
      fst (copy_nwt topic_size n_wt model_increment) =
        (if list_ex (bad_row topic_size model_increment) [0..<nat (no_rows n_wt)]
         then Some (InternalError ''hat_n_wt_cur->value_size() != topic_size'')
         else None))"
  using InitializeModelIncrement_rows_ok pushed_increment_rows_ok copy_nwt_result(1)
  by blast

lemma ex_dense_model:
  "process_model example_processor example_input st ''dense'' =
   (None, push (example_increment ''dense'' False True)
            (st\<lparr>dense_ndw_ptr := Some (case dense_ndw_ptr st of None \<Rightarrow> InitializeDenseNdw example_batch | Some m \<Rightarrow> m)\<rparr>))"
  if "dense_ndw_ptr st = None \<or> dense_ndw_ptr st = Some (InitializeDenseNdw example_batch)"
  using that
  apply (simp add: process_model_def run_model_def Let_def prepare_ndw_def FindCacheEntry_def ex_theta
      ex_phi ex_skeleton CalculateNwt_def model_stream_mask_def)
  apply (auto simp add: ex_dense_ndw ex_dense finish_model_def copy_nwt_def copy_nwt_row_def get_at_def
      offset_def Let_def attach_cache_def new_cache_entry_def attach_scores_def theta_columns_def
      score_container_init_def score_item_def count_uuid_def StreamIterator_init_def
      score_loop.simps Next_def Next_loop.simps Current_def example_increment_def push_def)
  done

lemma ex_empty_model:
  "process_model example_processor example_input st ''empty'' =
   (None, push (example_increment ''empty'' False False)
            (if dense_ndw_ptr st = None then st\<lparr>dense_ndw_ptr := Some (InitializeDenseNdw example_batch)\<rparr> else st))"
  by (simp add: process_model_def run_model_def Let_def prepare_ndw_def FindCacheEntry_def ex_theta
      ex_phi_empty ex_skeleton example_increment_def push_def)

lemma ex_off_model:
  "process_model example_processor example_input st ''off'' = (None, st)"
  by (simp add: process_model_def Let_def)

lemma ex_process_part:
  "fst (process_part example_processor example_input example_state) = None \<and>
   merger_queue (snd (process_part example_processor example_input example_state)) =
     [example_increment ''sparse'' True True, example_increment ''dense'' False True,
      example_increment ''empty'' False False]"
  by (simp add: process_part_def Let_def ex_sparse_model ex_off_model ex_dense_model ex_empty_model
      example_state_def push_def)


text \<open>
  The scenario: the batch and the three enabled models pass the checks, and the worker
  pushes the three increments, the last one (empty Phi) being the skeleton.
\<close>

theorem one_increment_per_enabled_model_witness:
  "batch_valid example_input \<and>
   list_all (model_valid example_processor) (enabled_models example_processor) \<and>
   enabled_models example_processor = [''sparse'', ''dense'', ''empty''] \<and>
   fst (process_part example_processor example_input example_state) = None \<and>
   list_all2 (is_increment_of example_processor example_input)
     (pushed_by example_state (snd (process_part example_processor example_input example_state)))
     [''sparse'', ''dense'', ''empty''] \<and>
   pushed_by example_state (snd (process_part example_processor example_input example_state)) =
     [example_increment ''sparse'' True True, example_increment ''dense'' False True,
      example_increment ''empty'' False False] \<and>
   example_increment ''empty'' False False =
     InitializeModelIncrement example_input (example_config ''empty'' True False)
       (example_topic_model False)"
proof -
  have en: "enabled_models example_processor = [''sparse'', ''dense'', ''empty'']"
    by (simp add: enabled_models_def)
  have bv: "batch_valid example_input" by (simp add: batch_valid_def)
  have mv: "list_all (model_valid example_processor) (enabled_models example_processor)"
    by (simp add: en model_valid_def)
  note T = one_increment_per_enabled_model [of example_processor example_input example_state]
  from T bv mv have ok: "fst (process_part example_processor example_input example_state) = None"
    by blast
  with T have "list_all2 (is_increment_of example_processor example_input)
     (pushed_by example_state (snd (process_part example_processor example_input example_state)))
     (enabled_models example_processor)"
    by blast
  moreover have "pushed_by example_state (snd (process_part example_processor example_input example_state)) =
     [example_increment ''sparse'' True True, example_increment ''dense'' False True,
      example_increment ''empty'' False False]"
    using ex_process_part by (simp add: pushed_by_def example_state_def)
  moreover have "example_increment ''empty'' False False =
     InitializeModelIncrement example_input (example_config ''empty'' True False)
       (example_topic_model False)"
    by (simp add: ex_skeleton example_increment_def)
  ultimately show ?thesis using en bv mv ok by simp
qed

text \<open>
  Claim C3 as stated fails: the only model of the schema is enabled, but it lists a class
  id without a weight, so the worker throws before it creates the increment and pushes
  nothing for this batch.
\<close>

theorem one_increment_per_enabled_model_counterexample:
  "enabled_models broken_processor = [''broken''] \<and>
   process_part broken_processor example_input example_state =
     (Some (InternalError ''model.class_id_size() != model.class_weight_size()''),
      example_state) \<and>
   pushed_by example_state (snd (process_part broken_processor example_input example_state)) = []"
  by (simp add: enabled_models_def broken_processor_def process_part_def process_model_def
      pushed_by_def example_state_def Let_def)

text \<open>
  The skeleton of the scenario has one \<open>IncrementValue\<close> row of one value; a row of two
  values in its place makes the copy loop throw.
\<close>

theorem increment_rows_witness:
  "nat (no_rows (InitializeDenseNdw example_batch)) \<le>
     length (inc_token_increment ((example_increment ''sparse'' True True)
                \<lparr>inc_token_increment := [[Fin 0, Fin 0]]\<rparr>)) \<and>
   fst (copy_nwt 1 (InitializeDenseNdw example_batch)
          ((example_increment ''sparse'' True True)\<lparr>inc_token_increment := [[Fin 0, Fin 0]]\<rparr>)) =
     Some (InternalError ''hat_n_wt_cur->value_size() != topic_size'') \<and>
   fst (copy_nwt 1 (InitializeDenseNdw example_batch) (example_increment ''sparse'' True True)) = None \<and>
   increment_rows_ok (example_topic_model True) example_batch 1
     (InitializeModelIncrement example_input (example_config ''sparse'' True True)
        (example_topic_model True)) \<and>
   inc_operation_type (InitializeModelIncrement example_input (example_config ''sparse'' True True)
        (example_topic_model True)) = [IncrementValue] \<and>
   inc_token_increment (InitializeModelIncrement example_input (example_config ''sparse'' True True)
        (example_topic_model True)) = [[Fin 0]]"
proof -
  let ?bad = "(example_increment ''sparse'' True True)\<lparr>inc_token_increment := [[Fin 0, Fin 0]]\<rparr>"
  let ?good = "example_increment ''sparse'' True True"
  let ?m = "InitializeDenseNdw example_batch"
  have r1: "nat (no_rows ?m) \<le> length (inc_token_increment ?bad)"
    by (simp add: ex_dense_ndw)
  have r2: "nat (no_rows ?m) \<le> length (inc_token_increment ?good)"
    by (simp add: ex_dense_ndw example_increment_def)
  have b1: "list_ex (bad_row 1 ?bad) [0..<nat (no_rows ?m)]"
    by (simp add: ex_dense_ndw bad_row_def)
  have b2: "\<not> list_ex (bad_row 1 ?good) [0..<nat (no_rows ?m)]"
    by (simp add: ex_dense_ndw bad_row_def example_increment_def)
  note T1 = increment_rows [of "example_topic_model True" example_input
      "example_config ''sparse'' True True" example_processor "''sparse''" example_state ?m ?bad 1]
  note T2 = increment_rows [of "example_topic_model True" example_input
      "example_config ''sparse'' True True" example_processor "''sparse''" example_state ?m ?good 1]
  from T1 r1 b1 have c1: "fst (copy_nwt 1 ?m ?bad) =
      Some (InternalError ''hat_n_wt_cur->value_size() != topic_size'')"
    by simp
  from T2 r2 b2 have c2: "fst (copy_nwt 1 ?m ?good) = None"
    by simp
  from T1 have ok: "increment_rows_ok (example_topic_model True) example_batch 1
     (InitializeModelIncrement example_input (example_config ''sparse'' True True)
        (example_topic_model True))"
    by simp
  from r1 c1 c2 ok show ?thesis by (simp add: ex_skeleton)
qed

section \<open>The stream mask and Theta\<close>

text \<open>
  Claim C6. The Theta that \<^verbatim>\<open>CalculateNwtSparse\<close> and \<^verbatim>\<open>CalculateNwtDense\<close> leave behind
  is the result of the inner iterations, in which the stream mask does not occur: it is
  the same with a mask and without one.
\<close>

theorem stream_mask_does_not_affect_theta:
  "snd (CalculateNwtSparse model_config batch stream_mask schema sparse_ndw phi_matrix theta_matrix blas) =
     foldl (sparse_inner_iteration model_config batch schema sparse_ndw phi_matrix blas) theta_matrix
       [0..<nat (config_inner_iterations_count model_config)] \<and>
   snd (CalculateNwtDense model_config batch stream_mask schema dense_ndw phi_matrix theta_matrix blas) =
     snd (foldl (dense_inner_iteration model_config batch schema dense_ndw phi_matrix blas)
            (DenseMatrix_new (no_rows phi_matrix) (no_columns theta_matrix) True, theta_matrix)
            [0..<nat (config_inner_iterations_count model_config)]) \<and>
   snd (CalculateNwtSparse model_config batch (Some m) schema sparse_ndw phi_matrix theta_matrix blas) =
     snd (CalculateNwtSparse model_config batch None schema sparse_ndw phi_matrix theta_matrix blas) \<and>
   snd (CalculateNwtDense model_config batch (Some m) schema dense_ndw phi_matrix theta_matrix blas) =
     snd (CalculateNwtDense model_config batch None schema dense_ndw phi_matrix theta_matrix blas)"
  by (simp add: CalculateNwtSparse_def CalculateNwtDense_def Let_def split: prod.splits option.splits)

section \<open>The one-shot query\<close>

lemma FindThetaMatrix_no_model:
  "GetLatestTopicModel p (args_model_name args) = None \<Longrightarrow>
   FindThetaMatrix p n_drawn batch args =
     Inl (ArgumentOutOfRangeException ''Unable to find topic model'' (args_model_name args))"
  by (simp add: FindThetaMatrix_def Let_def)

lemma FindThetaMatrix_model:
  assumes "GetLatestTopicModel p (args_model_name args) = Some topic_model"
  shows "FindThetaMatrix p n_drawn batch args =
     (let model_config = schema_model_config (schema_get p) (args_model_name args)
      in if length (config_class_id model_config) \<noteq> length (config_class_weight model_config)
         then Inl (InternalError ''model.class_id_size() != model.class_weight_size()'')
         else if tm_topic_size topic_model \<noteq> config_topics_count model_config
         then Inl (InternalError
                ''Topics count mismatch between model config and physical model representation'')
         else Inr (case InitializePhi batch model_config topic_model of
                     None \<Rightarrow> None
                   | Some phi_matrix \<Rightarrow>
                       Some \<lparr>cache_batch_uuid = [],
                             cache_model_name = args_model_name args,
                             cache_topic_name = tm_topic_name topic_model,
                             cache_item_id = map item_id (batch_item batch),
                             cache_theta = theta_columns batch (tm_topic_size topic_model)
                               (refine_theta p n_drawn batch model_config None None phi_matrix),
                             cache_filename = None\<rparr>))"
  using assms
  by (simp add: FindThetaMatrix_def refine_theta_def Let_def split: option.splits)

text \<open>
  Claim C8, amended. \<^verbatim>\<open>FindThetaMatrix\<close> throws \<open>ArgumentOutOfRange\<close> exactly when the merger
  has no topic model of the named model, and an internal error exactly when it has one
  and the class id and class weight lists differ in length or the topic sizes differ.
  Otherwise, when Phi is not empty for the batch, it returns the Theta of the preparation
  and the EM loop run with no stream mask and no theta cache against that topic model;
  when Phi is empty it returns early, runs no EM loop and fills no Theta.
\<close>

theorem FindThetaMatrix_errors:
  "(FindThetaMatrix p n_drawn batch args =
      Inl (ArgumentOutOfRangeException ''Unable to find topic model'' (args_model_name args)) \<longleftrightarrow>
    GetLatestTopicModel p (args_model_name args) = None) \<and>
   ((\<exists>what. FindThetaMatrix p n_drawn batch args = Inl (InternalError what)) \<longleftrightarrow>
    (\<exists>topic_model. GetLatestTopicModel p (args_model_name args) = Some topic_model \<and>
       (length (config_class_id (schema_model_config (schema_get p) (args_model_name args))) \<noteq>
        length (config_class_weight (schema_model_config (schema_get p) (args_model_name args))) \<or>
        tm_topic_size topic_model \<noteq>
        config_topics_count (schema_model_config (schema_get p) (args_model_name args))))) \<and>
   (\<forall>topic_model.
      GetLatestTopicModel p (args_model_name args) = Some topic_model \<and>
      length (config_class_id (schema_model_config (schema_get p) (args_model_name args))) =
      length (config_class_weight (schema_model_config (schema_get p) (args_model_name args))) \<and>
      tm_topic_size topic_model =
      config_topics_count (schema_model_config (schema_get p) (args_model_name args)) \<longrightarrow>
      FindThetaMatrix p n_drawn batch args =
        Inr (case InitializePhi batch (schema_model_config (schema_get p) (args_model_name args)) topic_model of
               None \<Rightarrow> None
             | Some phi_matrix \<Rightarrow>
                 Some \<lparr>cache_batch_uuid = [],
                       cache_model_name = args_model_name args,
                       cache_topic_name = tm_topic_name topic_model,
                       cache_item_id = map item_id (batch_item batch),
                       cache_theta = theta_columns batch (tm_topic_size topic_model)
                         (refine_theta p n_drawn batch
                            (schema_model_config (schema_get p) (args_model_name args)) None None
                            phi_matrix),
                       cache_filename = None\<rparr>))"
proof (cases "GetLatestTopicModel p (args_model_name args)")
  case None
  with FindThetaMatrix_no_model [OF None, of n_drawn batch] show ?thesis by simp
next
  case (Some topic_model)
  from FindThetaMatrix_model [OF Some, of n_drawn batch] Some show ?thesis
    by (auto simp: Let_def split: if_splits)
qed

lemma ex_refine_theta:
  "refine_theta partial_processor 0 example_batch (example_config ''sparse'' True True) None None
     \<lparr>no_rows = 1, no_columns = 1, store_by_rows = True, data = [Fin 1]\<rparr> =
   \<lparr>no_rows = 1, no_columns = 1, store_by_rows = False, data = [Fin 1]\<rparr>"
  by (simp add: refine_theta_def ex_theta ex_sparse_ndw ex_sparse partial_processor_def)

text \<open>The scenario, a model without a topic model, and a model with a class id without a
  weight.\<close>

theorem FindThetaMatrix_errors_witness:
  "GetLatestTopicModel partial_processor ''sparse'' = Some (example_topic_model True) \<and>
   FindThetaMatrix partial_processor 0 example_batch \<lparr>args_model_name = ''sparse''\<rparr> =
     Inr (Some \<lparr>cache_batch_uuid = [], cache_model_name = ''sparse'',
                cache_topic_name = [''topic''], cache_item_id = [7],
                cache_theta = [[Fin 1]], cache_filename = None\<rparr>) \<and>
   GetLatestTopicModel partial_processor ''dense'' = None \<and>
   FindThetaMatrix partial_processor 0 example_batch \<lparr>args_model_name = ''dense''\<rparr> =
     Inl (ArgumentOutOfRangeException ''Unable to find topic model'' ''dense'') \<and>
   GetLatestTopicModel broken_processor ''broken'' = Some (example_topic_model True) \<and>
   (\<exists>what. FindThetaMatrix broken_processor 0 example_batch \<lparr>args_model_name = ''broken''\<rparr> =
     Inl (InternalError what))"
proof -
  have g1: "GetLatestTopicModel partial_processor ''sparse'' = Some (example_topic_model True)"
    and g2: "GetLatestTopicModel partial_processor ''dense'' = None"
    and s1: "schema_model_config (schema_get partial_processor) ''sparse'' =
               example_config ''sparse'' True True"
    by (simp_all add: partial_processor_def)
  have g3: "GetLatestTopicModel broken_processor ''broken'' = Some (example_topic_model True)"
    and s3: "length (config_class_id (schema_model_config (schema_get broken_processor) ''broken'')) \<noteq>
       length (config_class_weight (schema_model_config (schema_get broken_processor) ''broken''))"
    by (simp_all add: broken_processor_def)
  note T1 = FindThetaMatrix_errors [of partial_processor 0 example_batch "\<lparr>args_model_name = ''sparse''\<rparr>"]
  note T2 = FindThetaMatrix_errors [of partial_processor 0 example_batch "\<lparr>args_model_name = ''dense''\<rparr>"]
  note T3 = FindThetaMatrix_errors [of broken_processor 0 example_batch "\<lparr>args_model_name = ''broken''\<rparr>"]
  from T1 g1 s1 have "FindThetaMatrix partial_processor 0 example_batch \<lparr>args_model_name = ''sparse''\<rparr> =
     Inr (Some \<lparr>cache_batch_uuid = [], cache_model_name = ''sparse'',
                cache_topic_name = [''topic''], cache_item_id = [7],
                cache_theta = [[Fin 1]], cache_filename = None\<rparr>)"
    by (simp add: ex_phi ex_refine_theta theta_columns_def get_at_def offset_def)
  moreover from T2 g2 have "FindThetaMatrix partial_processor 0 example_batch \<lparr>args_model_name = ''dense''\<rparr> =
     Inl (ArgumentOutOfRangeException ''Unable to find topic model'' ''dense'')"
    by simp
  moreover from T3 g3 s3 have "\<exists>what. FindThetaMatrix broken_processor 0 example_batch
      \<lparr>args_model_name = ''broken''\<rparr> = Inl (InternalError what)"
    by simp
  ultimately show ?thesis using g1 g2 g3 by simp
qed

section \<open>Properties of the transaction inner loop\<close>

lemma document_passes_from:
  "document_passes args batch p_wt theta_agents d inner_iter theta_col =
     foldl (document_pass args batch p_wt theta_agents d) theta_col
       [inner_iter .. args_num_document_passes args]"
proof (induction args batch p_wt theta_agents d inner_iter theta_col rule: document_passes.induct)
  case (1 args batch p_wt theta_agents d inner_iter theta_col)
  show ?case
  proof (cases "inner_iter \<le> args_num_document_passes args")
    case True
    have "[inner_iter .. args_num_document_passes args] =
        inner_iter # [inner_iter + 1 .. args_num_document_passes args]"
      using True by (simp add: upto_rec1)
    with True "1.IH" show ?thesis
      by (subst document_passes.simps) simp
  next
    case False
    then show ?thesis by (subst document_passes.simps) simp
  qed
qed

lemma isZero_kTransactionsEps:
  "isZero x kTransactionsEps \<longleftrightarrow> (\<exists>v. x = Fin v \<and> \<bar>v\<bar> < 7880401239278896 / 2 ^ 385)"
  by (cases x) (simp_all add: isZero_def kTransactionsEps_eq)

text \<open>
  Claim C9. The transaction loop refines the theta column of every document by the passes
  \<open>inner_iter = 0, ..., num_document_passes\<close>, which are \<open>num_document_passes + 1\<close> passes
  (the BOW loops run \<open>inner_iterations_count\<close> iterations, see
  \<open>stream_mask_does_not_affect_theta\<close>); within a pass a transaction whose \<open>p_dx\<close> is
  below \<open>kTransactionsEps\<close> in absolute value leaves \<open>n_td\<close> as it is, and every \<open>p_dx\<close>
  of absolute value below \<open>1e-100\<close> is below \<open>kTransactionsEps\<close>.
\<close>

theorem transaction_passes:
  "fst (TransactionInferThetaAndUpdateNwtSparse args batch batch_weight p_wt theta_agents theta_matrix
          nwt_writer) =
     map (\<lambda>d. foldl (document_pass args batch p_wt theta_agents d) (theta_matrix ! d)
                  [0 .. args_num_document_passes args])
         [0..<length theta_matrix] \<and>
   document_passes args batch p_wt theta_agents d 0 theta_col =
     foldl (document_pass args batch p_wt theta_agents d) theta_col
       [0 .. args_num_document_passes args] \<and>
   length [0 .. args_num_document_passes args] = nat (args_num_document_passes args + 1) \<and>
   (isZero (p_dx_val_of (helper_vector_of batch p_wt item theta_col t_index)) kTransactionsEps \<longrightarrow>
      transaction_step args batch p_wt item theta_col n_td t_index = n_td) \<and>
   (\<bar>v\<bar> < 1 / 10 ^ 100 \<longrightarrow> isZero (Fin v) kTransactionsEps)"
proof (intro conjI impI)
  show "fst (TransactionInferThetaAndUpdateNwtSparse args batch batch_weight p_wt theta_agents theta_matrix
          nwt_writer) =
     map (\<lambda>d. foldl (document_pass args batch p_wt theta_agents d) (theta_matrix ! d)
                  [0 .. args_num_document_passes args])
         [0..<length theta_matrix]"
    by (simp add: TransactionInferThetaAndUpdateNwtSparse_def Let_def document_passes_from
        split: option.splits)
  show "document_passes args batch p_wt theta_agents d 0 theta_col =
     foldl (document_pass args batch p_wt theta_agents d) theta_col
       [0 .. args_num_document_passes args]"
    by (rule document_passes_from)
  show "length [0 .. args_num_document_passes args] = nat (args_num_document_passes args + 1)"
    by simp
  show "transaction_step args batch p_wt item theta_col n_td t_index = n_td"
    if "isZero (p_dx_val_of (helper_vector_of batch p_wt item theta_col t_index)) kTransactionsEps"
    using that by (simp add: transaction_step_def Let_def)
  show "isZero (Fin v) kTransactionsEps" if "\<bar>v\<bar> < 1 / 10 ^ 100"
  proof -
    have "(1::rat) / 10 ^ 100 < 7880401239278896 / 2 ^ 385" by simp
    with that have "\<bar>v\<bar> < 7880401239278896 / 2 ^ 385" by (rule less_trans)
    then show ?thesis by (simp add: isZero_kTransactionsEps)
  qed
qed

lemma ex_helper_vector:
  "helper_vector_of example_transaction_batch zero_phi
     (tbatch_item example_transaction_batch ! 0) [Fin x] 0 = [Fin 0]"
  by (simp add: helper_vector_of_def ComputePtdx_def zero_phi_def example_transaction_batch_def
      local_to_global_def Let_def)

lemma ex_p_dx: "p_dx_val_of [Fin 0] = Fin 0"
  by (simp add: p_dx_val_of_def)

lemma ex_isZero: "isZero (Fin 0) kTransactionsEps"
  by (simp add: isZero_kTransactionsEps)

lemma ex_transactions_of: "transactions_of (tbatch_item example_transaction_batch ! 0) = [0]"
  by (simp add: transactions_of_def example_transaction_batch_def)

lemma ex_transaction_step:
  "transaction_step example_args example_transaction_batch zero_phi
     (tbatch_item example_transaction_batch ! 0) [Fin x] n_td 0 = n_td"
  by (simp add: transaction_step_def ex_helper_vector ex_p_dx ex_isZero Let_def)

lemma zero_phi_topic_size [simp]: "phi_topic_size zero_phi = 1"
  by (simp add: zero_phi_def)

lemma ex_document_pass:
  "document_pass example_args example_transaction_batch zero_phi no_agents 0 [Fin x] it = [Fin 0]"
  by (simp add: document_pass_def ex_transactions_of ex_transaction_step no_agents_def Let_def)

text \<open>A transaction with \<open>p_dx = 0\<close>, and two passes for \<open>num_document_passes = 1\<close>.\<close>

theorem transaction_passes_witness:
  "isZero (p_dx_val_of (helper_vector_of example_transaction_batch zero_phi
      (tbatch_item example_transaction_batch ! 0) [Fin 1] 0)) kTransactionsEps \<and>
   transaction_step example_args example_transaction_batch zero_phi
      (tbatch_item example_transaction_batch ! 0) [Fin 1] [Fin 5] 0 = [Fin 5] \<and>
   \<bar>0 :: rat\<bar> < 1 / 10 ^ 100 \<and> isZero (Fin 0) kTransactionsEps \<and>
   args_num_document_passes example_args = 1 \<and>
   document_passes example_args example_transaction_batch zero_phi no_agents 0 0 [Fin 1] =
     document_pass example_args example_transaction_batch zero_phi no_agents 0
       (document_pass example_args example_transaction_batch zero_phi no_agents 0 [Fin 1] 0) 1 \<and>
   length [0 .. args_num_document_passes example_args] = 2"
proof -
  have z: "isZero (p_dx_val_of (helper_vector_of example_transaction_batch zero_phi
      (tbatch_item example_transaction_batch ! 0) [Fin 1] 0)) kTransactionsEps"
    by (simp add: ex_helper_vector ex_p_dx ex_isZero)
  have n: "args_num_document_passes example_args = 1" by (simp add: example_args_def)
  have u: "[0 .. args_num_document_passes example_args] = [0, 1]"
    by (simp add: n upto_rec1)
  have b: "\<bar>0 :: rat\<bar> < 1 / 10 ^ 100" by simp
  note T = transaction_passes [of example_args example_transaction_batch "Fin 1" zero_phi no_agents
      "[[Fin 1]]" None 0 "[Fin 1]" "tbatch_item example_transaction_batch ! 0" 0 "[Fin 5]" 0]
  from T z have "transaction_step example_args example_transaction_batch zero_phi
      (tbatch_item example_transaction_batch ! 0) [Fin 1] [Fin 5] 0 = [Fin 5]"
    by blast
  moreover from T b have "isZero (Fin 0) kTransactionsEps" by blast
  moreover from T have "document_passes example_args example_transaction_batch zero_phi no_agents 0 0 [Fin 1] =
     document_pass example_args example_transaction_batch zero_phi no_agents 0
       (document_pass example_args example_transaction_batch zero_phi no_agents 0 [Fin 1] 0) 1"
    by (simp add: u)
  moreover from T have "length [0 .. args_num_document_passes example_args] = 2"
    by (simp add: n)
  ultimately show ?thesis using z n b by simp
qed

text \<open>
  Claim C2 fails in the second loop of the transaction variant, which divides by \<open>p_dx_val\<close>
  without the test of the first loop: for a document whose only transaction has
  \<open>p_dx = 0\<close>, the value stored for the token is \<open>0 / 0\<close>, a NaN.
\<close>

theorem transaction_nwt_division_by_zero:
  "TransactionInferThetaAndUpdateNwtSparse example_args example_transaction_batch (Fin 1) zero_phi
     no_agents [[Fin 1]] (Some []) = ([[Fin 0]], Some [(0, [NaN])])"
proof -
  have u: "[0 .. args_num_document_passes example_args] = [0, 1]"
    by (simp add: example_args_def upto_rec1)
  have th: "document_passes example_args example_transaction_batch zero_phi no_agents 0 0 [Fin 1] = [Fin 0]"
    by (simp add: document_passes_from u ex_document_pass)
  have v: "nwt_values example_args example_transaction_batch (Fin 1) zero_phi
      (tbatch_item example_transaction_batch ! 0) [Fin 0] 0 = [NaN]"
    by (simp add: nwt_values_def ex_helper_vector ex_p_dx tt_weight_of_def Let_def)
      (simp add: zero_phi_def example_transaction_batch_def example_args_def)
  have s: "nwt_stores example_args example_transaction_batch (Fin 1) zero_phi
      (tbatch_item example_transaction_batch ! 0) [Fin 0] 0 = [(0, [NaN])]"
    by (simp add: nwt_stores_def v Let_def)
      (simp add: zero_phi_def example_transaction_batch_def local_to_global_def)
  show ?thesis
    by (simp add: TransactionInferThetaAndUpdateNwtSparse_def Let_def th s ex_transactions_of)
qed

section \<open>Properties of the sparse document-word matrix\<close>

lemma InitializeSparseNdw_fold:
  "foldl (InitializeSparseNdw_item batch model_config) ([], [], []) [0..<n] =
     (concat (map (\<lambda>i. map fst (sparse_item_entries batch model_config (batch_item batch ! i))) [0..<n]),
      map (\<lambda>d. int (length (concat (map (\<lambda>i. map fst (sparse_item_entries batch model_config
                                                (batch_item batch ! i))) [0..<d])))) [0..<n],
      concat (map (\<lambda>i. map snd (sparse_item_entries batch model_config (batch_item batch ! i))) [0..<n]))"
  by (induction n) (simp_all add: InitializeSparseNdw_item_def Let_def)

lemma upto_nat_range: "map nat [int a .. int b - 1] = [a..<b]"
proof (induction b)
  case 0
  show ?case by simp
next
  case (Suc b)
  show ?case
  proof (cases "a \<le> b")
    case True
    then have "[int a .. int (Suc b) - 1] = [int a .. int b - 1] @ [int b]"
      using upto_rec2 [of "int a" "int b"] by simp
    with Suc True show ?thesis by simp
  next
    case False
    then show ?thesis by simp
  qed
qed

lemma concat_segment:
  assumes "d < n"
  shows "map (\<lambda>i. concat (map f [0..<n]) ! i)
           [length (concat (map f [0..<d])) ..< length (concat (map f [0..<d])) + length (f d)] = f d"
proof -
  have "[0..<n] = [0..<d] @ d # [Suc d..<n]"
    using assms by (metis le_add2 less_imp_add_positive upt_add_eq_append upt_conv_Cons zero_le
        add_Suc_right less_eq_nat.simps(1) plus_1_eq_Suc upt_rec)
  then have c: "concat (map f [0..<n]) = concat (map f [0..<d]) @ f d @ concat (map f [Suc d..<n])"
    by simp
  show ?thesis
    unfolding c by (rule nth_equalityI) (simp_all add: nth_append)
qed

lemma concat_prefix_length:
  "length (concat (map f [0..<Suc d])) = length (concat (map f [0..<d])) + length (f d)"
  by simp

lemma class_id_to_weight_None:
  "n \<le> length cs \<Longrightarrow>
   (foldl (\<lambda>m i. if m (cs ! i) = None then m(cs ! i \<mapsto> ws ! i) else m) Map.empty [0..<n] c = None) =
   (c \<notin> set (take n cs))"
proof (induction n)
  case 0
  show ?case by simp
next
  case (Suc n)
  then have "take (Suc n) cs = take n cs @ [cs ! n]"
    by (simp add: take_Suc_conv_app_nth)
  with Suc show ?case by auto
qed

lemma class_id_to_weight_first:
  "n \<le> length cs \<Longrightarrow> i < n \<Longrightarrow> cs ! i = c \<Longrightarrow> c \<notin> set (take i cs) \<Longrightarrow>
   foldl (\<lambda>m i. if m (cs ! i) = None then m(cs ! i \<mapsto> ws ! i) else m) Map.empty [0..<n] c = Some (ws ! i)"
proof (induction n)
  case 0
  then show ?case by simp
next
  case (Suc n)
  show ?case
  proof (cases "i < n")
    case True
    with Suc have "foldl (\<lambda>m i. if m (cs ! i) = None then m(cs ! i \<mapsto> ws ! i) else m) Map.empty [0..<n] c
        = Some (ws ! i)"
      by simp
    then show ?thesis by auto
  next
    case False
    with Suc.prems have i: "i = n" by simp
    from Suc.prems i
    have "foldl (\<lambda>m i. if m (cs ! i) = None then m(cs ! i \<mapsto> ws ! i) else m) Map.empty [0..<n] c = None"
      using class_id_to_weight_None [of n cs ws c] by simp
    with Suc.prems i show ?thesis by simp
  qed
qed

lemma class_weight_of_no_classes:
  "config_class_id model_config = [] \<Longrightarrow> class_weight_of batch model_config token_id = Fin 1"
  by (simp add: class_weight_of_def)

lemma class_weight_of_listed:
  assumes "i < length (config_class_id model_config)"
    and "config_class_id model_config ! i = batch_class_id batch ! nat token_id"
    and "batch_class_id batch ! nat token_id \<notin> set (take i (config_class_id model_config))"
  shows "class_weight_of batch model_config token_id = config_class_weight model_config ! i"
  using assms class_id_to_weight_first [of "length (config_class_id model_config)"
      "config_class_id model_config" i "batch_class_id batch ! nat token_id"
      "config_class_weight model_config"]
  by (auto simp: class_weight_of_def class_id_to_weight_def)

lemma class_weight_of_unlisted:
  assumes "config_class_id model_config \<noteq> []"
    and "batch_class_id batch ! nat token_id \<notin> set (config_class_id model_config)"
  shows "class_weight_of batch model_config token_id = Fin 0"
  using assms class_id_to_weight_None [of "length (config_class_id model_config)"
      "config_class_id model_config" "config_class_weight model_config"
      "batch_class_id batch ! nat token_id"]
  by (simp add: class_weight_of_def class_id_to_weight_def)

lemma InitializeSparseNdw_row:
  assumes "d < length (batch_item batch)"
  shows "map (\<lambda>i. (csr_val (InitializeSparseNdw batch model_config) ! i,
                    csr_col_ind (InitializeSparseNdw batch model_config) ! i))
             (csr_row (InitializeSparseNdw batch model_config) d) =
         sparse_item_entries batch model_config (batch_item batch ! d)"
proof -
  define E where "E = (\<lambda>i. sparse_item_entries batch model_config (batch_item batch ! i))"
  define n where "n = length (batch_item batch)"
  define off where "off = (\<lambda>d. length (concat (map (\<lambda>i. map fst (E i)) [0..<d])))"
  have off': "off d = length (concat (map (\<lambda>i. map snd (E i)) [0..<d]))" for d
    by (simp add: off_def length_concat comp_def)
  have val: "csr_val (InitializeSparseNdw batch model_config) = concat (map (\<lambda>i. map fst (E i)) [0..<n])"
    by (simp add: InitializeSparseNdw_def InitializeSparseNdw_fold CsrMatrix_new_def E_def n_def)
  have col: "csr_col_ind (InitializeSparseNdw batch model_config) = concat (map (\<lambda>i. map snd (E i)) [0..<n])"
    by (simp add: InitializeSparseNdw_def InitializeSparseNdw_fold CsrMatrix_new_def E_def n_def)
  have rp: "csr_row_ptr (InitializeSparseNdw batch model_config) = map (\<lambda>d. int (off d)) [0..<Suc n]"
    by (simp add: InitializeSparseNdw_def InitializeSparseNdw_fold CsrMatrix_new_def E_def n_def off_def)
  have d: "d < n" using assms by (simp add: n_def)
  have r1: "csr_row_ptr (InitializeSparseNdw batch model_config) ! d = int (off d)"
    using d unfolding rp by (simp del: upt_Suc)
  have r2: "csr_row_ptr (InitializeSparseNdw batch model_config) ! (d + 1) = int (off (Suc d))"
    using d unfolding rp by (simp del: upt_Suc)
  have offS: "off (Suc d) = off d + length (E d)"
    by (simp add: off_def)
  have row: "csr_row (InitializeSparseNdw batch model_config) d = [off d ..< off d + length (E d)]"
    unfolding csr_row_def r1 r2 offS by (rule upto_nat_range)
  have v: "map (\<lambda>i. concat (map (\<lambda>i. map fst (E i)) [0..<n]) ! i) [off d ..< off d + length (E d)]
             = map fst (E d)"
    using concat_segment [OF d, of "\<lambda>i. map fst (E i)"] by (simp add: off_def)
  have c: "map (\<lambda>i. concat (map (\<lambda>i. map snd (E i)) [0..<n]) ! i) [off d ..< off d + length (E d)]
             = map snd (E d)"
    using concat_segment [OF d, of "\<lambda>i. map snd (E i)"] by (simp add: off')
  have "map (\<lambda>i. (csr_val (InitializeSparseNdw batch model_config) ! i,
                    csr_col_ind (InitializeSparseNdw batch model_config) ! i))
             (csr_row (InitializeSparseNdw batch model_config) d) =
        zip (map (\<lambda>i. concat (map (\<lambda>i. map fst (E i)) [0..<n]) ! i) [off d ..< off d + length (E d)])
            (map (\<lambda>i. concat (map (\<lambda>i. map snd (E i)) [0..<n]) ! i) [off d ..< off d + length (E d)])"
    unfolding val col row by (simp add: zip_map_map zip_same_conv_map)
  also have "\<dots> = zip (map fst (E d)) (map snd (E d))" by (simp only: v c)
  also have "\<dots> = E d" by (simp add: zip_map_fst_snd)
  finally show ?thesis by (simp add: E_def)
qed

lemma InitializeSparseNdw_dims:
  "csr_m (InitializeSparseNdw batch model_config) = int (length (batch_item batch)) \<and>
   csr_n (InitializeSparseNdw batch model_config) = int (length (batch_token batch))"
  by (simp add: InitializeSparseNdw_def InitializeSparseNdw_fold CsrMatrix_new_def)

text \<open>
  Claim C4. \<^verbatim>\<open>InitializeSparseNdw\<close> builds a CSR matrix with one row per item and one
  column per batch token. The entries of the row of an item are, in order, one entry for
  every \<open>(token_id, token_count)\<close> pair of every field of the item, with column \<open>token_id\<close>
  and the single-precision product of the class weight and the count as its value. The
  class weight is 1 when the config lists no class, the first weight configured for the
  class of the token when the class is listed, and 0 when classes are listed and the
  class of the token is not among them.
\<close>

theorem InitializeSparseNdw_entries:
  "csr_m (InitializeSparseNdw batch model_config) = int (length (batch_item batch)) \<and>
   csr_n (InitializeSparseNdw batch model_config) = int (length (batch_token batch)) \<and>
   (d < length (batch_item batch) \<longrightarrow>
      map (\<lambda>i. (csr_val (InitializeSparseNdw batch model_config) ! i,
                 csr_col_ind (InitializeSparseNdw batch model_config) ! i))
          (csr_row (InitializeSparseNdw batch model_config) d) =
      concat (map (\<lambda>field.
                map (\<lambda>token_index.
                       (fmul binary32
                          (class_weight_of batch model_config (field_token_id field ! token_index))
                          (fp_of_int binary32 (field_token_count field ! token_index)),
                        field_token_id field ! token_index))
                    [0..<length (field_token_id field)])
              (item_field (batch_item batch ! d)))) \<and>
   (config_class_id model_config = [] \<longrightarrow> class_weight_of batch model_config token_id = Fin 1) \<and>
   (i < length (config_class_id model_config) \<and>
    config_class_id model_config ! i = batch_class_id batch ! nat token_id \<and>
    batch_class_id batch ! nat token_id \<notin> set (take i (config_class_id model_config)) \<longrightarrow>
      class_weight_of batch model_config token_id = config_class_weight model_config ! i) \<and>
   (config_class_id model_config \<noteq> [] \<and>
    batch_class_id batch ! nat token_id \<notin> set (config_class_id model_config) \<longrightarrow>
      class_weight_of batch model_config token_id = Fin 0)"
proof -
  have row: "d < length (batch_item batch) \<longrightarrow>
      map (\<lambda>i. (csr_val (InitializeSparseNdw batch model_config) ! i,
                 csr_col_ind (InitializeSparseNdw batch model_config) ! i))
          (csr_row (InitializeSparseNdw batch model_config) d) =
      concat (map (\<lambda>field.
                map (\<lambda>token_index.
                       (fmul binary32
                          (class_weight_of batch model_config (field_token_id field ! token_index))
                          (fp_of_int binary32 (field_token_count field ! token_index)),
                        field_token_id field ! token_index))
                    [0..<length (field_token_id field)])
              (item_field (batch_item batch ! d)))"
    using InitializeSparseNdw_row [of d batch model_config]
    by (simp add: sparse_item_entries_def sparse_field_entries_def Let_def cong: map_cong)
  have c1: "csr_m (InitializeSparseNdw batch model_config) = int (length (batch_item batch))"
    and c2: "csr_n (InitializeSparseNdw batch model_config) = int (length (batch_token batch))"
    using InitializeSparseNdw_dims [of batch model_config] by simp_all
  have w1: "config_class_id model_config = [] \<longrightarrow> class_weight_of batch model_config token_id = Fin 1"
    using class_weight_of_no_classes [of model_config batch token_id] by simp
  have w2: "i < length (config_class_id model_config) \<and>
    config_class_id model_config ! i = batch_class_id batch ! nat token_id \<and>
    batch_class_id batch ! nat token_id \<notin> set (take i (config_class_id model_config)) \<longrightarrow>
      class_weight_of batch model_config token_id = config_class_weight model_config ! i"
    using class_weight_of_listed [of i model_config batch token_id] by blast
  have w3: "config_class_id model_config \<noteq> [] \<and>
    batch_class_id batch ! nat token_id \<notin> set (config_class_id model_config) \<longrightarrow>
      class_weight_of batch model_config token_id = Fin 0"
    using class_weight_of_unlisted [of model_config batch token_id] by blast
  show ?thesis
    by (intro conjI) (rule c1 c2 row w1 w2 w3)+
qed

lemma round32_small:
  "round_fmt binary32 2 = Fin 2" "round_fmt binary32 3 = Fin 3" "round_fmt binary32 4 = Fin 4"
  "round_fmt binary32 9 = Fin 9"
  using binary32_of_int_exact [of 2] binary32_of_int_exact [of 3] binary32_of_int_exact [of 4]
    binary32_of_int_exact [of 9]
  by simp_all

lemma ex_class_config_fields [simp]:
  "config_class_id example_class_config = [''c'', ''e'']"
  "config_class_weight example_class_config = [Fin 2, Fin 3]"
  by (simp_all add: example_class_config_def)

lemma ex_class_batch_fields [simp]:
  "batch_token example_class_batch = [''a'', ''b'', ''x'']"
  "batch_class_id example_class_batch = [''c'', ''e'', ''u'']"
  "batch_item example_class_batch =
     [\<lparr>item_id = 7,
       item_field = [\<lparr>field_token_id = [0, 1], field_token_count = [2, 3]\<rparr>,
                     \<lparr>field_token_id = [1, 2], field_token_count = [1, 4]\<rparr>]\<rparr>]"
  by (simp_all add: example_class_batch_def)

text \<open>The row of the item of the example under the two class weights, and the three cases
  of the class weight.\<close>

theorem InitializeSparseNdw_entries_witness:
  "map (\<lambda>i. (csr_val (InitializeSparseNdw example_class_batch example_class_config) ! i,
              csr_col_ind (InitializeSparseNdw example_class_batch example_class_config) ! i))
       (csr_row (InitializeSparseNdw example_class_batch example_class_config) 0) =
     [(Fin 4, 0), (Fin 9, 1), (Fin 3, 1), (Fin 0, 2)] \<and>
   class_weight_of example_class_batch (example_config ''plain'' True True) 2 = Fin 1 \<and>
   class_weight_of example_class_batch example_class_config 1 = Fin 3 \<and>
   class_weight_of example_class_batch example_class_config 2 = Fin 0"
proof -
  note T1 = InitializeSparseNdw_entries [where batch = example_class_batch
      and model_config = example_class_config and d = 0 and token_id = 1 and i = 1]
  note T2 = InitializeSparseNdw_entries [where batch = example_class_batch
      and model_config = example_class_config and d = 0 and token_id = 2 and i = 0]
  note T3 = InitializeSparseNdw_entries [where batch = example_class_batch
      and model_config = "example_config ''plain'' True True" and d = 0 and token_id = 2 and i = 0]
  have w1: "class_weight_of example_class_batch example_class_config 1 = Fin 3"
    using T1 by simp
  have w0: "class_weight_of example_class_batch example_class_config 0 = Fin 2"
    using InitializeSparseNdw_entries [where batch = example_class_batch
      and model_config = example_class_config and d = 0 and token_id = 0 and i = 0] by simp
  have w2: "class_weight_of example_class_batch example_class_config 2 = Fin 0"
    using T2 by simp
  have w3: "class_weight_of example_class_batch (example_config ''plain'' True True) 2 = Fin 1"
    using T3 by simp
  have "map (\<lambda>i. (csr_val (InitializeSparseNdw example_class_batch example_class_config) ! i,
              csr_col_ind (InitializeSparseNdw example_class_batch example_class_config) ! i))
       (csr_row (InitializeSparseNdw example_class_batch example_class_config) 0) =
     [(Fin 4, 0), (Fin 9, 1), (Fin 3, 1), (Fin 0, 2)]"
    using T1 by (simp add: w0 w1 w2 fp_of_int_def round32_small upt_rec)
  with w1 w2 w3 show ?thesis by simp
qed

section \<open>Properties of the dense document-word matrix\<close>

lemma row_major_offset:
  assumes "row_major r c m" "0 \<le> i" "i < r" "0 \<le> j" "j < c"
  shows "offset m i j = nat (i * c + j)" "offset m i j < length (data m)"
proof -
  show o: "offset m i j = nat (i * c + j)" using assms by (simp add: offset_def row_major_def)
  have "i * c + j < (i + 1) * c" using assms by (simp add: algebra_simps)
  also have "\<dots> \<le> r * c" using assms by (intro mult_right_mono) simp_all
  finally have "i * c + j < r * c" .
  moreover have "0 \<le> i * c + j" using assms by simp
  ultimately show "offset m i j < length (data m)"
    using assms(1) by (simp add: o row_major_def)
qed

lemma row_major_offset_inj:
  assumes "row_major r c m" "0 \<le> i" "i < r" "0 \<le> j" "j < c" "0 \<le> i'" "i' < r" "0 \<le> j'" "j' < c"
    and "offset m i j = offset m i' j'"
  shows "i = i' \<and> j = j'"
proof -
  have "0 \<le> i * c + j" "0 \<le> i' * c + j'" using assms by simp_all
  moreover have "nat (i * c + j) = nat (i' * c + j')"
    using assms(10) row_major_offset(1) [OF assms(1-5)] row_major_offset(1) [OF assms(1) assms(6-9)]
    by simp
  ultimately have e: "i * c + j = i' * c + j'" by linarith
  have "(i * c + j) div c = i" "(i' * c + j') div c = i'"
    using assms by simp_all
  with e have "i = i'" by simp
  with e show ?thesis by simp
qed

lemma row_major_set_at: "row_major r c m \<Longrightarrow> row_major r c (set_at m i j v)"
  by (simp add: row_major_def set_at_def)

lemma get_set_same:
  assumes "row_major r c m" "0 \<le> i" "i < r" "0 \<le> j" "j < c"
  shows "get_at (set_at m i j v) i j = v"
proof -
  have "get_at (set_at m i j v) i j = (data m)[offset m i j := v] ! offset m i j"
    by (simp add: get_at_def set_at_def offset_def)
  with row_major_offset(2) [OF assms] show ?thesis by simp
qed

lemma get_set_other:
  assumes "row_major r c m" "0 \<le> i" "i < r" "0 \<le> j" "j < c" "0 \<le> i'" "i' < r" "0 \<le> j'" "j' < c"
    and "i \<noteq> i' \<or> j \<noteq> j'"
  shows "get_at (set_at m i j v) i' j' = get_at m i' j'"
proof -
  have "offset m i j \<noteq> offset m i' j'"
    using row_major_offset_inj [OF assms(1-9)] assms(10) by blast
  moreover have "get_at (set_at m i j v) i' j' = (data m)[offset m i j := v] ! offset m i' j'"
    by (simp add: get_at_def set_at_def offset_def)
  ultimately show ?thesis by (simp add: get_at_def)
qed

lemma accumulate_snoc:
  "accumulate start (counts @ [c]) = fadd binary32 (accumulate start counts) (fp_of_int binary32 c)"
  by (simp add: accumulate_def)

lemma accumulate_append:
  "accumulate start (xs @ ys) = accumulate (accumulate start xs) ys"
  by (simp add: accumulate_def)

lemma accumulate_Nil [simp]: "accumulate start [] = start"
  by (simp add: accumulate_def)

text \<open>The loop over the pairs of a field, after \<open>n\<close> pairs.\<close>

lemma dense_field_prefix:
  assumes d: "int d < I"
    and ids: "list_all (\<lambda>token_id. 0 \<le> token_id \<and> token_id < T) ids"
  shows "n \<le> length ids \<Longrightarrow> row_major T I m \<Longrightarrow>
     row_major T I
       (foldl (\<lambda>m token_index. set_at m (ids ! token_index) (int d)
                 (fadd binary32 (get_at m (ids ! token_index) (int d))
                    (fp_of_int binary32 (cnt ! token_index)))) m [0..<n]) \<and>
     (\<forall>t d'. 0 \<le> t \<and> t < T \<and> 0 \<le> d' \<and> d' < I \<longrightarrow>
        get_at (foldl (\<lambda>m token_index. set_at m (ids ! token_index) (int d)
                 (fadd binary32 (get_at m (ids ! token_index) (int d))
                    (fp_of_int binary32 (cnt ! token_index)))) m [0..<n]) t d' =
        (if d' = int d
         then accumulate (get_at m t d')
                (map (\<lambda>token_index. cnt ! token_index)
                   (filter (\<lambda>token_index. ids ! token_index = t) [0..<n]))
         else get_at m t d'))"
proof (induction n)
  case 0
  then show ?case by simp
next
  case (Suc n)
  define F where "F = (\<lambda>m token_index. set_at m (ids ! token_index) (int d)
                 (fadd binary32 (get_at m (ids ! token_index) (int d))
                    (fp_of_int binary32 (cnt ! token_index))))"
  define R where "R = foldl F m [0..<n]"
  from Suc have n: "n < length ids" by simp
  from Suc have R: "row_major T I R"
    and get: "\<And>t d'. 0 \<le> t \<Longrightarrow> t < T \<Longrightarrow> 0 \<le> d' \<Longrightarrow> d' < I \<Longrightarrow>
        get_at R t d' =
        (if d' = int d
         then accumulate (get_at m t d')
                (map (\<lambda>token_index. cnt ! token_index)
                   (filter (\<lambda>token_index. ids ! token_index = t) [0..<n]))
         else get_at m t d')"
    unfolding R_def F_def by simp_all
  from ids n have tid: "0 \<le> ids ! n" "ids ! n < T"
    by (simp_all add: list_all_length)
  have d0: "0 \<le> int d" by simp
  have step: "foldl F m [0..<Suc n] = F R n" by (simp add: R_def)
  have FR: "F R n = set_at R (ids ! n) (int d)
      (fadd binary32 (get_at R (ids ! n) (int d)) (fp_of_int binary32 (cnt ! n)))"
    by (simp add: F_def)
  have rm: "row_major T I (F R n)" unfolding FR using R by (rule row_major_set_at)
  have val: "get_at (F R n) t d' =
        (if d' = int d
         then accumulate (get_at m t d')
                (map (\<lambda>token_index. cnt ! token_index)
                   (filter (\<lambda>token_index. ids ! token_index = t) [0..<Suc n]))
         else get_at m t d')"
    if t: "0 \<le> t" "t < T" "0 \<le> d'" "d' < I" for t d'
  proof (cases "t = ids ! n \<and> d' = int d")
    case True
    have "get_at (F R n) t d' = fadd binary32 (get_at R (ids ! n) (int d)) (fp_of_int binary32 (cnt ! n))"
      unfolding FR using True get_set_same [OF R tid d0 d] by simp
    also have "get_at R (ids ! n) (int d) = accumulate (get_at m t d')
                (map (\<lambda>token_index. cnt ! token_index)
                   (filter (\<lambda>token_index. ids ! token_index = t) [0..<n]))"
      using get [OF tid d0 d] True by simp
    finally show ?thesis using True by (simp add: accumulate_snoc)
  next
    case False
    then have ne: "ids ! n \<noteq> t \<or> int d \<noteq> d'" by auto
    have "get_at (F R n) t d' = get_at R t d'"
      unfolding FR using get_set_other [OF R tid d0 d t ne] .
    with get [OF t] False show ?thesis by auto
  qed
  show ?case
    using rm val unfolding step [unfolded F_def] F_def by blast
qed

lemma InitializeDenseNdw_field_get:
  assumes "row_major T I m" "int d < I"
    and "list_all (\<lambda>token_id. 0 \<le> token_id \<and> token_id < T) (field_token_id field)"
  shows "row_major T I (InitializeDenseNdw_field d m field)"
    and "0 \<le> t \<Longrightarrow> t < T \<Longrightarrow> 0 \<le> d' \<Longrightarrow> d' < I \<Longrightarrow>
         get_at (InitializeDenseNdw_field d m field) t d' =
           (if d' = int d then accumulate (get_at m t d') (occurrences_field field t)
            else get_at m t d')"
  using dense_field_prefix [OF assms(2,3) le_refl assms(1), of "field_token_count field"]
  by (simp_all add: InitializeDenseNdw_field_def occurrences_field_def Let_def)

text \<open>The loop over the fields of an item.\<close>

lemma dense_fields_get:
  assumes d: "int d < I"
  shows "row_major T I m \<Longrightarrow>
     list_all (\<lambda>field. list_all (\<lambda>token_id. 0 \<le> token_id \<and> token_id < T) (field_token_id field)) fs \<Longrightarrow>
     row_major T I (foldl (InitializeDenseNdw_field d) m fs) \<and>
     (\<forall>t d'. 0 \<le> t \<and> t < T \<and> 0 \<le> d' \<and> d' < I \<longrightarrow>
        get_at (foldl (InitializeDenseNdw_field d) m fs) t d' =
          (if d' = int d
           then accumulate (get_at m t d') (concat (map (\<lambda>field. occurrences_field field t) fs))
           else get_at m t d'))"
proof (induction fs arbitrary: m)
  case Nil
  then show ?case by simp
next
  case (Cons field fs)
  from Cons.prems have ids: "list_all (\<lambda>token_id. 0 \<le> token_id \<and> token_id < T) (field_token_id field)"
    and rest: "list_all (\<lambda>field. list_all (\<lambda>token_id. 0 \<le> token_id \<and> token_id < T)
                 (field_token_id field)) fs"
    by simp_all
  note F = InitializeDenseNdw_field_get [OF Cons.prems(1) d ids]
  note IH = Cons.IH [OF F(1) rest]
  show ?case
  proof (intro conjI allI impI)
    show "row_major T I (foldl (InitializeDenseNdw_field d) m (field # fs))"
      using IH by simp
  next
    fix t d' assume t: "0 \<le> t \<and> t < T \<and> 0 \<le> d' \<and> d' < I"
    then have "get_at (foldl (InitializeDenseNdw_field d) m (field # fs)) t d' =
          (if d' = int d
           then accumulate (get_at (InitializeDenseNdw_field d m field) t d')
                  (concat (map (\<lambda>field. occurrences_field field t) fs))
           else get_at (InitializeDenseNdw_field d m field) t d')"
      using IH by simp
    also have "get_at (InitializeDenseNdw_field d m field) t d' =
           (if d' = int d then accumulate (get_at m t d') (occurrences_field field t)
            else get_at m t d')"
      using t F(2) by simp
    finally show "get_at (foldl (InitializeDenseNdw_field d) m (field # fs)) t d' =
          (if d' = int d
           then accumulate (get_at m t d')
                  (concat (map (\<lambda>field. occurrences_field field t) (field # fs)))
           else get_at m t d')"
      by (simp add: accumulate_append)
  qed
qed

text \<open>The loop over the items, after \<open>n\<close> items.\<close>

lemma dense_items_get:
  assumes ids: "token_ids_in_range batch"
    and m: "row_major (int (length (batch_token batch))) (int (length (batch_item batch))) m"
  shows "n \<le> length (batch_item batch) \<Longrightarrow>
     row_major (int (length (batch_token batch))) (int (length (batch_item batch)))
       (foldl (\<lambda>m item_index. foldl (InitializeDenseNdw_field item_index) m
                                 (item_field (batch_item batch ! item_index))) m [0..<n]) \<and>
     (\<forall>t d'. t < length (batch_token batch) \<and> d' < length (batch_item batch) \<longrightarrow>
        get_at (foldl (\<lambda>m item_index. foldl (InitializeDenseNdw_field item_index) m
                                 (item_field (batch_item batch ! item_index))) m [0..<n])
               (int t) (int d') =
          (if d' < n then accumulate (get_at m (int t) (int d')) (occurrences batch d' (int t))
           else get_at m (int t) (int d')))"
proof (induction n)
  case 0
  with m show ?case by simp
next
  case (Suc n)
  define R where "R = foldl (\<lambda>m item_index. foldl (InitializeDenseNdw_field item_index) m
                                 (item_field (batch_item batch ! item_index))) m [0..<n]"
  from Suc have n: "n < length (batch_item batch)" by simp
  from Suc have R: "row_major (int (length (batch_token batch))) (int (length (batch_item batch))) R"
    and get: "\<And>t d'. t < length (batch_token batch) \<Longrightarrow> d' < length (batch_item batch) \<Longrightarrow>
        get_at R (int t) (int d') =
          (if d' < n then accumulate (get_at m (int t) (int d')) (occurrences batch d' (int t))
           else get_at m (int t) (int d'))"
    unfolding R_def by simp_all
  have fields: "list_all (\<lambda>field. list_all (\<lambda>token_id. 0 \<le> token_id \<and>
        token_id < int (length (batch_token batch))) (field_token_id field))
      (item_field (batch_item batch ! n))"
    using ids n by (simp add: token_ids_in_range_def list_all_length)
  have nI: "int n < int (length (batch_item batch))" using n by simp
  note F = dense_fields_get [OF nI R fields]
  have step: "foldl (\<lambda>m item_index. foldl (InitializeDenseNdw_field item_index) m
                                 (item_field (batch_item batch ! item_index))) m [0..<Suc n] =
      foldl (InitializeDenseNdw_field n) R (item_field (batch_item batch ! n))"
    by (simp add: R_def)
  show ?case
    unfolding step
  proof (intro conjI allI impI)
    show "row_major (int (length (batch_token batch))) (int (length (batch_item batch)))
       (foldl (InitializeDenseNdw_field n) R (item_field (batch_item batch ! n)))"
      using F by simp
  next
    fix t d' assume t: "t < length (batch_token batch) \<and> d' < length (batch_item batch)"
    then have "get_at (foldl (InitializeDenseNdw_field n) R (item_field (batch_item batch ! n)))
                 (int t) (int d') =
          (if int d' = int n
           then accumulate (get_at R (int t) (int d'))
                  (concat (map (\<lambda>field. occurrences_field field (int t))
                     (item_field (batch_item batch ! n))))
           else get_at R (int t) (int d'))"
      using F by simp
    with get [of t d'] t
    show "get_at (foldl (InitializeDenseNdw_field n) R (item_field (batch_item batch ! n)))
                 (int t) (int d') =
          (if d' < Suc n then accumulate (get_at m (int t) (int d')) (occurrences batch d' (int t))
           else get_at m (int t) (int d'))"
      by (auto simp: occurrences_def)
  qed
qed

lemma InitializeZeros_row_major:
  "row_major (int T) (int I) (InitializeZeros (DenseMatrix_new (int T) (int I) True))"
  by (auto simp: row_major_def InitializeZeros_def DenseMatrix_new_def)

lemma InitializeZeros_get:
  assumes "t < T" "d < I"
  shows "get_at (InitializeZeros (DenseMatrix_new (int T) (int I) True)) (int t) (int d) = Fin 0"
proof -
  have "0 \<le> int t" "int t < int T" "0 \<le> int d" "int d < int I" using assms by simp_all
  from row_major_offset(2) [OF InitializeZeros_row_major this]
  show ?thesis by (simp add: get_at_def InitializeZeros_def)
qed

text \<open>The accumulation is exact while the total is at most \<open>2 ^ 24\<close>.\<close>

lemma accumulate_exact:
  "0 \<le> a \<Longrightarrow> list_all (\<lambda>c. 0 \<le> c) counts \<Longrightarrow> a + sum_list counts \<le> 16777216 \<Longrightarrow>
   accumulate (Fin (of_int a)) counts = Fin (of_int (a + sum_list counts))"
proof (induction counts arbitrary: a)
  case Nil
  then show ?case by simp
next
  case (Cons c counts)
  from Cons.prems have c: "0 \<le> c" and cs: "list_all (\<lambda>c. 0 \<le> c) counts" by simp_all
  have s: "0 \<le> sum_list counts" using cs by (induction counts) simp_all
  have "\<bar>c\<bar> \<le> 16777216" "\<bar>a + c\<bar> \<le> 16777216" using Cons.prems c s by simp_all
  then have "fadd binary32 (Fin (of_int a)) (fp_of_int binary32 c) = Fin (of_int (a + c))"
    using binary32_of_int_exact [of c] binary32_of_int_exact [of "a + c"]
    by (simp add: fp_of_int_def)
  then have "accumulate (Fin (of_int a)) (c # counts) = accumulate (Fin (of_int (a + c))) counts"
    by (simp add: accumulate_def)
  also have "\<dots> = Fin (of_int (a + c + sum_list counts))"
    using Cons.prems c cs by (intro Cons.IH) simp_all
  finally show ?case by (simp add: add.assoc)
qed

text \<open>
  Claim C5, amended. \<^verbatim>\<open>InitializeDenseNdw\<close> returns a matrix with one row per batch token and one
  column per item. For a batch whose token ids are indices into its tokens, the entry of
  a token and an item is the single-precision accumulation, from zero, of the counts of
  the occurrences of the token in the fields of the item; it is their sum when the counts
  are not negative and the sum is at most \<open>2 ^ 24\<close>. No model config, and so no class
  weight, enters the function.
\<close>

theorem InitializeDenseNdw_entries:
  assumes "token_ids_in_range batch"
    and "t < length (batch_token batch)" and "d < length (batch_item batch)"
  shows "no_rows (InitializeDenseNdw batch) = int (length (batch_token batch)) \<and>
         no_columns (InitializeDenseNdw batch) = int (length (batch_item batch)) \<and>
         get_at (InitializeDenseNdw batch) (int t) (int d) =
           accumulate (Fin 0) (occurrences batch d (int t)) \<and>
         (list_all (\<lambda>c. 0 \<le> c) (occurrences batch d (int t)) \<and>
          sum_list (occurrences batch d (int t)) \<le> 2 ^ 24 \<longrightarrow>
            get_at (InitializeDenseNdw batch) (int t) (int d) =
              Fin (of_int (sum_list (occurrences batch d (int t)))))"
proof -
  define m0 where "m0 = InitializeZeros (DenseMatrix_new (int (length (batch_token batch)))
                      (int (length (batch_item batch))) True)"
  have m0: "row_major (int (length (batch_token batch))) (int (length (batch_item batch))) m0"
    unfolding m0_def by (rule InitializeZeros_row_major)
  have D: "InitializeDenseNdw batch =
      foldl (\<lambda>m item_index. foldl (InitializeDenseNdw_field item_index) m
                                 (item_field (batch_item batch ! item_index))) m0
            [0..<length (batch_item batch)]"
    by (simp add: InitializeDenseNdw_def m0_def Let_def)
  note L = dense_items_get [OF assms(1) m0 le_refl, folded D]
  have dims: "no_rows (InitializeDenseNdw batch) = int (length (batch_token batch))"
    "no_columns (InitializeDenseNdw batch) = int (length (batch_item batch))"
    using L by (simp_all add: row_major_def)
  have "get_at (InitializeDenseNdw batch) (int t) (int d) =
      accumulate (get_at m0 (int t) (int d)) (occurrences batch d (int t))"
    using L assms(2,3) by simp
  also have "get_at m0 (int t) (int d) = Fin 0"
    unfolding m0_def using assms(2,3) by (rule InitializeZeros_get)
  finally have g: "get_at (InitializeDenseNdw batch) (int t) (int d) =
      accumulate (Fin 0) (occurrences batch d (int t))" .
  have e: "list_all (\<lambda>c. 0 \<le> c) (occurrences batch d (int t)) \<and>
          sum_list (occurrences batch d (int t)) \<le> 2 ^ 24 \<longrightarrow>
            get_at (InitializeDenseNdw batch) (int t) (int d) =
              Fin (of_int (sum_list (occurrences batch d (int t))))"
    using accumulate_exact [of 0 "occurrences batch d (int t)"] by (simp add: g)
  show ?thesis
    by (intro conjI) (rule dims g e)+
qed

text \<open>In the example, token 1 occurs with the counts 3 and 1: the dense entry is 4, while
  the sparse entries of the token under the class weight 3 are 9 and 3.\<close>

theorem InitializeDenseNdw_entries_witness:
  "token_ids_in_range example_class_batch \<and>
   occurrences example_class_batch 0 1 = [3, 1] \<and>
   get_at (InitializeDenseNdw example_class_batch) 1 0 = Fin 4 \<and>
   no_rows (InitializeDenseNdw example_class_batch) = 3 \<and>
   no_columns (InitializeDenseNdw example_class_batch) = 1 \<and>
   csr_val (InitializeSparseNdw example_class_batch example_class_config) = [Fin 4, Fin 9, Fin 3, Fin 0] \<and>
   csr_col_ind (InitializeSparseNdw example_class_batch example_class_config) = [0, 1, 1, 2]"
proof -
  have r: "token_ids_in_range example_class_batch"
    by (simp add: token_ids_in_range_def)
  have o: "occurrences example_class_batch 0 1 = [3, 1]"
    by (simp add: occurrences_def occurrences_field_def eval_nat_numeral)
  have "1 < length (batch_token example_class_batch)" "0 < length (batch_item example_class_batch)"
    by simp_all
  note T = InitializeDenseNdw_entries [OF r this]
  have "list_all (\<lambda>c. 0 \<le> c) (occurrences example_class_batch 0 (int 1)) \<and>
        sum_list (occurrences example_class_batch 0 (int 1)) \<le> 2 ^ 24"
    by (simp add: o)
  with T have "get_at (InitializeDenseNdw example_class_batch) (int 1) (int 0) =
      Fin (of_int (sum_list (occurrences example_class_batch 0 (int 1))))"
    by blast
  then have g: "get_at (InitializeDenseNdw example_class_batch) 1 0 = Fin 4"
    by (simp add: o)
  have dims: "no_rows (InitializeDenseNdw example_class_batch) = 3"
    "no_columns (InitializeDenseNdw example_class_batch) = 1"
    using T by simp_all
  have w: "class_weight_of example_class_batch example_class_config 0 = Fin 2"
    "class_weight_of example_class_batch example_class_config 1 = Fin 3"
    "class_weight_of example_class_batch example_class_config 2 = Fin 0"
    by (simp_all add: class_weight_of_def class_id_to_weight_def eval_nat_numeral)
  have s: "InitializeSparseNdw example_class_batch example_class_config =
    \<lparr>csr_m = 1, csr_n = 3, csr_nnz = 4, csr_val = [Fin 4, Fin 9, Fin 3, Fin 0],
     csr_row_ptr = [0, 4], csr_col_ind = [0, 1, 1, 2]\<rparr>"
    by (simp add: InitializeSparseNdw_def InitializeSparseNdw_item_def sparse_item_entries_def
        sparse_field_entries_def w CsrMatrix_new_def fp_of_int_def round32_small Let_def eval_nat_numeral)
  from r o g dims s show ?thesis by simp
qed

section \<open>Properties of the Theta normalization\<close>

















section \<open>Rounding errors of the Theta normalization\<close>




















lemma ex_wide_length [simp]: "length example_wide_column = 35"
  by (simp add: example_wide_column_def)





lemma ex_wide_config_fields [simp]:
  "config_topics_count example_wide_config = 35"
  "config_regularizer_name example_wide_config = []"
  by (simp_all add: example_wide_config_def)







section \<open>The dense accumulation beyond 24 bits\<close>

lemma InitializeDenseNdw_get:
  assumes "token_ids_in_range batch"
    and "t < length (batch_token batch)" and "d < length (batch_item batch)"
  shows "get_at (InitializeDenseNdw batch) (int t) (int d) =
           accumulate (Fin 0) (occurrences batch d (int t))"
proof -
  define m0 where "m0 = InitializeZeros (DenseMatrix_new (int (length (batch_token batch)))
                      (int (length (batch_item batch))) True)"
  have m0: "row_major (int (length (batch_token batch))) (int (length (batch_item batch))) m0"
    unfolding m0_def by (rule InitializeZeros_row_major)
  have D: "InitializeDenseNdw batch =
      foldl (\<lambda>m item_index. foldl (InitializeDenseNdw_field item_index) m
                                 (item_field (batch_item batch ! item_index))) m0
            [0..<length (batch_item batch)]"
    by (simp add: InitializeDenseNdw_def m0_def Let_def)
  note L = dense_items_get [OF assms(1) m0 le_refl, folded D]
  have "get_at (InitializeDenseNdw batch) (int t) (int d) =
      accumulate (get_at m0 (int t) (int d)) (occurrences batch d (int t))"
    using L assms(2,3) by simp
  also have "get_at m0 (int t) (int d) = Fin 0"
    unfolding m0_def using assms(2,3) by (rule InitializeZeros_get)
  finally show ?thesis .
qed

lemma round32_tie_2p24: "round_fmt binary32 16777217 = Fin 16777216"
proof -
  have "round_fmt binary32 16777217 = Fin (of_int 8388608 * 2)"
    by (rule round_fmt_tieI [where e = 24]) (simp_all add: pow2_def binary32_def max_finite_def)
  then show ?thesis by simp
qed

lemma round32_2p24: "round_fmt binary32 16777216 = Fin 16777216"
  using binary32_of_int_exact [of 16777216] by simp

lemma ex_big_batch_fields [simp]:
  "batch_token example_big_batch = [''a'']"
  "batch_item example_big_batch =
     [\<lparr>item_id = 7, item_field = [\<lparr>field_token_id = [0, 0, 0],
                                    field_token_count = [16777216, 1, 1]\<rparr>]\<rparr>]"
  by (simp_all add: example_big_batch_def)

text \<open>
  Claim C5 as stated fails once the sum needs more than 24 bits: the entry is
  accumulated in single precision, and \<open>2\<^sup>2\<^sup>4 + 1\<close> rounds back to \<open>2\<^sup>2\<^sup>4\<close>. For the counts
  \<open>2\<^sup>2\<^sup>4\<close>, 1 and 1 the entry is \<open>16777216\<close>, while the counts add up to \<open>16777218\<close>.
\<close>

theorem InitializeDenseNdw_entries_counterexample:
  "token_ids_in_range example_big_batch \<and>
   occurrences example_big_batch 0 0 = [16777216, 1, 1] \<and>
   sum_list (occurrences example_big_batch 0 0) = 16777218 \<and>
   get_at (InitializeDenseNdw example_big_batch) 0 0 = Fin 16777216 \<and>
   get_at (InitializeDenseNdw example_big_batch) 0 0 \<noteq>
     Fin (of_int (sum_list (occurrences example_big_batch 0 0)))"
proof -
  have r: "token_ids_in_range example_big_batch"
    by (simp add: token_ids_in_range_def)
  have o: "occurrences example_big_batch 0 0 = [16777216, 1, 1]"
    by (simp add: occurrences_def occurrences_field_def eval_nat_numeral)
  have "0 < length (batch_token example_big_batch)" "0 < length (batch_item example_big_batch)"
    by simp_all
  from InitializeDenseNdw_get [OF r this]
  have "get_at (InitializeDenseNdw example_big_batch) 0 0 = accumulate (Fin 0) [16777216, 1, 1]"
    by (simp add: o)
  also have "\<dots> = Fin 16777216"
    by (simp add: accumulate_def fp_of_int_def round32_2p24 round32_tie_2p24)
  finally have g: "get_at (InitializeDenseNdw example_big_batch) 0 0 = Fin 16777216" .
  from r o g show ?thesis by simp
qed

section \<open>The one-shot query on an empty Phi\<close>

text \<open>
  Claim C8 as stated fails for a model whose topic model knows no token of the batch:
  the topic model exists and both checks pass, but Phi is empty, and the query returns
  without running the EM loop and without a Theta.
\<close>

theorem FindThetaMatrix_errors_counterexample:
  "GetLatestTopicModel example_processor ''empty'' = Some (example_topic_model False) \<and>
   length (config_class_id (schema_model_config (schema_get example_processor) ''empty'')) =
   length (config_class_weight (schema_model_config (schema_get example_processor) ''empty'')) \<and>
   tm_topic_size (example_topic_model False) =
   config_topics_count (schema_model_config (schema_get example_processor) ''empty'') \<and>
   InitializePhi example_batch (schema_model_config (schema_get example_processor) ''empty'')
     (example_topic_model False) = None \<and>
   FindThetaMatrix example_processor 0 example_batch \<lparr>args_model_name = ''empty''\<rparr> = Inr None"
proof -
  have g: "GetLatestTopicModel example_processor (args_model_name \<lparr>args_model_name = ''empty''\<rparr>) =
      Some (example_topic_model False)"
    by simp
  from FindThetaMatrix_model [OF g, of 0 example_batch]
  have "FindThetaMatrix example_processor 0 example_batch \<lparr>args_model_name = ''empty''\<rparr> = Inr None"
    by (simp add: ex_phi_empty Let_def)
  then show ?thesis by (simp add: ex_phi_empty)
qed

end
